theory Spec2Isabelle
  imports Complex_Main "HOL-Library.Sublist"
begin

section \<open>Strings\<close>

text \<open>
  The configurator is one TypeScript module, \<^verbatim>\<open>src/app/page.tsx\<close>. A JavaScript string
  is a sequence of UTF-16 code units. The model uses \<^typ>\<open>string\<close>, one \<^typ>\<open>char\<close> per
  code unit, and so covers the strings whose code units are below 256 (ASCII and
  Latin-1); every literal of the module is ASCII.
\<close>

definition is_line_terminator :: "char \<Rightarrow> bool" where
  \<comment> \<open>ECMAScript LineTerminator, below 256: LF and CR.\<close>
  "is_line_terminator c \<longleftrightarrow> c = CHR 0x0A \<or> c = CHR 0x0D"

definition is_white_space :: "char \<Rightarrow> bool" where
  \<comment> \<open>ECMAScript WhiteSpace and LineTerminator, below 256: what \<^verbatim>\<open>trim\<close>, \<^verbatim>\<open>\s\<close> and
     \<^verbatim>\<open>parseInt\<close> skip.\<close>
  "is_white_space c \<longleftrightarrow>
     c \<in> set [CHR 0x09, CHR 0x0A, CHR 0x0B, CHR 0x0C, CHR 0x0D, CHR 0x20, CHR 0xA0]"

definition is_digit :: "char \<Rightarrow> bool" where
  "is_digit c \<longleftrightarrow> c \<in> set ''0123456789''"

definition trim :: "string \<Rightarrow> string" where
  "trim s = rev (dropWhile is_white_space (rev (dropWhile is_white_space s)))"

definition lower_char :: "char \<Rightarrow> char" where
  \<comment> \<open>\<^verbatim>\<open>A\<close>--\<^verbatim>\<open>Z\<close> and the Latin-1 capitals U+00C0--U+00DE (without the
     multiplication sign U+00D7) move up by 32.\<close>
  "lower_char c =
     (let n = (of_char c :: nat)
      in if (65 \<le> n \<and> n \<le> 90) \<or> (192 \<le> n \<and> n \<le> 222 \<and> n \<noteq> 215)
         then char_of (n + 32) else c)"

definition toLowerCase :: "string \<Rightarrow> string" where
  "toLowerCase s = map lower_char s"

fun str_includes :: "string \<Rightarrow> string \<Rightarrow> bool" where
  \<comment> \<open>\<^verbatim>\<open>s.includes(pat)\<close>\<close>
  "str_includes [] pat = (pat = [])"
| "str_includes (c # cs) pat = (prefix pat (c # cs) \<or> str_includes cs pat)"

definition replace_all_char :: "char \<Rightarrow> string \<Rightarrow> string \<Rightarrow> string" where
  \<comment> \<open>\<^verbatim>\<open>s.replace(/c/g, r)\<close> for a one-character pattern and a replacement without
     \<^verbatim>\<open>$\<close>: every occurrence, left to right.\<close>
  "replace_all_char c r s = concat (map (\<lambda>x. if x = c then r else [x]) s)"

fun remove_first :: "char \<Rightarrow> string \<Rightarrow> string" where
  \<comment> \<open>\<^verbatim>\<open>s.replace(c, "")\<close> with a string pattern: the first occurrence only.\<close>
  "remove_first c [] = []"
| "remove_first c (x # xs) = (if x = c then xs else x # remove_first c xs)"

fun join :: "string \<Rightarrow> string list \<Rightarrow> string" where
  "join sep [] = []"
| "join sep [x] = x"
| "join sep (x # y # ys) = x @ sep @ join sep (y # ys)"

subsection \<open>Regular expressions\<close>

text \<open>
  The module uses five regular expressions. They are kept as data and run by a
  backtracking matcher in the order ECMAScript prescribes: alternatives left to
  right, quantifiers greedy, an iteration of a star that consumes nothing rejected.
  \<open>matches r s\<close> lists, in that order of preference, what is left of \<open>s\<close> after each
  way \<open>r\<close> matches a prefix of it.
\<close>

datatype rex =
    Cls "char \<Rightarrow> bool"
  | Lit string
  | Seq rex rex
  | Alt rex rex
  | Opt rex
  | Star rex

fun matches :: "rex \<Rightarrow> string \<Rightarrow> string list" where
  "matches (Cls p) s = (case s of [] \<Rightarrow> [] | c # cs \<Rightarrow> if p c then [cs] else [])"
| "matches (Lit l) s = (if prefix l s then [drop (length l) s] else [])"
| "matches (Seq a b) s = concat (map (matches b) (matches a s))"
| "matches (Alt a b) s = matches a s @ matches b s"
| "matches (Opt a) s = matches a s @ [s]"
| "matches (Star a) s =
     concat (map (\<lambda>s'. if length s' < length s then matches (Star a) s' else [])
                 (matches a s)) @ [s]"

definition Plus :: "rex \<Rightarrow> rex" where
  "Plus a = Seq a (Star a)"

text \<open>
  \<^verbatim>\<open>s.match(/(g)rest/)\<close>, for a pattern that opens with its first capture group:
  the leftmost position where the pattern matches, and there the text of group 1
  in the first way of matching \<open>g\<close> that lets \<open>rest\<close> match. \<open>None\<close> is \<^verbatim>\<open>null\<close>.
\<close>

fun group1_here :: "rex \<Rightarrow> string \<Rightarrow> string list \<Rightarrow> string option" where
  "group1_here rest s [] = None"
| "group1_here rest s (s' # ss) =
     (if matches rest s' \<noteq> [] then Some (take (length s - length s') s)
      else group1_here rest s ss)"

fun match_group1 :: "rex \<Rightarrow> rex \<Rightarrow> string \<Rightarrow> string option" where
  "match_group1 g rest [] = group1_here rest [] (matches g [])"
| "match_group1 g rest (c # cs) =
     (case group1_here rest (c # cs) (matches g (c # cs)) of
        Some t \<Rightarrow> Some t
      | None \<Rightarrow> match_group1 g rest cs)"

text \<open>
  \<^verbatim>\<open>s.match(/r/g)\<close>: the texts of the successive leftmost matches, each search
  resuming where the last match ended. The caller tells the empty list, which is
  \<^verbatim>\<open>null\<close> in JavaScript, from the others.
\<close>

function match_all :: "rex \<Rightarrow> string \<Rightarrow> string list" where
  "match_all r [] = []"
| "match_all r (c # cs) =
     (case matches r (c # cs) of
        [] \<Rightarrow> match_all r cs
      | s' # _ \<Rightarrow>
          if length s' < length (c # cs)
          then take (length (c # cs) - length s') (c # cs) # match_all r s'
          else match_all r cs)"
  by pat_completeness auto
termination
  by (relation "measure (\<lambda>(r, s). length s)") auto

section \<open>Numbers\<close>

text \<open>
  A JavaScript number is an IEEE 754 binary64 value. The model is \<^typ>\<open>rat\<close>: a finite
  number stands for itself, exactly, and \<open>-0\<close> for \<open>0\<close> (no function below tells them
  apart). \<open>NaN\<close> and the infinities are not values of the model; where the source can
  produce \<open>NaN\<close> (\<^verbatim>\<open>parseInt\<close> of a colour chunk) the model returns an \<^typ>\<open>rat option\<close>.
  An arithmetic operation is the exact operation followed by \<open>to_double\<close>, rounding to
  the nearest binary64 value, ties to even. Overflow to infinity is not modelled: each
  sum, product and parsed numeral of the module goes straight into \<open>clamp\<close>, whose
  upper bound gives the same result for infinity as for any large finite value.
\<close>

type_synonym number = rat

fun bit_length :: "nat \<Rightarrow> nat" where
  \<comment> \<open>the number of binary digits of \<open>n\<close>; none for \<open>0\<close>\<close>
  "bit_length n = (if n = 0 then 0 else Suc (bit_length (n div 2)))"

declare bit_length.simps [simp del]

definition binary_exponent :: "rat \<Rightarrow> int" where
  \<comment> \<open>for \<open>x > 0\<close>: the \<open>n\<close> with \<open>2 ^ (n - 1) \<le> x < 2 ^ n\<close>\<close>
  "binary_exponent x =
     (if 1 \<le> x then int (bit_length (nat \<lfloor>x\<rfloor>))
      else 1 - int (bit_length (nat (\<lceil>1 / x\<rceil> - 1))))"

definition round_half_even :: "rat \<Rightarrow> int" where
  "round_half_even q =
     (let f = \<lfloor>q\<rfloor>; r = q - of_int f
      in if r < 1 / 2 then f else if 1 / 2 < r then f + 1
         else if even f then f else f + 1)"

definition to_double :: "rat \<Rightarrow> number" where
  \<comment> \<open>53 significant bits; below \<open>2 ^ -1022\<close> the spacing stays \<open>2 ^ -1074\<close>\<close>
  "to_double x =
     (if x = 0 then 0
      else let e = max (binary_exponent \<bar>x\<bar> - 1) (- 1022);
               u = 2 powi (e - 52)
           in of_int (round_half_even (x / u)) * u)"

definition js_add :: "number \<Rightarrow> number \<Rightarrow> number" where
  "js_add a b = to_double (a + b)"

definition js_mul :: "number \<Rightarrow> number \<Rightarrow> number" where
  "js_mul a b = to_double (a * b)"

definition js_div :: "number \<Rightarrow> number \<Rightarrow> number" where
  \<comment> \<open>for a divisor other than \<open>0\<close>\<close>
  "js_div a b = to_double (a / b)"

definition clamp :: "number \<Rightarrow> number \<Rightarrow> number \<Rightarrow> number" where
  "clamp v mn mx = min (max v mn) mx"

definition isInteger :: "number \<Rightarrow> bool" where
  "isInteger x \<longleftrightarrow> of_int \<lfloor>x\<rfloor> = x"

subsection \<open>Numbers to text\<close>

definition digit_char :: "nat \<Rightarrow> char" where
  "digit_char d = ''0123456789'' ! d"

fun show_nat :: "nat \<Rightarrow> string" where
  "show_nat n =
     (if n < 10 then [digit_char n] else show_nat (n div 10) @ [digit_char (n mod 10)])"

declare show_nat.simps [simp del]

definition decimal_exponent :: "rat \<Rightarrow> int" where
  \<comment> \<open>for \<open>x > 0\<close>: the \<open>n\<close> with \<open>10 ^ (n - 1) \<le> x < 10 ^ n\<close>\<close>
  "decimal_exponent x =
     (if 1 \<le> x then int (length (show_nat (nat \<lfloor>x\<rfloor>)))
      else 1 - int (length (show_nat (nat (\<lceil>1 / x\<rceil> - 1)))))"

text \<open>
  \<^verbatim>\<open>Number::toString\<close> (ECMAScript 6.1.6.1.20): the fewest digits \<open>k\<close> and the
  integer \<open>s\<close> of \<open>k\<close> digits with \<open>s * 10 ^ (n - k)\<close> rounding to \<open>x\<close>, the nearest to \<open>x\<close>
  if there are several; 17 digits always suffice for a binary64 value.
\<close>

definition pick_digits :: "rat \<Rightarrow> int \<Rightarrow> nat \<Rightarrow> nat option" where
  "pick_digits x n k =
     (let scale = 10 powi (n - int k);
          lo = nat \<lfloor>x / scale\<rfloor>;
          hi = lo + 1;
          ok = (\<lambda>s. to_double (of_nat s * scale) = x);
          dlo = x - of_nat lo * scale;
          dhi = of_nat hi * scale - x
      in if ok lo \<and> ok hi
         then (if dlo < dhi then Some lo else if dhi < dlo then Some hi
               else if even lo then Some lo else Some hi)
         else if ok lo then Some lo
         else if ok hi then Some hi
         else None)"

fun shortest_digits :: "rat \<Rightarrow> int \<Rightarrow> nat list \<Rightarrow> (nat \<times> nat) option" where
  "shortest_digits x n [] = None"
| "shortest_digits x n (k # ks) =
     (case pick_digits x n k of
        Some s \<Rightarrow> Some (s, k)
      | None \<Rightarrow> shortest_digits x n ks)"

definition number_toString :: "number \<Rightarrow> string" where
  "number_toString x =
     (if x = 0 then ''0''
      else
        let a = \<bar>x\<bar>;
            n0 = decimal_exponent a;
            (s0, k) = (case shortest_digits a n0 [1..<18] of
                         Some p \<Rightarrow> p
                       | None \<Rightarrow> (nat (round_half_even (a / 10 powi (n0 - 17))), 17));
            (s, n) = (if s0 = 10 ^ k then (10 ^ (k - 1), n0 + 1) else (s0, n0));
            ds = show_nat s
        in (if x < 0 then ''-'' else []) @
           (if - 5 \<le> n \<and> n \<le> 21
            then (if int k \<le> n then ds @ replicate (nat (n - int k)) CHR ''0''
                  else if 0 < n then take (nat n) ds @ ''.'' @ drop (nat n) ds
                  else ''0.'' @ replicate (nat (- n)) CHR ''0'' @ ds)
            else (if k = 1 then ds else take 1 ds @ ''.'' @ drop 1 ds) @
                 ''e'' @ (if n < 0 then ''-'' else ''+'') @ show_nat (nat \<bar>n - 1\<bar>)))"

text \<open>
  \<^verbatim>\<open>Number.prototype.toFixed\<close> (ECMAScript 21.1.3.3) for \<open>f\<close> fraction digits: the
  integer \<open>n\<close> nearest to \<open>x * 10 ^ f\<close>, the larger one on a tie, written with the point
  \<open>f\<close> digits from the right; from \<open>10 ^ 21\<close> on, \<^verbatim>\<open>Number::toString\<close> instead.
\<close>

definition toFixed :: "nat \<Rightarrow> number \<Rightarrow> string" where
  "toFixed f x =
     (let s = (if x < 0 then ''-'' else []);
          x = \<bar>x\<bar>
      in if 10 ^ 21 \<le> x then s @ number_toString x
         else
           let n = nat \<lfloor>x * 10 ^ f + 1 / 2\<rfloor>;
               m = show_nat n;
               k = length m;
               m = (if f \<noteq> 0 \<and> k \<le> f then replicate (f + 1 - k) CHR ''0'' @ m else m);
               k = length m
           in s @ (if f \<noteq> 0 then take (k - f) m @ ''.'' @ drop (k - f) m else m))"

definition formatNumber :: "number \<Rightarrow> string" where
  "formatNumber v = (if isInteger v then toFixed 0 v else toFixed 2 v)"

subsection \<open>Text to numbers\<close>

definition digit_value :: "char \<Rightarrow> nat" where
  \<comment> \<open>the value of a digit of \<^verbatim>\<open>parseInt\<close>; 36 for any other character\<close>
  "digit_value c =
     (let n = (of_char c :: nat)
      in if 48 \<le> n \<and> n \<le> 57 then n - 48
         else if 97 \<le> n \<and> n \<le> 122 then n - 87
         else if 65 \<le> n \<and> n \<le> 90 then n - 55
         else 36)"

definition digits_value :: "nat \<Rightarrow> string \<Rightarrow> nat" where
  "digits_value radix ds = foldl (\<lambda>acc c. acc * radix + digit_value c) 0 ds"

definition parseInt :: "string \<Rightarrow> nat \<Rightarrow> number option" where
  \<comment> \<open>\<^verbatim>\<open>parseInt(str, radix)\<close> (ECMAScript 19.2.5) for a radix from 2 to 36;
     \<open>None\<close> is \<open>NaN\<close>\<close>
  "parseInt str radix =
     (let s = dropWhile is_white_space str;
          neg = (s \<noteq> [] \<and> hd s = CHR ''-'');
          s = (if s \<noteq> [] \<and> (hd s = CHR ''+'' \<or> hd s = CHR ''-'') then tl s else s);
          s = (if radix = 16 \<and> (prefix ''0x'' s \<or> prefix ''0X'' s) then drop 2 s else s);
          z = takeWhile (\<lambda>c. digit_value c < radix) s
      in if z = [] then None
         else Some (to_double ((if neg then - 1 else 1) * of_nat (digits_value radix z))))"

definition parseFloat :: "string \<Rightarrow> number option" where
  \<comment> \<open>\<^verbatim>\<open>parseFloat\<close> on an unsigned decimal numeral without exponent, which is all
     the module passes to it: the longest prefix \<^verbatim>\<open>digits [. digits]\<close> or
     \<^verbatim>\<open>. digits\<close>; \<open>None\<close> is \<open>NaN\<close>\<close>
  "parseFloat str =
     (let ip = takeWhile is_digit str;
          r = dropWhile is_digit str;
          fp = (if r \<noteq> [] \<and> hd r = CHR ''.'' then takeWhile is_digit (tl r) else [])
      in if ip = [] \<and> fp = [] then None
         else Some (to_double (of_nat (digits_value 10 ip)
                               + of_nat (digits_value 10 fp) / 10 ^ length fp)))"

definition number_of :: "number option \<Rightarrow> number" where
  \<comment> \<open>A parsed number where the text is a capture of \<^verbatim>\<open>\d+\<close>, which always parses;
     \<open>NaN\<close> has no value in the model.\<close>
  "number_of r = (case r of Some v \<Rightarrow> v | None \<Rightarrow> 0)"

section \<open>The configuration\<close>

datatype FacadePattern = Grid | Stacked | Offset

datatype BalconyFrequency = NoBalconies | Alternate | Every | Corners

datatype RoofStyle = Flat | Pitched | Sawtooth

text \<open>
  The three types are unions of string literals in the source; these are the strings,
  which the script generator writes out as they are.
\<close>

fun facadePattern_text :: "FacadePattern \<Rightarrow> string" where
  "facadePattern_text Grid = ''grid''"
| "facadePattern_text Stacked = ''stacked''"
| "facadePattern_text Offset = ''offset''"

fun balconyFrequency_text :: "BalconyFrequency \<Rightarrow> string" where
  "balconyFrequency_text NoBalconies = ''none''"
| "balconyFrequency_text Alternate = ''alternate''"
| "balconyFrequency_text Every = ''every''"
| "balconyFrequency_text Corners = ''corners''"

fun roofStyle_text :: "RoofStyle \<Rightarrow> string" where
  "roofStyle_text Flat = ''flat''"
| "roofStyle_text Pitched = ''pitched''"
| "roofStyle_text Sawtooth = ''sawtooth''"

record Palette =
  base :: string
  accent :: string
  glazing :: string
  balcony :: string
  roof :: string

record BuildingConfig =
  projectName :: string
  narrative :: string
  floors :: number
  floorHeight :: number
  lobbyHeight :: number
  width :: number
  depth :: number
  coreWidth :: number
  coreDepth :: number
  baseHeight :: number
  structuralGrid :: number
  unitsPerFloor :: number
  facadePattern :: FacadePattern
  windowModule :: number
  windowWidth :: number
  windowHeight :: number
  spandrelHeight :: number
  balconyDepth :: number
  balconyFrequency :: BalconyFrequency
  roofStyle :: RoofStyle
  podiumLevels :: number
  podiumSetback :: number
  includePodium :: bool
  hasAtrium :: bool
  addRooftopGarden :: bool
  includeSolarPanels :: bool
  includeLightShelves :: bool
  colors :: Palette

definition defaultConfig :: BuildingConfig where
  "defaultConfig =
     \<lparr> projectName = ''Aurora Habitat Tower'',
       narrative = ''A mixed-use tower prioritizing daylight, biophilic terraces, and a flexible core for future adaptation.'',
       floors = 18,
       floorHeight = to_double (36 / 10),
       lobbyHeight = 6,
       width = 38,
       depth = 26,
       coreWidth = 10,
       coreDepth = 8,
       baseHeight = to_double (12 / 10),
       structuralGrid = to_double (75 / 10),
       unitsPerFloor = 8,
       facadePattern = Grid,
       windowModule = to_double (32 / 10),
       windowWidth = to_double (26 / 10),
       windowHeight = to_double (24 / 10),
       spandrelHeight = to_double (8 / 10),
       balconyDepth = to_double (21 / 10),
       balconyFrequency = Alternate,
       roofStyle = Flat,
       podiumLevels = 3,
       podiumSetback = 4,
       includePodium = True,
       hasAtrium = True,
       addRooftopGarden = True,
       includeSolarPanels = True,
       includeLightShelves = False,
       colors = \<lparr> base = ''#4d5c6f'', accent = ''#c48f5a'', glazing = ''#85c3ff'',
                  balcony = ''#f2ede4'', roof = ''#37414f'' \<rparr> \<rparr>"

section \<open>The script generator\<close>

definition escapePythonString :: "string \<Rightarrow> string" where
  \<comment> \<open>\<^verbatim>\<open>value.replace(/\\/g, "\\\\").replace(/"/g, '\\"')\<close>: the backslashes first,
     then the double quotes.\<close>
  "escapePythonString v =
     replace_all_char (CHR 0x22) [CHR 0x5C, CHR 0x22]
       (replace_all_char (CHR 0x5C) [CHR 0x5C, CHR 0x5C] v)"

text \<open>
  \<^verbatim>\<open>hexToRgb\<close> cuts the colour, without its first \<^verbatim>\<open>#\<close>, into chunks and parses each in
  base 16. The regular expression is \<^verbatim>\<open>/.{1,2}/g\<close>, where the dot is any code unit but
  a line terminator. A channel is \<open>None\<close> where JavaScript has \<open>NaN\<close> (a chunk without
  a leading hex digit) or \<^verbatim>\<open>undefined\<close> (fewer than three chunks); both render as
  \<^verbatim>\<open>NaN\<close> once divided by 255.
\<close>

definition any_but_newline :: rex where
  "any_but_newline = Cls (\<lambda>c. \<not> is_line_terminator c)"

definition one_or_two :: rex where
  "one_or_two = Seq any_but_newline (Opt any_but_newline)"

definition element :: "'a option list \<Rightarrow> nat \<Rightarrow> 'a option" where
  \<comment> \<open>an array element read by destructuring: \<^verbatim>\<open>undefined\<close> past the end\<close>
  "element xs i = (if i < length xs then xs ! i else None)"

definition hexToRgb :: "string \<Rightarrow> number option \<times> number option \<times> number option" where
  "hexToRgb hex =
     (let cleaned = remove_first CHR ''#'' hex;
          chunk = (if length cleaned = 3 then map (\<lambda>c. [c, c]) cleaned
                   else (case match_all one_or_two cleaned of
                           [] \<Rightarrow> [''00'', ''00'', ''00'']
                         | ms \<Rightarrow> ms));
          parsed = map (\<lambda>c. parseInt c 16) chunk
      in (element parsed 0, element parsed 1, element parsed 2))"

definition normalize :: "number option \<Rightarrow> string" where
  \<comment> \<open>\<^verbatim>\<open>(channel / 255).toFixed(4)\<close>\<close>
  "normalize channel =
     (case channel of None \<Rightarrow> ''NaN'' | Some ch \<Rightarrow> toFixed 4 (js_div ch 255))"

definition colorToPythonTuple :: "string \<Rightarrow> string" where
  "colorToPythonTuple hex =
     (case hexToRgb hex of
        (r, g, b) \<Rightarrow>
          ''('' @ normalize r @ '', '' @ normalize g @ '', '' @ normalize b @ '', 1.0)'')"

definition pythonBoolean :: "bool \<Rightarrow> string" where
  "pythonBoolean v = (if v then ''True'' else ''False'')"

definition dimsPython :: "BuildingConfig \<Rightarrow> string" where
  \<open>dimsPython config = join [CHR 0x0A]
     [''{'',
      ''        "width": '' @ formatNumber (width config) @ '','',
      ''        "depth": '' @ formatNumber (depth config) @ '','',
      ''        "floor_height": '' @ formatNumber (floorHeight config) @ '','',
      ''        "lobby_height": '' @ formatNumber (lobbyHeight config) @ '','',
      ''        "base_height": '' @ formatNumber (baseHeight config) @ '','',
      ''        "core_width": '' @ formatNumber (coreWidth config) @ '','',
      ''        "core_depth": '' @ formatNumber (coreDepth config) @ '','',
      ''        "podium_levels": '' @ formatNumber (podiumLevels config) @ '','',
      ''        "podium_setback": '' @ formatNumber (podiumSetback config),
      ''    }'']\<close>

definition facadePython :: "BuildingConfig \<Rightarrow> string" where
  \<open>facadePython config = join [CHR 0x0A]
     [''{'',
      ''        "pattern": "'' @ facadePattern_text (facadePattern config) @ ''",'',
      ''        "module": '' @ formatNumber (windowModule config) @ '','',
      ''        "window_width": '' @ formatNumber (windowWidth config) @ '','',
      ''        "window_height": '' @ formatNumber (windowHeight config) @ '','',
      ''        "spandrel_height": '' @ formatNumber (spandrelHeight config) @ '','',
      ''        "balcony_depth": '' @ formatNumber (balconyDepth config) @ '','',
      ''        "balcony_frequency": "'' @ balconyFrequency_text (balconyFrequency config) @ ''",'',
      ''        "include_light_shelves": '' @ pythonBoolean (includeLightShelves config),
      ''    }'']\<close>

definition lines_text :: "string list \<Rightarrow> string" where
  \<comment> \<open>lines of a template literal, each closed by a line feed\<close>
  "lines_text ls = concat (map (\<lambda>l. l @ [CHR 0x0A]) ls)"

definition script_docstring :: "BuildingConfig \<Rightarrow> string list" where
  \<open>script_docstring config =
     [''"""'',
      ''Blender Building Assistant Script'',
      ''Generated for: '' @ escapePythonString (projectName config),
      ''Narrative: '' @ escapePythonString (narrative config),
      '''',
      ''Run inside Blender's scripting workspace.'',
      ''"""'',
      '''',
      ''import bpy'',
      ''import math'',
      '''']\<close>

definition script_config :: "BuildingConfig \<Rightarrow> string list" where
  \<open>script_config config =
     [''CONFIG = {'',
      ''    "project_name": "'' @ escapePythonString (projectName config) @ ''",'',
      ''    "narrative": "'' @ escapePythonString (narrative config) @ ''",'',
      ''    "floors": '' @ formatNumber (floors config) @ '','',
      ''    "units_per_floor": '' @ formatNumber (unitsPerFloor config) @ '','',
      ''    "roof_style": "'' @ roofStyle_text (roofStyle config) @ ''",'',
      ''    "include_podium": '' @ pythonBoolean (includePodium config) @ '','',
      ''    "has_atrium": '' @ pythonBoolean (hasAtrium config) @ '','',
      ''    "add_rooftop_garden": '' @ pythonBoolean (addRooftopGarden config) @ '','',
      ''    "include_solar_panels": '' @ pythonBoolean (includeSolarPanels config) @ '','',
      ''    "dimensions": '' @ dimsPython config @ '','',
      ''    "facade": '' @ facadePython config @ '','',
      ''    "colors": {'',
      ''        "base": '' @ colorToPythonTuple (base (colors config)) @ '','',
      ''        "accent": '' @ colorToPythonTuple (accent (colors config)) @ '','',
      ''        "glazing": '' @ colorToPythonTuple (glazing (colors config)) @ '','',
      ''        "balcony": '' @ colorToPythonTuple (balcony (colors config)) @ '','',
      ''        "roof": '' @ colorToPythonTuple (roof (colors config)),
      ''    }'',
      ''}'']\<close>

text \<open>
  The rest of the template is fixed Python text, the construction routines that the
  external tool runs on \<^verbatim>\<open>CONFIG\<close>; it is kept line by line.
\<close>

definition py_preamble :: "string list" where
  \<open>py_preamble =
    ['''',
     '''',
     ''# -------- Utility Helpers --------'']\<close>

definition py_clear_scene :: "string list" where
  \<open>py_clear_scene =
    [''def clear_scene():'',
     ''    bpy.ops.object.select_all(action='SELECT')'',
     ''    bpy.ops.object.delete()'',
     ''    for collection in (bpy.data.meshes, bpy.data.lights, bpy.data.cameras):'',
     ''        for block in list(collection):'',
     ''            collection.remove(block, do_unlink=True)'',
     '''',
     '''']\<close>

definition py_create_material :: "string list" where
  \<open>py_create_material =
    [''def create_material(name, color_tuple):'',
     ''    mat = bpy.data.materials.get(name)'',
     ''    if mat is None:'',
     ''        mat = bpy.data.materials.new(name=name)'',
     ''        mat.use_nodes = True'',
     ''    nodes = mat.node_tree.nodes'',
     ''    principled = nodes.get("Principled BSDF")'',
     ''    principled.inputs[0].default_value = color_tuple'',
     ''    principled.inputs[7].default_value = 0.05'',
     ''    return mat'',
     '''',
     '''',
     ''# -------- Core Systems --------'']\<close>

definition py_create_site_grid :: "string list" where
  \<open>py_create_site_grid =
    [''def create_site_grid(cfg):'',
     ''    width = cfg["dimensions"]["width"]'',
     ''    depth = cfg["dimensions"]["depth"]'',
     ''    bpy.ops.mesh.primitive_grid_add(x_subdivisions=12, y_subdivisions=12, size=max(width, depth) * 0.75)'',
     ''    plane = bpy.context.active_object'',
     ''    plane.name = f"{cfg['project_name']}::SiteGrid"'',
     ''    plane.location = (0, 0, 0)'',
     ''    plane_mat = create_material("GroundPlane", (0.12, 0.12, 0.12, 1.0))'',
     ''    plane.data.materials.append(plane_mat)'',
     '''',
     '''']\<close>

definition py_create_core :: "string list" where
  \<open>py_create_core =
    [''def create_core(cfg, materials):'',
     ''    dims = cfg["dimensions"]'',
     ''    height = dims["floor_height"] * cfg["floors"] + dims["base_height"] * 2'',
     ''    bpy.ops.mesh.primitive_cube_add(size=1)'',
     ''    core = bpy.context.active_object'',
     ''    core.name = "VerticalCore"'',
     ''    core.scale = (dims["core_width"] / 2, dims["core_depth"] / 2, height / 2)'',
     ''    core.location = (0, 0, height / 2)'',
     ''    core.data.materials.append(materials["accent"])'',
     ''    bpy.ops.object.modifier_add(type='BEVEL')'',
     ''    core.modifiers['Bevel'].width = 0.2'',
     ''    core.modifiers['Bevel'].segments = 2'',
     ''    return core'',
     '''',
     '''']\<close>

definition py_create_floor_plate :: "string list" where
  \<open>py_create_floor_plate =
    [''def create_floor_plate(cfg, level, materials):'',
     ''    dims = cfg["dimensions"]'',
     ''    z = dims["base_height"] + dims["floor_height"] * level + dims["floor_height"] / 2'',
     ''    height = dims["floor_height"]'',
     ''    if level == 0:'',
     ''        height = cfg["dimensions"]["lobby_height"]'',
     ''        z = dims["base_height"] + height / 2'',
     ''    bpy.ops.mesh.primitive_cube_add(size=1)'',
     ''    block = bpy.context.active_object'',
     ''    block.name = f"Floor_{level + 1:02d}"'',
     ''    block.scale = (dims["width"] / 2, dims["depth"] / 2, height / 2)'',
     ''    block.location = (0, 0, z)'',
     ''    block.data.materials.append(materials["base"])'',
     ''    return block'',
     '''',
     '''']\<close>

definition py_create_balcony :: "string list" where
  \<open>py_create_balcony =
    [''def create_balcony(cfg, level, col_index, total_cols, materials):'',
     ''    facade = cfg["facade"]'',
     ''    dims = cfg["dimensions"]'',
     ''    if facade["balcony_depth"] <= 0.05:'',
     ''        return'',
     ''    spacing = dims["width"] / max(1, total_cols)'',
     ''    x = -dims["width"] / 2 + spacing * (col_index + 0.5)'',
     ''    z_base = dims["base_height"] + dims["floor_height"] * level + dims["floor_height"] * 0.6'',
     ''    bpy.ops.mesh.primitive_cube_add(size=1)'',
     ''    balcony = bpy.context.active_object'',
     ''    balcony.name = f"Balcony_{level + 1:02d}_{col_index:02d}"'',
     ''    balcony.scale = (facade["window_width"] / 2, facade["balcony_depth"] / 2, dims["floor_height"] * 0.18)'',
     ''    balcony.location = (x, dims["depth"] / 2 + facade["balcony_depth"] / 2, z_base)'',
     ''    balcony.data.materials.append(materials["balcony"])'',
     ''    bpy.ops.object.modifier_add(type='BEVEL')'',
     ''    balcony.modifiers['Bevel'].width = 0.08'',
     ''    balcony.modifiers['Bevel'].segments = 2'',
     '''',
     '''']\<close>

definition py_add_windows :: "string list" where
  \<open>py_add_windows =
    [''def add_windows(cfg, level, side, materials):'',
     ''    dims = cfg["dimensions"]'',
     ''    facade = cfg["facade"]'',
     ''    module = max(1.0, facade["module"])'',
     ''    window_w = facade["window_width"]'',
     ''    window_h = facade["window_height"]'',
     ''    is_front_back = side in ("front", "back")'',
     ''    width = dims["width"] if is_front_back else dims["depth"]'',
     ''    depth = dims["depth"] if is_front_back else dims["width"]'',
     ''    repetitions = max(1, int(width // module))'',
     ''    forward = depth / 2 + 0.02'',
     ''    forward = forward if side in ("front", "right") else -forward'',
     ''    parent = bpy.data.objects.get(f"Floor_{level + 1:02d}")'',
     ''    for idx in range(repetitions):'',
     ''        bpy.ops.mesh.primitive_cube_add(size=1)'',
     ''        win = bpy.context.active_object'',
     ''        win.name = f"Window_{side}_{level + 1:02d}_{idx:03d}"'',
     ''        spread = width / repetitions'',
     ''        position = -width / 2 + spread * (idx + 0.5)'',
     ''        if is_front_back:'',
     ''            win.location = (position, forward, dims["base_height"] + dims["floor_height"] * level + window_h / 2 + facade["spandrel_height"])'',
     ''            win.scale = (window_w / 2, 0.05, window_h / 2)'',
     ''        else:'',
     ''            win.location = (forward, position, dims["base_height"] + dims["floor_height"] * level + window_h / 2 + facade["spandrel_height"])'',
     ''            win.scale = (0.05, window_w / 2, window_h / 2)'',
     ''        win.data.materials.append(materials["glazing"])'',
     ''        if parent:'',
     ''            win.parent = parent'',
     '''',
     '''']\<close>

definition py_create_podium :: "string list" where
  \<open>py_create_podium =
    [''def create_podium(cfg, materials):'',
     ''    dims = cfg["dimensions"]'',
     ''    setback = cfg["dimensions"]["podium_setback"]'',
     ''    for level in range(cfg["dimensions"]["podium_levels"]):'',
     ''        bpy.ops.mesh.primitive_cube_add(size=1)'',
     ''        pod = bpy.context.active_object'',
     ''        pod.name = f"Podium_{level + 1}"'',
     ''        shrink = setback * level'',
     ''        height = dims["floor_height"]'',
     ''        pod.scale = ((dims["width"] + setback * 2 - shrink) / 2, (dims["depth"] + setback * 2 - shrink) / 2, height / 2)'',
     ''        pod.location = (0, 0, dims["base_height"] + height / 2 + level * height)'',
     ''        pod.data.materials.append(materials["accent"])'',
     '''',
     '''']\<close>

definition py_apply_roof :: "string list" where
  \<open>py_apply_roof =
    [''def apply_roof(cfg, materials):'',
     ''    dims = cfg["dimensions"]'',
     ''    top_level = cfg["floors"]'',
     ''    z = dims["base_height"] + dims["floor_height"] * top_level + dims["floor_height"] * 0.5'',
     ''    bpy.ops.mesh.primitive_cube_add(size=1)'',
     ''    roof = bpy.context.active_object'',
     ''    roof.name = "Roof"'',
     ''    roof.scale = (dims["width"] / 2, dims["depth"] / 2, 0.4)'',
     ''    roof.location = (0, 0, z)'',
     ''    roof.data.materials.append(materials["roof"])'',
     ''    if cfg["roof_style"] == "pitched":'',
     ''        bpy.ops.object.modifier_add(type='SIMPLE_DEFORM')'',
     ''        roof.modifiers['SimpleDeform'].deform_method = 'BEND'' @ [CHR 0x27],
     ''        roof.modifiers['SimpleDeform'].angle = math.radians(12)'',
     ''    elif cfg["roof_style"] == "sawtooth":'',
     ''        bpy.ops.object.modifier_add(type='ARRAY')'',
     ''        roof.modifiers['Array'].count = 4'',
     ''        roof.modifiers['Array'].relative_offset_displace[0] = 0.3'',
     '''',
     ''    if cfg["include_solar_panels"]:'',
     ''        panel_count = 10'',
     ''        for idx in range(panel_count):'',
     ''            bpy.ops.mesh.primitive_cube_add(size=1)'',
     ''            panel = bpy.context.active_object'',
     ''            panel.name = f"Solar_{idx:02d}"'',
     ''            panel.scale = (1.2, 2.4, 0.05)'',
     ''            panel.location = ('',
     ''                -dims["width"] / 2 + 2 + (idx % 5) * 3,'',
     ''                -dims["depth"] / 2 + 2 + (idx // 5) * 3,'',
     ''                z + 0.35,'',
     ''            )'',
     ''            panel.data.materials.append(materials["accent"])'',
     ''            panel.rotation_euler[0] = math.radians(12)'',
     '''',
     ''    if cfg["add_rooftop_garden"]:'',
     ''        bpy.ops.mesh.primitive_plane_add(size=min(dims["width"], dims["depth"]) * 0.65, location=(0, 0, z + 0.2))'',
     ''        garden = bpy.context.active_object'',
     ''        garden.name = "RooftopGarden"'',
     ''        garden_mat = create_material("RooftopGarden", (0.18, 0.32, 0.18, 1))'',
     ''        garden.data.materials.append(garden_mat)'',
     '''',
     '''']\<close>

definition py_carve_atrium :: "string list" where
  \<open>py_carve_atrium =
    [''def carve_atrium(cfg):'',
     ''    if not cfg["has_atrium"]:'',
     ''        return'',
     ''    dims = cfg["dimensions"]'',
     ''    bpy.ops.mesh.primitive_cube_add(size=1)'',
     ''    atrium = bpy.context.active_object'',
     ''    atrium.name = "AtriumCut"'',
     ''    atrium.scale = (dims["width"] * 0.25, dims["depth"] * 0.25, dims["floor_height"] * cfg["floors"] / 2)'',
     ''    atrium.location = (0, 0, dims["base_height"] + dims["floor_height"] * cfg["floors"] / 2)'',
     ''    for obj in bpy.data.objects:'',
     ''        if obj.name.startswith("Floor_"):'',
     ''            bool_mod = obj.modifiers.new(name="AtriumBoolean", type='BOOLEAN')'',
     ''            bool_mod.operation = 'DIFFERENCE'' @ [CHR 0x27],
     ''            bool_mod.object = atrium'',
     ''    atrium.hide_viewport = True'',
     ''    atrium.hide_render = True'',
     '''',
     '''']\<close>

definition py_tag_metadata :: "string list" where
  \<open>py_tag_metadata =
    [''def tag_metadata(cfg):'',
     ''    if "building_metadata" not in bpy.context.scene:'',
     ''        bpy.context.scene["building_metadata"] = {}'',
     ''    bpy.context.scene["building_metadata"][cfg["project_name"]] = cfg'',
     '''',
     '''']\<close>

definition py_material_library :: "string list" where
  \<open>py_material_library =
    [''def material_library(cfg):'',
     ''    base = create_material("Facade_Base", cfg["colors"]["base"])'',
     ''    accent = create_material("Facade_Accent", cfg["colors"]["accent"])'',
     ''    glazing = create_material("Facade_Glass", cfg["colors"]["glazing"])'',
     ''    balcony = create_material("Balcony_Frame", cfg["colors"]["balcony"])'',
     ''    roof = create_material("Roof_Finish", cfg["colors"]["roof"])'',
     ''    return {"base": base, "accent": accent, "glazing": glazing, "balcony": balcony, "roof": roof}'',
     '''',
     '''']\<close>

definition py_build :: "string list" where
  \<open>py_build =
    [''def build(cfg):'',
     ''    clear_scene()'',
     ''    create_site_grid(cfg)'',
     ''    materials = material_library(cfg)'',
     ''    create_core(cfg, materials)'',
     ''    if cfg["include_podium"]:'',
     ''        create_podium(cfg, materials)'',
     ''    for level in range(cfg["floors"]):'',
     ''        floor = create_floor_plate(cfg, level, materials)'',
     ''        add_windows(cfg, level, "front", materials)'',
     ''        add_windows(cfg, level, "back", materials)'',
     ''        add_windows(cfg, level, "left", materials)'',
     ''        add_windows(cfg, level, "right", materials)'',
     ''        if cfg["facade"]["balcony_frequency"] != "none" and level > 0 and cfg["facade"]["balcony_depth"] > 0.05:'',
     ''            module_count = max(3, int(cfg["dimensions"]["width"] // cfg["facade"]["module"]))'',
     ''            if cfg["facade"]["balcony_frequency"] == "every" or (cfg["facade"]["balcony_frequency"] == "alternate" and level % 2 == 0):'',
     ''                for col in range(module_count):'',
     ''                    create_balcony(cfg, level, col, module_count, materials)'',
     ''            elif cfg["facade"]["balcony_frequency"] == "corners":'',
     ''                corner_cols = max(2, module_count)'',
     ''                for col in (0, corner_cols - 1):'',
     ''                    create_balcony(cfg, level, col, corner_cols, materials)'',
     ''        if cfg["facade"]["include_light_shelves"] and level <= 6:'',
     ''            bpy.ops.mesh.primitive_cube_add(size=1)'',
     ''            shelf = bpy.context.active_object'',
     ''            shelf.name = f"LightShelf_{level + 1:02d}"'',
     ''            shelf.scale = (cfg["dimensions"]["width"] / 2, 0.25, 0.05)'',
     ''            shelf.location = (0, cfg["dimensions"]["depth"] / 2 + 0.3, floor.location[2] + cfg["facade"]["window_height"] / 2)'',
     ''            shelf.data.materials.append(materials["accent"])'',
     ''    carve_atrium(cfg)'',
     ''    apply_roof(cfg, materials)'',
     ''    tag_metadata(cfg)'',
     ''    bpy.context.view_layer.update()'',
     '''',
     '''']\<close>

definition py_main :: "string list" where
  \<open>py_main =
    [''if __name__ == "__main__":'',
     ''    build(CONFIG)'']\<close>

definition python_library :: "string list" where
  "python_library =
     py_preamble @
     py_clear_scene @
     py_create_material @
     py_create_site_grid @
     py_create_core @
     py_create_floor_plate @
     py_create_balcony @
     py_add_windows @
     py_create_podium @
     py_apply_roof @
     py_carve_atrium @
     py_tag_metadata @
     py_material_library @
     py_build @
     py_main"

definition generateBlenderScript :: "BuildingConfig \<Rightarrow> string" where
  "generateBlenderScript config =
     lines_text (script_docstring config @ script_config config @ python_library)"

section \<open>The emitted construction logic\<close>

text \<open>
  The template's Python routine \<^verbatim>\<open>build\<close> loops over the floors; these are its lines on
  balconies, with the guard that opens \<^verbatim>\<open>create_balcony\<close>:
  \<^verbatim>\<open>
  for level in range(cfg["floors"]):
      ...
      if cfg["facade"]["balcony_frequency"] != "none" and level > 0
              and cfg["facade"]["balcony_depth"] > 0.05:
          module_count = max(3, int(cfg["dimensions"]["width"] // cfg["facade"]["module"]))
          if cfg["facade"]["balcony_frequency"] == "every"
                  or (cfg["facade"]["balcony_frequency"] == "alternate" and level % 2 == 0):
              for col in range(module_count):
                  create_balcony(cfg, level, col, module_count, materials)
          elif cfg["facade"]["balcony_frequency"] == "corners":
              corner_cols = max(2, module_count)
              for col in (0, corner_cols - 1):
                  create_balcony(cfg, level, col, corner_cols, materials)

  def create_balcony(cfg, level, col_index, total_cols, materials):
      if facade["balcony_depth"] <= 0.05:
          return
      ...
  \<close>
  A number of \<^verbatim>\<open>CONFIG\<close> is a Python \<^verbatim>\<open>int\<close> where \<open>formatNumber\<close> wrote an integer and a
  \<^verbatim>\<open>float\<close> otherwise; a float is its exact value, as in JavaScript, and the literal
  \<^verbatim>\<open>0.05\<close> is \<open>to_double (5 / 100)\<close>. The model keeps, of each balcony, the floor, the
  column and the column count it was placed with, and leaves its geometry out. It
  follows this loop only: what the other routines of \<^verbatim>\<open>build\<close> do or raise is not
  modelled.
\<close>

datatype py_num = PyInt int | PyFloat rat


fun py_value :: "py_num \<Rightarrow> rat" where
  "py_value (PyInt i) = of_int i"
| "py_value (PyFloat x) = x"



record build_cfg =
  cfg_floors :: py_num
  cfg_width :: py_num
  cfg_module :: py_num
  cfg_balcony_depth :: py_num
  cfg_balcony_frequency :: string

type_synonym placement = "nat \<times> int \<times> int"

definition py_0_05 :: rat where
  "py_0_05 = to_double (5 / 100)"

definition create_balcony :: "build_cfg \<Rightarrow> nat \<Rightarrow> int \<Rightarrow> int \<Rightarrow> placement list" where
  "create_balcony cfg level col_index total_cols =
     (if py_value (cfg_balcony_depth cfg) \<le> py_0_05 then []
      else [(level, col_index, total_cols)])"




subsection \<open>String literals of the emitted script\<close>

text \<open>
  How Python reads a string literal that opens with one double quote (Python language
  reference, 2.4.1): an item is any character but a backslash, a line end or the quote,
  or a backslash and one more character. \<open>py_string_items\<close> starts after the opening
  quote and returns the value of the literal and what follows its closing quote, or
  \<open>None\<close> where the input is not such a literal: it ends, or a line ends, before the
  closing quote. The escapes \<^verbatim>\<open>\x\<close>, \<^verbatim>\<open>\N\<close>, \<^verbatim>\<open>\u\<close>, \<^verbatim>\<open>\U\<close> and the octal ones, which take
  further characters, are not read and count as malformed.
\<close>

definition py_escape :: "char \<Rightarrow> string option" where
  "py_escape d =
     (if d = CHR 0x5C then Some [CHR 0x5C]
      else if d = CHR 0x22 then Some [CHR 0x22]
      else if d = CHR 0x27 then Some [CHR 0x27]
      else if d = CHR 0x0A then Some []
      else if d = CHR ''a'' then Some [CHR 0x07]
      else if d = CHR ''b'' then Some [CHR 0x08]
      else if d = CHR ''f'' then Some [CHR 0x0C]
      else if d = CHR ''n'' then Some [CHR 0x0A]
      else if d = CHR ''r'' then Some [CHR 0x0D]
      else if d = CHR ''t'' then Some [CHR 0x09]
      else if d = CHR ''v'' then Some [CHR 0x0B]
      else if d \<in> set ''xNuU01234567'' then None
      else Some [CHR 0x5C, d])"

fun py_string_items :: "string \<Rightarrow> (string \<times> string) option" where
  "py_string_items [] = None"
| "py_string_items (c # cs) =
     (if c = CHR 0x22 then Some ([], cs)
      else if c = CHR 0x0A \<or> c = CHR 0x0D then None
      else if c = CHR 0x5C
      then (case cs of
              [] \<Rightarrow> None
            | d # ds \<Rightarrow>
                (case py_escape d of
                   None \<Rightarrow> None
                 | Some v \<Rightarrow> map_option (\<lambda>(w, r). (v @ w, r)) (py_string_items ds)))
      else map_option (\<lambda>(w, r). (c # w, r)) (py_string_items cs))"

section \<open>Updating the configuration\<close>

text \<open>
  \<^verbatim>\<open>Partial<BuildingConfig>\<close>: every key may be absent. The source merges the colours
  key by key, with object spread, so the colours of an overlay are an object whose
  keys may be absent too.
\<close>

record PartialPalette =
  p_base :: "string option"
  p_accent :: "string option"
  p_glazing :: "string option"
  p_balcony :: "string option"
  p_roof :: "string option"

record PartialConfig =
  p_projectName :: "string option"
  p_narrative :: "string option"
  p_floors :: "number option"
  p_floorHeight :: "number option"
  p_lobbyHeight :: "number option"
  p_width :: "number option"
  p_depth :: "number option"
  p_coreWidth :: "number option"
  p_coreDepth :: "number option"
  p_baseHeight :: "number option"
  p_structuralGrid :: "number option"
  p_unitsPerFloor :: "number option"
  p_facadePattern :: "FacadePattern option"
  p_windowModule :: "number option"
  p_windowWidth :: "number option"
  p_windowHeight :: "number option"
  p_spandrelHeight :: "number option"
  p_balconyDepth :: "number option"
  p_balconyFrequency :: "BalconyFrequency option"
  p_roofStyle :: "RoofStyle option"
  p_podiumLevels :: "number option"
  p_podiumSetback :: "number option"
  p_includePodium :: "bool option"
  p_hasAtrium :: "bool option"
  p_addRooftopGarden :: "bool option"
  p_includeSolarPanels :: "bool option"
  p_includeLightShelves :: "bool option"
  p_colors :: "PartialPalette option"

definition no_colors :: PartialPalette where
  \<comment> \<open>the object \<^verbatim>\<open>{}\<close>\<close>
  "no_colors =
     \<lparr> p_base = None, p_accent = None, p_glazing = None, p_balcony = None, p_roof = None \<rparr>"

definition no_updates :: PartialConfig where
  \<comment> \<open>the object \<^verbatim>\<open>{}\<close>\<close>
  "no_updates =
     \<lparr> p_projectName = None, p_narrative = None, p_floors = None, p_floorHeight = None,
       p_lobbyHeight = None, p_width = None, p_depth = None, p_coreWidth = None,
       p_coreDepth = None, p_baseHeight = None, p_structuralGrid = None,
       p_unitsPerFloor = None, p_facadePattern = None, p_windowModule = None,
       p_windowWidth = None, p_windowHeight = None, p_spandrelHeight = None,
       p_balconyDepth = None, p_balconyFrequency = None, p_roofStyle = None,
       p_podiumLevels = None, p_podiumSetback = None, p_includePodium = None,
       p_hasAtrium = None, p_addRooftopGarden = None, p_includeSolarPanels = None,
       p_includeLightShelves = None, p_colors = None \<rparr>"

definition all_colors :: "Palette \<Rightarrow> PartialPalette" where
  \<comment> \<open>a palette with its five keys, as an overlay\<close>
  "all_colors c =
     \<lparr> p_base = Some (base c), p_accent = Some (accent c), p_glazing = Some (glazing c),
       p_balcony = Some (balcony c), p_roof = Some (roof c) \<rparr>"

definition spread :: "'a \<Rightarrow> 'a option \<Rightarrow> 'a" where
  \<comment> \<open>one key of \<^verbatim>\<open>{...prev, ...partial}\<close>\<close>
  "spread old new = (case new of None \<Rightarrow> old | Some v \<Rightarrow> v)"

definition spread_colors :: "Palette \<Rightarrow> PartialPalette \<Rightarrow> Palette" where
  "spread_colors prev partial =
     \<lparr> base = spread (base prev) (p_base partial),
       accent = spread (accent prev) (p_accent partial),
       glazing = spread (glazing prev) (p_glazing partial),
       balcony = spread (balcony prev) (p_balcony partial),
       roof = spread (roof prev) (p_roof partial) \<rparr>"

definition updateConfig :: "PartialConfig \<Rightarrow> BuildingConfig \<Rightarrow> BuildingConfig" where
  \<comment> \<open>the function that \<^verbatim>\<open>updateConfig(partial)\<close> hands to \<^verbatim>\<open>setConfig\<close>\<close>
  "updateConfig partial prev =
     \<lparr> projectName = spread (projectName prev) (p_projectName partial),
       narrative = spread (narrative prev) (p_narrative partial),
       floors = spread (floors prev) (p_floors partial),
       floorHeight = spread (floorHeight prev) (p_floorHeight partial),
       lobbyHeight = spread (lobbyHeight prev) (p_lobbyHeight partial),
       width = spread (width prev) (p_width partial),
       depth = spread (depth prev) (p_depth partial),
       coreWidth = spread (coreWidth prev) (p_coreWidth partial),
       coreDepth = spread (coreDepth prev) (p_coreDepth partial),
       baseHeight = spread (baseHeight prev) (p_baseHeight partial),
       structuralGrid = spread (structuralGrid prev) (p_structuralGrid partial),
       unitsPerFloor = spread (unitsPerFloor prev) (p_unitsPerFloor partial),
       facadePattern = spread (facadePattern prev) (p_facadePattern partial),
       windowModule = spread (windowModule prev) (p_windowModule partial),
       windowWidth = spread (windowWidth prev) (p_windowWidth partial),
       windowHeight = spread (windowHeight prev) (p_windowHeight partial),
       spandrelHeight = spread (spandrelHeight prev) (p_spandrelHeight partial),
       balconyDepth = spread (balconyDepth prev) (p_balconyDepth partial),
       balconyFrequency = spread (balconyFrequency prev) (p_balconyFrequency partial),
       roofStyle = spread (roofStyle prev) (p_roofStyle partial),
       podiumLevels = spread (podiumLevels prev) (p_podiumLevels partial),
       podiumSetback = spread (podiumSetback prev) (p_podiumSetback partial),
       includePodium = spread (includePodium prev) (p_includePodium partial),
       hasAtrium = spread (hasAtrium prev) (p_hasAtrium partial),
       addRooftopGarden = spread (addRooftopGarden prev) (p_addRooftopGarden partial),
       includeSolarPanels = spread (includeSolarPanels prev) (p_includeSolarPanels partial),
       includeLightShelves = spread (includeLightShelves prev) (p_includeLightShelves partial),
       colors = spread_colors (colors prev)
                  (case p_colors partial of None \<Rightarrow> no_colors | Some c \<Rightarrow> c) \<rparr>"

section \<open>The intent mapper\<close>

record AiInference =
  updates :: PartialConfig
  summary :: string

text \<open>The four patterns of \<^verbatim>\<open>applyAiInference\<close>, each split after its first group.\<close>

definition digits :: rex where
  \<comment> \<open>\<^verbatim>\<open>\d+\<close>\<close>
  "digits = Plus (Cls is_digit)"

definition spaces :: rex where
  \<comment> \<open>\<^verbatim>\<open>\s*\<close>\<close>
  "spaces = Star (Cls is_white_space)"

definition decimal :: rex where
  \<comment> \<open>\<^verbatim>\<open>\d+(?:\.\d+)?\<close>\<close>
  "decimal = Seq digits (Opt (Seq (Lit ''.'') digits))"

definition floor_tail :: rex where
  \<comment> \<open>\<^verbatim>\<open>/(\d+)[-\s]*(story|storey|floor)s?/\<close> after \<^verbatim>\<open>(\d+)\<close>\<close>
  "floor_tail =
     Seq (Star (Cls (\<lambda>c. c = CHR ''-'' \<or> is_white_space c)))
       (Seq (Alt (Lit ''story'') (Alt (Lit ''storey'') (Lit ''floor''))) (Opt (Lit ''s'')))"

definition metres :: "rex \<Rightarrow> rex" where
  \<comment> \<open>\<^verbatim>\<open>\s*m(?:eter)?s?\s*\<close> and a closing word\<close>
  "metres word =
     Seq spaces (Seq (Lit ''m'') (Seq (Opt (Lit ''eter'')) (Seq (Opt (Lit ''s''))
       (Seq spaces word))))"

definition width_tail :: rex where
  \<comment> \<open>\<^verbatim>\<open>/(\d+(?:\.\d+)?)\s*m(?:eter)?s?\s*wide/\<close> after its group\<close>
  "width_tail = metres (Lit ''wide'')"

definition depth_tail :: rex where
  \<comment> \<open>\<^verbatim>\<open>/(\d+(?:\.\d+)?)\s*m(?:eter)?s?\s*(deep|depth)/\<close> after its first group\<close>
  "depth_tail = metres (Alt (Lit ''deep'') (Lit ''depth''))"

definition unit_tail :: rex where
  \<comment> \<open>\<^verbatim>\<open>/(\d+)\s*units?/\<close> after \<^verbatim>\<open>(\d+)\<close>\<close>
  "unit_tail = Seq spaces (Seq (Lit ''unit'') (Opt (Lit ''s'')))"

text \<open>
  The function fills \<^verbatim>\<open>updates\<close> and \<^verbatim>\<open>summaryParts\<close> block by block. Each block of the
  source, an \<^verbatim>\<open>if\<close> with its \<^verbatim>\<open>else if\<close> branches, is one function on the pair of the two.
\<close>

type_synonym moves = "PartialConfig \<times> string list"

definition floors_block :: "string \<Rightarrow> BuildingConfig \<Rightarrow> moves \<Rightarrow> moves" where
  "floors_block normalized current a =
     (case match_group1 digits floor_tail normalized of
        Some g \<Rightarrow>
          (let n = clamp (number_of (parseInt g 10)) 1 80
           in ((fst a)\<lparr>p_floors := Some n\<rparr>,
               snd a @ [''Set tower to '' @ number_toString n @ '' floors.'']))
      | None \<Rightarrow>
          if str_includes normalized ''supertall''
          then ((fst a)\<lparr>p_floors := Some (clamp (js_add (floors current) 40) 30 120)\<rparr>,
                snd a @ [''Adjusted height to supertall proportion.''])
          else if str_includes normalized ''tall''
          then ((fst a)\<lparr>p_floors := Some (clamp (js_add (floors current) 8) 6 80)\<rparr>,
                snd a @ [''Raised overall height.''])
          else if str_includes normalized ''low-rise'' \<or> str_includes normalized ''mid-rise''
          then ((fst a)\<lparr>p_floors := Some (clamp (floors current) 4 12)\<rparr>,
                snd a @ [''Shaped tower to mid-rise scale.''])
          else a)"

definition width_block :: "string \<Rightarrow> BuildingConfig \<Rightarrow> moves \<Rightarrow> moves" where
  "width_block normalized current a =
     (case match_group1 decimal width_tail normalized of
        Some g \<Rightarrow>
          (let widthValue = clamp (number_of (parseFloat g)) 10 120
           in ((fst a)\<lparr>p_width := Some widthValue\<rparr>,
               snd a @ [''Adjusted width to '' @ number_toString widthValue @ ''m.'']))
      | None \<Rightarrow> a)"

definition depth_block :: "string \<Rightarrow> BuildingConfig \<Rightarrow> moves \<Rightarrow> moves" where
  "depth_block normalized current a =
     (case match_group1 decimal depth_tail normalized of
        Some g \<Rightarrow>
          (let depthValue = clamp (number_of (parseFloat g)) 10 120
           in ((fst a)\<lparr>p_depth := Some depthValue\<rparr>,
               snd a @ [''Adjusted depth to '' @ number_toString depthValue @ ''m.'']))
      | None \<Rightarrow> a)"

definition slender_block :: "string \<Rightarrow> BuildingConfig \<Rightarrow> moves \<Rightarrow> moves" where
  "slender_block normalized current a =
     (if str_includes normalized ''slender''
      then ((fst a)
              \<lparr>p_width := Some (clamp (js_mul (width current) (to_double (85 / 100))) 12
                                 (width current)),
               p_depth := Some (clamp (js_mul (depth current) (to_double (85 / 100))) 12
                                 (depth current))\<rparr>,
            snd a @ [''Slenderized the floor plate.''])
      else a)"

definition atrium_block :: "string \<Rightarrow> BuildingConfig \<Rightarrow> moves \<Rightarrow> moves" where
  "atrium_block normalized current a =
     (if str_includes normalized ''atrium''
      then ((fst a)\<lparr>p_hasAtrium := Some True\<rparr>, snd a @ [''Enabled multi-level atrium.''])
      else a)"

definition podium_block :: "string \<Rightarrow> BuildingConfig \<Rightarrow> moves \<Rightarrow> moves" where
  "podium_block normalized current a =
     (if str_includes normalized ''podium''
      then ((fst a)\<lparr>p_includePodium := Some True,
                    p_podiumLevels := Some (max (podiumLevels current) 2)\<rparr>,
            snd a @ [''Activated urban podium interface.''])
      else a)"

definition garden_block :: "string \<Rightarrow> BuildingConfig \<Rightarrow> moves \<Rightarrow> moves" where
  "garden_block normalized current a =
     (if str_includes normalized ''garden'' \<or> str_includes normalized ''green roof''
      then ((fst a)\<lparr>p_addRooftopGarden := Some True\<rparr>,
            snd a @ [''Reserved rooftop for green space.''])
      else a)"

definition solar_block :: "string \<Rightarrow> BuildingConfig \<Rightarrow> moves \<Rightarrow> moves" where
  "solar_block normalized current a =
     (if str_includes normalized ''solar''
      then ((fst a)\<lparr>p_includeSolarPanels := Some True\<rparr>,
            snd a @ [''Integrated rooftop solar arrays.''])
      else a)"

definition balcony_block :: "string \<Rightarrow> BuildingConfig \<Rightarrow> moves \<Rightarrow> moves" where
  "balcony_block normalized current a =
     (if str_includes normalized ''balcon''
      then ((fst a)\<lparr>p_balconyFrequency :=
                      Some (if str_includes normalized ''every'' then Every
                            else if str_includes normalized ''corner'' then Corners
                            else Alternate)\<rparr>,
            snd a @ [''Reconfigured balcony rhythm.''])
      else a)"

definition facade_block :: "string \<Rightarrow> BuildingConfig \<Rightarrow> moves \<Rightarrow> moves" where
  "facade_block normalized current a =
     (if str_includes normalized ''glass curtain''
      then ((fst a)\<lparr>p_facadePattern := Some Grid,
                    p_colors := Some (all_colors ((colors current)
                      \<lparr>base := ''#2b3a55'', accent := ''#546a89'', glazing := ''#a7d9ff''\<rparr>))\<rparr>,
            snd a @ [''Shifted to glass curtain wall aesthetic.''])
      else if str_includes normalized ''brick''
      then ((fst a)\<lparr>p_facadePattern := Some Stacked,
                    p_colors := Some (all_colors ((colors current)
                      \<lparr>base := ''#884a39'', accent := ''#d46f4d'', glazing := ''#93c6ff''\<rparr>))\<rparr>,
            snd a @ [''Applied brick-inspired palette.''])
      else if str_includes normalized ''timber'' \<or> str_includes normalized ''wood''
      then ((fst a)\<lparr>p_facadePattern := Some Offset,
                    p_colors := Some (all_colors ((colors current)
                      \<lparr>base := ''#8c6b3e'', accent := ''#d9b382'', glazing := ''#9bc1ff''\<rparr>))\<rparr>,
            snd a @ [''Shifted to warm timber articulation.''])
      else a)"

definition shelves_block :: "string \<Rightarrow> BuildingConfig \<Rightarrow> moves \<Rightarrow> moves" where
  "shelves_block normalized current a =
     (if str_includes normalized ''light shelves''
      then ((fst a)\<lparr>p_includeLightShelves := Some True\<rparr>,
            snd a @ [''Added daylight shelves to facade.''])
      else a)"

definition roof_block :: "string \<Rightarrow> BuildingConfig \<Rightarrow> moves \<Rightarrow> moves" where
  "roof_block normalized current a =
     (if str_includes normalized ''pitched roof''
      then ((fst a)\<lparr>p_roofStyle := Some Pitched\<rparr>,
            snd a @ [''Configured pitched roof profile.''])
      else if str_includes normalized ''sawtooth''
      then ((fst a)\<lparr>p_roofStyle := Some Sawtooth\<rparr>,
            snd a @ [''Configured sawtooth roof profile.''])
      else if str_includes normalized ''flat roof''
      then ((fst a)\<lparr>p_roofStyle := Some Flat\<rparr>, snd a @ [''Kept clean flat roofline.''])
      else a)"

definition lobby_block :: "string \<Rightarrow> BuildingConfig \<Rightarrow> moves \<Rightarrow> moves" where
  "lobby_block normalized current a =
     (if str_includes normalized ''generous lobby'' \<or> str_includes normalized ''grand lobby''
      then ((fst a)\<lparr>p_lobbyHeight :=
                      Some (clamp (js_mul (lobbyHeight current) (to_double (12 / 10)))
                              (45 / 10) 12)\<rparr>,
            snd a @ [''Expanded lobby volume.''])
      else a)"

definition units_block :: "string \<Rightarrow> BuildingConfig \<Rightarrow> moves \<Rightarrow> moves" where
  "units_block normalized current a =
     (case match_group1 digits unit_tail normalized of
        Some g \<Rightarrow>
          (let units = clamp (number_of (parseInt g 10)) 2 40
           in ((fst a)\<lparr>p_unitsPerFloor := Some units\<rparr>,
               snd a @ [''Set '' @ number_toString units
                          @ '' flexible units per typical floor.'']))
      | None \<Rightarrow> a)"

definition all_blocks :: "string \<Rightarrow> BuildingConfig \<Rightarrow> moves" where
  "all_blocks normalized current =
     (units_block normalized current
       (lobby_block normalized current
         (roof_block normalized current
           (shelves_block normalized current
             (facade_block normalized current
               (balcony_block normalized current
                 (solar_block normalized current
                   (garden_block normalized current
                     (podium_block normalized current
                       (atrium_block normalized current
                         (slender_block normalized current
                           (depth_block normalized current
                             (width_block normalized current
                               (floors_block normalized current
                                 (no_updates, [])))))))))))))))"

definition applyAiInference :: "string \<Rightarrow> BuildingConfig \<Rightarrow> AiInference" where
  "applyAiInference prompt current =
     (let normalized = toLowerCase (trim prompt)
      in if normalized = [] then \<lparr> updates = no_updates, summary = [] \<rparr>
         else (case all_blocks normalized current of
                 (ups, summaryParts) \<Rightarrow>
                   \<lparr> updates = ups, summary = join '' '' summaryParts \<rparr>))"

subsection \<open>Applying a move\<close>

text \<open>
  The state of the page component \<^verbatim>\<open>Home\<close>. The timers that clear the status message
  after two seconds are left out.
\<close>

record Home =
  st_config :: BuildingConfig
  st_aiPrompt :: string
  st_aiSummary :: "string list"
  st_statusMessage :: "string option"

definition handleApplyAi :: "Home \<Rightarrow> Home" where
  "handleApplyAi st =
     (let inference = applyAiInference (st_aiPrompt st) (st_config st)
      in if updates inference = no_updates
         then st\<lparr>st_statusMessage := Some ''No actionable design moves detected.''\<rparr>
         else st\<lparr>st_config :=
                     updateConfig
                       ((updates inference)
                          \<lparr>p_narrative :=
                             Some (narrative (st_config st) @ [CHR 0x0A, CHR 0x0A]
                                   @ ''Prompt: '' @ trim (st_aiPrompt st))\<rparr>)
                       (st_config st),
                 st_aiSummary :=
                     (if summary inference \<noteq> []
                      then take 5 (summary inference # st_aiSummary st)
                      else st_aiSummary st),
                 st_aiPrompt := [],
                 st_statusMessage := Some ''AI design move applied.''\<rparr>)"

subsection \<open>The page\<close>

definition script_of :: "Home \<Rightarrow> string" where
  \<comment> \<open>\<^verbatim>\<open>useMemo(() => generateBlenderScript(config), [config])\<close>\<close>
  "script_of st = generateBlenderScript (st_config st)"

definition edit_floors :: "number \<Rightarrow> BuildingConfig \<Rightarrow> BuildingConfig" where
  \<comment> \<open>the slider of the floors:
     \<^verbatim>\<open>onChange={(event) => updateConfig({ floors: Number(event.target.value) })}\<close>\<close>
  "edit_floors v = updateConfig (no_updates\<lparr>p_floors := Some v\<rparr>)"

definition edit_floorHeight :: "number \<Rightarrow> BuildingConfig \<Rightarrow> BuildingConfig" where
  \<comment> \<open>the number field of the floor height:
     \<^verbatim>\<open>onChange={(event) => updateConfig({ floorHeight: Number(event.target.value) })}\<close>\<close>
  "edit_floorHeight v = updateConfig (no_updates\<lparr>p_floorHeight := Some v\<rparr>)"

definition edit_unitsPerFloor :: "number \<Rightarrow> BuildingConfig \<Rightarrow> BuildingConfig" where
  \<comment> \<open>the number field of the units per floor:
     \<^verbatim>\<open>onChange={(event) => updateConfig({ unitsPerFloor: Number(event.target.value) })}\<close>\<close>
  "edit_unitsPerFloor v = updateConfig (no_updates\<lparr>p_unitsPerFloor := Some v\<rparr>)"

definition edit_accent :: "string \<Rightarrow> BuildingConfig \<Rightarrow> BuildingConfig \<Rightarrow> BuildingConfig" where
  \<comment> \<open>the colour field of the accent, drawn with the configuration \<open>config\<close>:
     \<^verbatim>\<open>onChange={(event) => updateConfig({ colors: { ...config.colors, accent: event.target.value } })}\<close>\<close>
  "edit_accent v config =
     updateConfig (no_updates\<lparr>p_colors := Some (all_colors ((colors config)\<lparr>accent := v\<rparr>))\<rparr>)"

definition floors_input :: "number \<times> number" where
  \<comment> \<open>the \<^verbatim>\<open>min={3}\<close> and \<^verbatim>\<open>max={80}\<close> attributes of the slider of the floors\<close>
  "floors_input = (3, 80)"

definition floorHeight_input :: "number \<times> number" where
  \<comment> \<open>the \<^verbatim>\<open>min={2.7}\<close> and \<^verbatim>\<open>max={8}\<close> attributes of the number field of the floor height\<close>
  "floorHeight_input = (to_double (27 / 10), 8)"

section \<open>What the specification says, as definitions\<close>

subsection \<open>Escaping, character by character\<close>

definition escaped_char :: "char \<Rightarrow> string" where
  "escaped_char c =
     (if c = CHR 0x5C then [CHR 0x5C, CHR 0x5C]
      else if c = CHR 0x22 then [CHR 0x5C, CHR 0x22]
      else [c])"

definition single_line :: "string \<Rightarrow> bool" where
  "single_line s \<longleftrightarrow> list_all (\<lambda>c. \<not> is_line_terminator c) s"

subsection \<open>The two shapes of a formatted number\<close>

definition all_digits :: "string \<Rightarrow> bool" where
  "all_digits s \<longleftrightarrow> s \<noteq> [] \<and> list_all is_digit s"

definition unsigned :: "string \<Rightarrow> string" where
  "unsigned t = (case t of [] \<Rightarrow> [] | c # cs \<Rightarrow> if c = CHR ''-'' then cs else t)"

definition integer_text :: "string \<Rightarrow> bool" where
  \<comment> \<open>digits only, after an optional minus sign\<close>
  "integer_text t \<longleftrightarrow> all_digits (unsigned t)"

definition two_decimals_text :: "string \<Rightarrow> bool" where
  \<comment> \<open>digits, a point and exactly two digits, after an optional minus sign\<close>
  "two_decimals_text t \<longleftrightarrow>
     (let u = unsigned t; k = length u
      in 4 \<le> k \<and> all_digits (take (k - 3) u) \<and> u ! (k - 3) = CHR ''.''
         \<and> all_digits (drop (k - 2) u))"

definition decimal_value :: "string \<Rightarrow> rat" where
  \<comment> \<open>the number that a decimal text denotes: digits, and a point and digits if there
     are any, after an optional minus sign\<close>
  "decimal_value t =
     (let u = unsigned t;
          whole = takeWhile is_digit u;
          part = drop 1 (dropWhile is_digit u);
          v = of_nat (digits_value 10 whole) + of_nat (digits_value 10 part) / 10 ^ length part
      in if prefix ''-'' t then - v else v)"

subsection \<open>Hex colours\<close>

definition is_hex_digit :: "char \<Rightarrow> bool" where
  "is_hex_digit c \<longleftrightarrow> digit_value c < 16"

definition byte_value :: "char \<Rightarrow> char \<Rightarrow> number" where
  "byte_value a b = of_nat (16 * digit_value a + digit_value b)"

subsection \<open>The balcony policy\<close>




subsection \<open>The numbers that the intent mapper leaves alone\<close>

definition unwritten_numbers :: "(PartialConfig \<Rightarrow> number option) list" where
  \<comment> \<open>the numeric fields that no trigger assigns\<close>
  "unwritten_numbers =
     [p_floorHeight, p_coreWidth, p_coreDepth, p_baseHeight, p_structuralGrid, p_windowModule,
      p_windowWidth, p_windowHeight, p_spandrelHeight, p_balconyDepth, p_podiumSetback]"

subsection \<open>The intent mapper as a table of triggers\<close>

text \<open>
  A trigger looks at the normalised text and the current configuration and, if it
  fires, gives a change to the overlay and a description. A group is a list of
  triggers of which the first that fires is taken and the others are skipped; the
  groups are run one after the other.
\<close>

type_synonym trigger =
  "string \<Rightarrow> BuildingConfig \<Rightarrow> ((PartialConfig \<Rightarrow> PartialConfig) \<times> string) option"

definition on_keywords ::
  "string list \<Rightarrow> (string \<Rightarrow> BuildingConfig \<Rightarrow> PartialConfig \<Rightarrow> PartialConfig) \<Rightarrow> string
     \<Rightarrow> trigger" where
  "on_keywords kws change says normalized current =
     (if list_ex (str_includes normalized) kws then Some (change normalized current, says)
      else None)"

definition on_number ::
  "rex \<Rightarrow> rex \<Rightarrow> (string \<Rightarrow> number) \<Rightarrow> (number \<Rightarrow> PartialConfig \<Rightarrow> PartialConfig)
     \<Rightarrow> (number \<Rightarrow> string) \<Rightarrow> trigger" where
  "on_number g tail read change says normalized current =
     map_option (\<lambda>t. (change (read t), says (read t))) (match_group1 g tail normalized)"

fun first_firing :: "trigger list \<Rightarrow> trigger" where
  "first_firing [] normalized current = None"
| "first_firing (t # ts) normalized current =
     (case t normalized current of
        Some r \<Rightarrow> Some r
      | None \<Rightarrow> first_firing ts normalized current)"

fun run_table :: "trigger list list \<Rightarrow> string \<Rightarrow> BuildingConfig \<Rightarrow> moves \<Rightarrow> moves" where
  "run_table [] normalized current a = a"
| "run_table (g # gs) normalized current a =
     run_table gs normalized current
       (case first_firing g normalized current of
          None \<Rightarrow> a
        | Some (change, says) \<Rightarrow> (change (fst a), snd a @ [says]))"

definition explicit_floors :: trigger where
  "explicit_floors =
     on_number digits floor_tail (\<lambda>t. clamp (number_of (parseInt t 10)) 1 80)
       (\<lambda>v u. u\<lparr>p_floors := Some v\<rparr>)
       (\<lambda>v. ''Set tower to '' @ number_toString v @ '' floors.'')"

definition supertall :: trigger where
  "supertall =
     on_keywords [''supertall'']
       (\<lambda>n c u. u\<lparr>p_floors := Some (clamp (js_add (floors c) 40) 30 120)\<rparr>)
       ''Adjusted height to supertall proportion.''"

definition tall :: trigger where
  "tall =
     on_keywords [''tall'']
       (\<lambda>n c u. u\<lparr>p_floors := Some (clamp (js_add (floors c) 8) 6 80)\<rparr>)
       ''Raised overall height.''"

definition low_or_mid_rise :: trigger where
  "low_or_mid_rise =
     on_keywords [''low-rise'', ''mid-rise'']
       (\<lambda>n c u. u\<lparr>p_floors := Some (clamp (floors c) 4 12)\<rparr>)
       ''Shaped tower to mid-rise scale.''"

definition explicit_width :: trigger where
  "explicit_width =
     on_number decimal width_tail (\<lambda>t. clamp (number_of (parseFloat t)) 10 120)
       (\<lambda>v u. u\<lparr>p_width := Some v\<rparr>)
       (\<lambda>v. ''Adjusted width to '' @ number_toString v @ ''m.'')"

definition explicit_depth :: trigger where
  "explicit_depth =
     on_number decimal depth_tail (\<lambda>t. clamp (number_of (parseFloat t)) 10 120)
       (\<lambda>v u. u\<lparr>p_depth := Some v\<rparr>)
       (\<lambda>v. ''Adjusted depth to '' @ number_toString v @ ''m.'')"

definition slender :: trigger where
  "slender =
     on_keywords [''slender'']
       (\<lambda>n c u. u\<lparr>p_width := Some (clamp (js_mul (width c) (to_double (85 / 100))) 12 (width c)),
                  p_depth := Some (clamp (js_mul (depth c) (to_double (85 / 100))) 12 (depth c))\<rparr>)
       ''Slenderized the floor plate.''"

definition atrium :: trigger where
  "atrium =
     on_keywords [''atrium''] (\<lambda>n c u. u\<lparr>p_hasAtrium := Some True\<rparr>)
       ''Enabled multi-level atrium.''"

definition podium :: trigger where
  "podium =
     on_keywords [''podium'']
       (\<lambda>n c u. u\<lparr>p_includePodium := Some True,
                  p_podiumLevels := Some (max (podiumLevels c) 2)\<rparr>)
       ''Activated urban podium interface.''"

definition garden :: trigger where
  "garden =
     on_keywords [''garden'', ''green roof''] (\<lambda>n c u. u\<lparr>p_addRooftopGarden := Some True\<rparr>)
       ''Reserved rooftop for green space.''"

definition solar :: trigger where
  "solar =
     on_keywords [''solar''] (\<lambda>n c u. u\<lparr>p_includeSolarPanels := Some True\<rparr>)
       ''Integrated rooftop solar arrays.''"

definition balconies :: trigger where
  "balconies =
     on_keywords [''balcon'']
       (\<lambda>n c u. u\<lparr>p_balconyFrequency :=
                    Some (if str_includes n ''every'' then Every
                          else if str_includes n ''corner'' then Corners
                          else Alternate)\<rparr>)
       ''Reconfigured balcony rhythm.''"

definition material ::
  "string list \<Rightarrow> FacadePattern \<Rightarrow> string \<Rightarrow> string \<Rightarrow> string \<Rightarrow> string \<Rightarrow> trigger" where
  "material kws pattern b a g says =
     on_keywords kws
       (\<lambda>n c u. u\<lparr>p_facadePattern := Some pattern,
                  p_colors := Some (all_colors ((colors c)\<lparr>base := b, accent := a,
                                                          glazing := g\<rparr>))\<rparr>)
       says"

definition glass_curtain :: trigger where
  "glass_curtain =
     material [''glass curtain''] Grid ''#2b3a55'' ''#546a89'' ''#a7d9ff''
       ''Shifted to glass curtain wall aesthetic.''"

definition brick :: trigger where
  "brick =
     material [''brick''] Stacked ''#884a39'' ''#d46f4d'' ''#93c6ff''
       ''Applied brick-inspired palette.''"

definition timber :: trigger where
  "timber =
     material [''timber'', ''wood''] Offset ''#8c6b3e'' ''#d9b382'' ''#9bc1ff''
       ''Shifted to warm timber articulation.''"

definition light_shelves :: trigger where
  "light_shelves =
     on_keywords [''light shelves''] (\<lambda>n c u. u\<lparr>p_includeLightShelves := Some True\<rparr>)
       ''Added daylight shelves to facade.''"

definition pitched_roof :: trigger where
  "pitched_roof =
     on_keywords [''pitched roof''] (\<lambda>n c u. u\<lparr>p_roofStyle := Some Pitched\<rparr>)
       ''Configured pitched roof profile.''"

definition sawtooth_roof :: trigger where
  "sawtooth_roof =
     on_keywords [''sawtooth''] (\<lambda>n c u. u\<lparr>p_roofStyle := Some Sawtooth\<rparr>)
       ''Configured sawtooth roof profile.''"

definition flat_roof :: trigger where
  "flat_roof =
     on_keywords [''flat roof''] (\<lambda>n c u. u\<lparr>p_roofStyle := Some Flat\<rparr>)
       ''Kept clean flat roofline.''"

definition generous_lobby :: trigger where
  "generous_lobby =
     on_keywords [''generous lobby'', ''grand lobby'']
       (\<lambda>n c u. u\<lparr>p_lobbyHeight :=
                    Some (clamp (js_mul (lobbyHeight c) (to_double (12 / 10))) (45 / 10) 12)\<rparr>)
       ''Expanded lobby volume.''"

definition unit_count :: trigger where
  "unit_count =
     on_number digits unit_tail (\<lambda>t. clamp (number_of (parseInt t 10)) 2 40)
       (\<lambda>v u. u\<lparr>p_unitsPerFloor := Some v\<rparr>)
       (\<lambda>v. ''Set '' @ number_toString v @ '' flexible units per typical floor.'')"

text \<open>
  The table of the source: the floor triggers are one group, and so are the three
  facade materials and the three roof styles.
\<close>

definition intent_table :: "trigger list list" where
  "intent_table =
     [[explicit_floors, supertall, tall, low_or_mid_rise],
      [explicit_width], [explicit_depth], [slender], [atrium], [podium], [garden], [solar],
      [balconies],
      [glass_curtain, brick, timber],
      [light_shelves],
      [pitched_roof, sawtooth_roof, flat_roof],
      [generous_lobby], [unit_count]]"

text \<open>
  The table with the floor triggers as its only group and every other trigger on its
  own.
\<close>

definition independent_table :: "trigger list list" where
  "independent_table =
     [[explicit_floors, supertall, tall, low_or_mid_rise],
      [explicit_width], [explicit_depth], [slender], [atrium], [podium], [garden], [solar],
      [balconies],
      [glass_curtain], [brick], [timber],
      [light_shelves],
      [pitched_roof], [sawtooth_roof], [flat_roof],
      [generous_lobby], [unit_count]]"

section \<open>Properties\<close>

subsection \<open>Evaluating the number functions\<close>

lemma floor_rat_numeral [simp]: "\<lfloor>numeral a / numeral b :: rat\<rfloor> = numeral a div numeral b"
  using floor_divide_of_int_eq [of "numeral a" "numeral b", where ?'a = rat] by simp

lemma ceiling_rat_numeral [simp]:
  "\<lceil>numeral a / numeral b :: rat\<rceil> = - ((- numeral a) div numeral b)"
  using floor_divide_of_int_eq [of "- numeral a" "numeral b", where ?'a = rat]
  by (simp add: ceiling_def)

lemma bit_length_numeral [simp]:
  "bit_length (numeral k) = Suc (bit_length (numeral k div 2))"
  by (subst bit_length.simps) simp

lemma bit_length_0 [simp]: "bit_length 0 = 0"
  by (subst bit_length.simps) simp

lemma bit_length_1 [simp]: "bit_length (Suc 0) = Suc 0"
  by (subst bit_length.simps) simp

lemma show_nat_numeral [simp]:
  "show_nat (numeral k) =
     (if (numeral k :: nat) < 10 then [digit_char (numeral k)]
      else show_nat (numeral k div 10) @ [digit_char (numeral k mod 10)])"
  by (rule show_nat.simps)

lemma show_nat_0 [simp]: "show_nat 0 = ''0''"
  by (simp add: show_nat.simps digit_char_def)

lemma show_nat_1 [simp]: "show_nat (Suc 0) = ''1''"
  by (simp add: show_nat.simps digit_char_def)

subsection \<open>Digits and the two shapes\<close>

lemma digit_char_is_digit: "d < 10 \<Longrightarrow> is_digit (digit_char d)"
  unfolding is_digit_def digit_char_def by (rule nth_mem) simp

lemma show_nat_all_digits: "all_digits (show_nat n)"
proof (induction n rule: show_nat.induct)
  case (1 n)
  show ?case
  proof (cases "n < 10")
    case True
    then show ?thesis
      by (subst show_nat.simps) (simp add: all_digits_def digit_char_is_digit)
  next
    case False
    with 1 have "all_digits (show_nat (n div 10))" by simp
    moreover have "is_digit (digit_char (n mod 10))" by (simp add: digit_char_is_digit)
    ultimately show ?thesis
      using False by (subst show_nat.simps) (simp add: all_digits_def)
  qed
qed

lemma minus_not_digit: "\<not> is_digit (CHR ''-'')"
  by (simp add: is_digit_def)

lemma point_not_digit: "\<not> is_digit (CHR ''.'')"
  by (simp add: is_digit_def)

lemma unsigned_digits: "all_digits m \<Longrightarrow> unsigned (m @ r) = m @ r"
  by (cases m) (auto simp: unsigned_def all_digits_def minus_not_digit)

lemma unsigned_sign:
  "all_digits m \<Longrightarrow> unsigned ((if b then ''-'' else []) @ m @ r) = m @ r"
  by (cases b) (simp_all add: unsigned_digits, simp add: unsigned_def)

lemma integer_text_signed:
  "all_digits m \<Longrightarrow> integer_text ((if b then ''-'' else []) @ m)"
  using unsigned_sign [of m b "[]"] by (simp add: integer_text_def)

lemma two_decimals_text_signed:
  assumes "all_digits m" and "3 \<le> length m"
  shows "two_decimals_text
           ((if b then ''-'' else []) @ take (length m - 2) m @ ''.'' @ drop (length m - 2) m)"
proof -
  let ?a = "take (length m - 2) m" and ?z = "drop (length m - 2) m"
  have a: "all_digits ?a"
    using assms by (auto simp: all_digits_def list_all_iff dest: in_set_takeD)
  have z: "all_digits ?z"
    using assms by (auto simp: all_digits_def list_all_iff dest: in_set_dropD)
  have la: "length ?a = length m - 2" and lz: "length ?z = 2"
    using assms by simp_all
  have u: "unsigned ((if b then ''-'' else []) @ ?a @ ''.'' @ ?z) = ?a @ ''.'' @ ?z"
    using a by (rule unsigned_sign)
  have k: "length (?a @ ''.'' @ ?z) = length m + 1"
    using assms by simp
  have t: "take (length m + 1 - 3) (?a @ ''.'' @ ?z) = ?a"
    using assms by simp
  have n: "(?a @ ''.'' @ ?z) ! (length m + 1 - 3) = CHR ''.''"
    using assms by (simp add: nth_append)
  have d: "drop (length m + 1 - 2) (?a @ ''.'' @ ?z) = ?z"
    using assms by simp
  show ?thesis
    unfolding two_decimals_text_def u Let_def k t n d
    using assms a z by simp
qed

lemma two_decimals_not_integer: "two_decimals_text t \<Longrightarrow> \<not> integer_text t"
proof
  assume t: "two_decimals_text t" and i: "integer_text t"
  let ?u = "unsigned t"
  from t have "4 \<le> length ?u" and "?u ! (length ?u - 3) = CHR ''.''"
    by (simp_all add: two_decimals_text_def Let_def)
  then have "CHR ''.'' \<in> set ?u"
    by (metis diff_less less_le_trans nth_mem zero_less_numeral)
  with i show False
    by (auto simp: integer_text_def all_digits_def list_all_iff point_not_digit)
qed

lemma padded_digits:
  assumes "all_digits m"
  shows "all_digits (if length m \<le> 2 then replicate (3 - length m) CHR ''0'' @ m else m)"
    and "3 \<le> length (if length m \<le> 2 then replicate (3 - length m) CHR ''0'' @ m else m)"
  using assms by (auto simp: all_digits_def list_all_iff is_digit_def)

lemma toFixed_0:
  "\<bar>x\<bar> < 10 ^ 21 \<Longrightarrow>
   toFixed 0 x = (if x < 0 then ''-'' else []) @ show_nat (nat \<lfloor>\<bar>x\<bar> + 1 / 2\<rfloor>)"
  by (simp add: toFixed_def Let_def)

lemma toFixed_2:
  "\<bar>x\<bar> < 10 ^ 21 \<Longrightarrow>
   toFixed 2 x =
     (let m = show_nat (nat \<lfloor>\<bar>x\<bar> * 10 ^ 2 + 1 / 2\<rfloor>);
          m = (if length m \<le> 2 then replicate (3 - length m) CHR ''0'' @ m else m)
      in (if x < 0 then ''-'' else []) @ take (length m - 2) m @ ''.'' @ drop (length m - 2) m)"
  by (simp add: toFixed_def Let_def)

lemma formatNumber_integer:
  "\<bar>x\<bar> < 10 ^ 21 \<Longrightarrow> isInteger x \<Longrightarrow> integer_text (formatNumber x)"
  by (simp add: formatNumber_def toFixed_0 integer_text_signed show_nat_all_digits)

lemma formatNumber_fraction:
  assumes "\<bar>x\<bar> < 10 ^ 21" and "\<not> isInteger x"
  shows "two_decimals_text (formatNumber x)"
proof -
  let ?m = "show_nat (nat \<lfloor>\<bar>x\<bar> * 10 ^ 2 + 1 / 2\<rfloor>)"
  let ?p = "if length ?m \<le> 2 then replicate (3 - length ?m) CHR ''0'' @ ?m else ?m"
  have "all_digits ?p" and "3 \<le> length ?p"
    using padded_digits [OF show_nat_all_digits [of "nat \<lfloor>\<bar>x\<bar> * 10 ^ 2 + 1 / 2\<rfloor>"]] by blast+
  then have "two_decimals_text
      ((if x < 0 then ''-'' else []) @ take (length ?p - 2) ?p @ ''.'' @ drop (length ?p - 2) ?p)"
    by (rule two_decimals_text_signed)
  moreover have "formatNumber x = toFixed 2 x"
    using assms(2) by (simp add: formatNumber_def)
  moreover have "toFixed 2 x =
      (if x < 0 then ''-'' else []) @ take (length ?p - 2) ?p @ ''.'' @ drop (length ?p - 2) ?p"
    using toFixed_2 [OF assms(1)] by (simp only: Let_def)
  ultimately show ?thesis by (simp only:)
qed

subsection \<open>Rounding\<close>

lemma round_half_even_of_int: "round_half_even (of_int m) = m"
  by (simp add: round_half_even_def)

lemma round_half_even_nonneg: "0 \<le> q \<Longrightarrow> 0 \<le> round_half_even q"
  by (auto simp: round_half_even_def Let_def)

lemma round_half_even_le:
  assumes "q \<le> of_int N"
  shows "round_half_even q \<le> N"
proof -
  have f: "\<lfloor>q\<rfloor> \<le> N" using assms by (simp add: floor_le_iff)
  show ?thesis
  proof (cases "q = of_int \<lfloor>q\<rfloor>")
    case True
    then show ?thesis using f by (simp add: round_half_even_def Let_def)
  next
    case False
    then have "q \<noteq> of_int N" by (metis floor_of_int)
    with assms have "q < of_int N" by simp
    then have "\<lfloor>q\<rfloor> < N" by (simp add: floor_less_iff)
    then show ?thesis by (auto simp: round_half_even_def Let_def)
  qed
qed

lemma bit_length_le: "n < 2 ^ m \<Longrightarrow> bit_length n \<le> m"
proof (induction m arbitrary: n)
  case 0
  then show ?case by (subst bit_length.simps) simp
next
  case (Suc m)
  then have "n div 2 < 2 ^ m" by simp
  then have "bit_length (n div 2) \<le> m" by (rule Suc.IH)
  then show ?case by (subst bit_length.simps) simp
qed

lemma bit_length_pos: "0 < n \<Longrightarrow> 0 < bit_length n"
  by (subst bit_length.simps) simp

lemma to_double_of_int:
  assumes "\<bar>k\<bar> < 2 ^ 53"
  shows "to_double (of_int k) = of_int k"
proof (cases "k = 0")
  case True
  then show ?thesis by (simp add: to_double_def)
next
  case False
  define n where "n = nat \<bar>k\<bar>"
  define j where "j = 53 - bit_length n"
  have n: "0 < n" "n < 2 ^ 53"
    using False assms by (simp_all add: n_def nat_less_iff)
  have L: "0 < bit_length n" "bit_length n \<le> 53"
    using n by (simp_all add: bit_length_pos bit_length_le)
  have fl: "\<lfloor>\<bar>of_int k :: rat\<bar>\<rfloor> = \<bar>k\<bar>"
    by (simp only: of_int_abs [symmetric] floor_of_int)
  have one: "(1::rat) \<le> \<bar>of_int k\<bar>"
    using False by (simp only: of_int_abs [symmetric] of_int_1_le_iff)
  have be: "binary_exponent \<bar>of_int k\<bar> = int (bit_length n)"
    using one by (simp only: binary_exponent_def fl n_def if_True)
  have e: "max (binary_exponent \<bar>of_int k\<bar> - 1) (- 1022) - 52 = - int j"
    using L by (simp add: be j_def)
  have u: "(2::rat) powi (- int j) = 1 / 2 ^ j"
    by (simp add: power_int_minus field_simps)
  have q: "(of_int k :: rat) / (1 / 2 ^ j) = of_int (k * 2 ^ j)" by simp
  show ?thesis
    using False
    by (simp only: to_double_def Let_def e u q round_half_even_of_int)
       (simp add: field_simps)
qed

lemma to_double_unit_interval:
  assumes "0 \<le> x" and "x \<le> 1"
  shows "0 \<le> to_double x \<and> to_double x \<le> 1"
proof (cases "x = 0")
  case True
  then show ?thesis by (simp add: to_double_def)
next
  case False
  with assms have pos: "0 < x" by simp
  define e where "e = max (binary_exponent \<bar>x\<bar> - 1) (- 1022)"
  define j where "j = nat (52 - e)"
  have "binary_exponent \<bar>x\<bar> \<le> 1"
  proof (cases "1 \<le> x")
    case True
    with assms have "x = 1" by simp
    then show ?thesis by (simp add: binary_exponent_def)
  next
    case False
    then show ?thesis using pos by (simp add: binary_exponent_def)
  qed
  then have e: "e - 52 = - int j" by (simp add: e_def j_def)
  have u: "(2::rat) powi (e - 52) = 1 / 2 ^ j"
    unfolding e by (simp add: power_int_minus field_simps)
  have td: "to_double x = of_int (round_half_even (x * 2 ^ j)) / 2 ^ j"
    using False by (simp add: to_double_def Let_def e_def [symmetric] u)
  have "x * 2 ^ j \<le> of_int (2 ^ j)"
    using assms by (simp add: mult_le_cancel_right1)
  then have hi: "round_half_even (x * 2 ^ j) \<le> 2 ^ j" by (rule round_half_even_le)
  have lo: "0 \<le> round_half_even (x * 2 ^ j)"
    using assms by (intro round_half_even_nonneg) simp
  have "(of_int (round_half_even (x * 2 ^ j)) :: rat) \<le> of_int (2 ^ j)"
    using hi by (simp only: of_int_le_iff)
  then have "(of_int (round_half_even (x * 2 ^ j)) :: rat) / 2 ^ j \<le> 1"
    by (simp add: divide_le_eq)
  moreover have "0 \<le> (of_int (round_half_even (x * 2 ^ j)) :: rat) / 2 ^ j"
    using lo by simp
  ultimately show ?thesis by (simp add: td)
qed

lemma default_floor_height: "to_double (36 / 10) = 8106479329266893 / 2251799813685248"
  by (simp add: to_double_def binary_exponent_def round_half_even_def Let_def)

subsection \<open>Colours\<close>

lemma hex_digit_plain:
  assumes "is_hex_digit c"
  shows "\<not> is_line_terminator c" and "\<not> is_white_space c"
    and "c \<noteq> CHR ''+''" and "c \<noteq> CHR ''-''" and "c \<noteq> CHR ''x''" and "c \<noteq> CHR ''X''"
    and "c \<noteq> CHR ''#''" and "digit_value c < 16"
  using assms
  by (auto simp: is_hex_digit_def digit_value_def is_line_terminator_def is_white_space_def)

lemma parseInt_byte:
  assumes "is_hex_digit a" and "is_hex_digit b"
  shows "parseInt [a, b] 16 = Some (byte_value a b)"
proof -
  have v: "digits_value 16 [a, b] = 16 * digit_value a + digit_value b"
    by (simp add: digits_value_def)
  have "\<bar>int (16 * digit_value a + digit_value b)\<bar> < 2 ^ 53"
    using hex_digit_plain(8) [OF assms(1)] hex_digit_plain(8) [OF assms(2)] by simp
  then have "to_double (of_int (int (16 * digit_value a + digit_value b)))
             = of_int (int (16 * digit_value a + digit_value b))"
    by (rule to_double_of_int)
  then have t: "to_double (16 * of_nat (digit_value a) + of_nat (digit_value b))
             = 16 * of_nat (digit_value a) + of_nat (digit_value b)"
    by simp
  show ?thesis
    using hex_digit_plain [OF assms(1)] hex_digit_plain [OF assms(2)]
    by (simp add: parseInt_def Let_def v t byte_value_def)
qed

lemma byte_value_range:
  assumes "is_hex_digit a" and "is_hex_digit b"
  shows "0 \<le> byte_value a b" and "byte_value a b \<le> 255"
proof -
  have "16 * digit_value a + digit_value b \<le> 255"
    using hex_digit_plain(8) [OF assms(1)] hex_digit_plain(8) [OF assms(2)] by simp
  then have "(of_nat (16 * digit_value a + digit_value b) :: rat) \<le> of_nat 255"
    by (simp only: of_nat_le_iff)
  then show "byte_value a b \<le> 255" by (simp add: byte_value_def)
  show "0 \<le> byte_value a b" by (simp add: byte_value_def)
qed

lemma chunks_of_six:
  assumes "list_all is_hex_digit [a, b, c, d, e, f]"
  shows "match_all one_or_two [a, b, c, d, e, f] = [[a, b], [c, d], [e, f]]"
  using assms
  by (simp add: one_or_two_def any_but_newline_def hex_digit_plain)

lemma remove_first_hash:
  assumes "list_all is_hex_digit ds" and "p = [] \<or> p = ''#''"
  shows "remove_first CHR ''#'' (p @ ds) = ds"
proof -
  have "remove_first CHR ''#'' ds = ds"
    using assms(1) by (induction ds) (auto simp: hex_digit_plain)
  then show ?thesis using assms(2) by auto
qed

lemma hexToRgb_six:
  assumes "remove_first CHR ''#'' hex = [a, b, c, d, e, f]"
    and "list_all is_hex_digit [a, b, c, d, e, f]"
  shows "hexToRgb hex = (Some (byte_value a b), Some (byte_value c d), Some (byte_value e f))"
  using assms(2)
  by (simp add: hexToRgb_def assms(1) Let_def chunks_of_six [OF assms(2)] parseInt_byte
      element_def del: match_all.simps)

lemma hexToRgb_three:
  assumes "remove_first CHR ''#'' hex = [a, b, c]"
    and "list_all is_hex_digit [a, b, c]"
  shows "hexToRgb hex = (Some (byte_value a a), Some (byte_value b b), Some (byte_value c c))"
  using assms(2)
  by (simp add: hexToRgb_def assms(1) Let_def parseInt_byte element_def)

lemma hexToRgb_empty:
  assumes "remove_first CHR ''#'' hex = []"
  shows "hexToRgb hex = (Some 0, Some 0, Some 0)"
proof -
  have z: "is_hex_digit (CHR ''0'')" by (simp add: is_hex_digit_def digit_value_def)
  have "parseInt ''00'' 16 = Some (byte_value (CHR ''0'') (CHR ''0''))"
    using z z by (rule parseInt_byte)
  moreover have "byte_value (CHR ''0'') (CHR ''0'') = 0"
    by (simp add: byte_value_def digit_value_def)
  ultimately show ?thesis
    by (simp add: hexToRgb_def assms Let_def element_def)
qed

lemma replicate_numeral: "replicate (numeral k) c = c # replicate (pred_numeral k) c"
  by (simp add: numeral_eq_Suc)

lemma to_double_0: "to_double 0 = 0"
  by (simp add: to_double_def)

lemma to_double_1: "to_double 1 = 1"
  using to_double_of_int [of 1] by simp

lemma normalize_full: "normalize (Some 255) = ''1.0000''"
  by (simp add: normalize_def js_div_def to_double_1 toFixed_def Let_def digit_char_def)

lemma normalize_zero: "normalize (Some 0) = ''0.0000''"
  by (simp add: normalize_def js_div_def to_double_0 toFixed_def Let_def digit_char_def
      replicate_numeral)

lemma red_long: "colorToPythonTuple ''#ff0000'' = ''(1.0000, 0.0000, 0.0000, 1.0)''"
proof -
  have h: "list_all is_hex_digit ''ff0000''"
    by (simp add: is_hex_digit_def digit_value_def)
  have "hexToRgb ''#ff0000'' = (Some 255, Some 0, Some 0)"
    using hexToRgb_six [of "''#ff0000''", OF _ h]
    by (simp add: byte_value_def digit_value_def)
  then show ?thesis
    by (simp add: colorToPythonTuple_def normalize_full normalize_zero)
qed

lemma red_short: "colorToPythonTuple ''#f00'' = ''(1.0000, 0.0000, 0.0000, 1.0)''"
proof -
  have h: "list_all is_hex_digit ''f00''"
    by (simp add: is_hex_digit_def digit_value_def)
  have "hexToRgb ''#f00'' = (Some 255, Some 0, Some 0)"
    using hexToRgb_three [of "''#f00''", OF _ h]
    by (simp add: byte_value_def digit_value_def)
  then show ?thesis
    by (simp add: colorToPythonTuple_def normalize_full normalize_zero)
qed

lemma two_chars: "colorToPythonTuple ''ab'' = ''(0.6706, NaN, NaN, 1.0)''"
proof -
  have h: "is_hex_digit (CHR ''a'')" "is_hex_digit (CHR ''b'')"
    by (simp_all add: is_hex_digit_def digit_value_def)
  have p: "parseInt ''ab'' 16 = Some 171"
    using parseInt_byte [OF h] by (simp add: byte_value_def digit_value_def)
  have td: "to_double (57 / 85) = 6040121853179253 / 9007199254740992"
    by (simp add: to_double_def binary_exponent_def round_half_even_def Let_def)
  have "hexToRgb ''ab'' = (Some 171, None, None)"
    by (simp add: hexToRgb_def Let_def one_or_two_def any_but_newline_def
        is_line_terminator_def p element_def)
  then show ?thesis
    by (simp add: colorToPythonTuple_def normalize_def js_div_def toFixed_def Let_def
        digit_char_def td)
qed

subsection \<open>Escaping\<close>

lemma escapePythonString_chars: "escapePythonString s = concat (map escaped_char s)"
  by (induction s) (simp_all add: escapePythonString_def replace_all_char_def escaped_char_def)

lemma escapePythonString_Cons:
  "escapePythonString (c # s) = escaped_char c @ escapePythonString s"
  by (simp add: escapePythonString_chars)

lemma py_escape_backslash: "py_escape (CHR 0x5C) = Some [CHR 0x5C]"
  by (simp add: py_escape_def)

lemma py_escape_quote: "py_escape (CHR 0x22) = Some [CHR 0x22]"
  by (simp add: py_escape_def)

lemma literal_read_back:
  "single_line s \<Longrightarrow> py_string_items (escapePythonString s @ CHR 0x22 # rest) = Some (s, rest)"
proof (induction s)
  case Nil
  then show ?case by (simp add: escapePythonString_def replace_all_char_def)
next
  case (Cons c s)
  then have ih: "py_string_items (escapePythonString s @ CHR 0x22 # rest) = Some (s, rest)"
    and c: "c \<noteq> CHR 0x0A" "c \<noteq> CHR 0x0D"
    by (simp_all add: single_line_def is_line_terminator_def)
  show ?case
    using ih c
    by (simp add: escapePythonString_Cons escaped_char_def py_escape_backslash py_escape_quote)
qed

lemma literal_broken:
  "\<not> single_line s \<Longrightarrow> py_string_items (escapePythonString s @ rest) = None"
proof (induction s)
  case Nil
  then show ?case by (simp add: single_line_def)
next
  case (Cons c s)
  show ?case
  proof (cases "is_line_terminator c")
    case True
    then show ?thesis
      by (auto simp: escapePythonString_Cons escaped_char_def is_line_terminator_def)
  next
    case False
    with Cons.prems have "\<not> single_line s" by (simp add: single_line_def)
    then have "py_string_items (escapePythonString s @ rest) = None" by (rule Cons.IH)
    then show ?thesis
      using False
      by (simp add: escapePythonString_Cons escaped_char_def py_escape_backslash
          py_escape_quote is_line_terminator_def)
  qed
qed

lemma script_opening:
  \<open>generateBlenderScript c =
     [CHR 0x22, CHR 0x22, CHR 0x22, CHR 0x0A] @ ''Blender Building Assistant Script'' @ [CHR 0x0A]
     @ ''Generated for: '' @ escapePythonString (projectName c) @ [CHR 0x0A]
     @ ''Narrative: '' @ escapePythonString (narrative c) @ [CHR 0x0A]
     @ lines_text (drop 4 (script_docstring c))
     @ ''CONFIG = {'' @ [CHR 0x0A]
     @ ''    "project_name": "'' @ escapePythonString (projectName c) @ ''",'' @ [CHR 0x0A]
     @ ''    "narrative": "'' @ escapePythonString (narrative c) @ ''",'' @ [CHR 0x0A]
     @ lines_text (drop 3 (script_config c) @ python_library)\<close>
  by (simp add: generateBlenderScript_def script_docstring_def script_config_def lines_text_def)

subsection \<open>Reading a formatted number back\<close>

lemma digit_value_digit_char: "d < 10 \<Longrightarrow> digit_value (digit_char d) = d"
proof -
  assume "d < 10"
  then have "d \<in> {0, 1, 2, 3, 4, 5, 6, 7, 8, 9}" by auto
  then show ?thesis
    by (auto simp: digit_char_def digit_value_def)
qed

lemma digits_value_snoc:
  "digits_value r (xs @ [c]) = digits_value r xs * r + digit_value c"
  by (simp add: digits_value_def)

lemma digits_value_show_nat: "digits_value 10 (show_nat n) = n"
proof (induction n rule: show_nat.induct)
  case (1 n)
  show ?case
  proof (cases "n < 10")
    case True
    then show ?thesis
      by (subst show_nat.simps) (simp add: digits_value_def digit_value_digit_char)
  next
    case False
    with 1 have "digits_value 10 (show_nat (n div 10)) = n div 10" by simp
    then show ?thesis
      using False
      by (subst show_nat.simps) (simp add: digits_value_snoc digit_value_digit_char)
  qed
qed

lemma digits_value_append:
  "digits_value 10 (a @ b) = digits_value 10 a * 10 ^ length b + digits_value 10 b"
proof (induction b rule: rev_induct)
  case Nil
  show ?case by (simp add: digits_value_def)
next
  case (snoc c b)
  have "digits_value 10 (a @ b @ [c]) = digits_value 10 ((a @ b) @ [c])" by simp
  also have "\<dots> = digits_value 10 (a @ b) * 10 + digit_value c"
    by (rule digits_value_snoc)
  finally show ?case
    using snoc by (simp add: digits_value_snoc algebra_simps)
qed

lemma digits_value_zeros: "digits_value 10 (replicate k CHR ''0'') = 0"
proof (induction k)
  case 0
  show ?case by (simp add: digits_value_def)
next
  case (Suc k)
  have "replicate (Suc k) CHR ''0'' = replicate k CHR ''0'' @ ''0''"
    by (simp add: replicate_append_same)
  then have "digits_value 10 (replicate (Suc k) CHR ''0'')
             = digits_value 10 (replicate k CHR ''0'') * 10 + digit_value CHR ''0''"
    by (simp only: digits_value_snoc)
  with Suc show ?case by (simp add: digit_value_def)
qed

lemma all_digits_take:
  "all_digits m \<Longrightarrow> 3 \<le> length m \<Longrightarrow> all_digits (take (length m - 2) m)"
  by (auto simp: all_digits_def list_all_iff dest: in_set_takeD)

lemma digits_value_padded:
  "digits_value 10 (replicate k CHR ''0'' @ m) = digits_value 10 m"
  by (simp add: digits_value_append digits_value_zeros)

lemma digits_value_split:
  "digits_value 10 (take k m) * 10 ^ length (drop k m) + digits_value 10 (drop k m)
   = digits_value 10 m"
  using digits_value_append [of "take k m" "drop k m"] by simp

lemma takeWhile_digits:
  "all_digits a \<Longrightarrow> takeWhile is_digit (a @ CHR ''.'' # z) = a"
  by (simp add: all_digits_def list_all_iff takeWhile_append2 point_not_digit)

lemma dropWhile_digits:
  "all_digits a \<Longrightarrow> dropWhile is_digit (a @ CHR ''.'' # z) = CHR ''.'' # z"
  by (simp add: all_digits_def list_all_iff dropWhile_append2 point_not_digit)

lemma takeWhile_all_digits: "all_digits a \<Longrightarrow> takeWhile is_digit a = a"
  by (simp add: all_digits_def list_all_iff)

lemma dropWhile_all_digits: "all_digits a \<Longrightarrow> dropWhile is_digit a = []"
  by (simp add: all_digits_def list_all_iff)

lemma prefix_minus_sign:
  "all_digits m \<Longrightarrow> prefix ''-'' ((if b then ''-'' else []) @ m @ r) \<longleftrightarrow> b"
  by (cases m) (auto simp: all_digits_def minus_not_digit)

lemma decimal_value_integer:
  assumes "all_digits m"
  shows "decimal_value ((if b then ''-'' else []) @ m)
         = (if b then - 1 else 1) * of_nat (digits_value 10 m)"
proof -
  have u: "unsigned ((if b then ''-'' else []) @ m) = m"
    using unsigned_sign [OF assms, of b "[]"] by simp
  have p: "prefix ''-'' ((if b then ''-'' else []) @ m) \<longleftrightarrow> b"
    using prefix_minus_sign [OF assms, of b "[]"] by simp
  show ?thesis
    unfolding decimal_value_def u Let_def p
    by (simp add: takeWhile_all_digits [OF assms] dropWhile_all_digits [OF assms]
        digits_value_def)
qed

lemma decimal_value_fraction:
  assumes "all_digits a"
  shows "decimal_value ((if b then ''-'' else []) @ a @ ''.'' @ z)
         = (if b then - 1 else 1)
           * (of_nat (digits_value 10 a) + of_nat (digits_value 10 z) / 10 ^ length z)"
proof -
  have u: "unsigned ((if b then ''-'' else []) @ a @ ''.'' @ z) = a @ ''.'' @ z"
    using assms by (rule unsigned_sign)
  have p: "prefix ''-'' ((if b then ''-'' else []) @ a @ ''.'' @ z) \<longleftrightarrow> b"
    using assms by (rule prefix_minus_sign)
  have t: "takeWhile is_digit (a @ ''.'' @ z) = a"
    using takeWhile_digits [OF assms, of z] by simp
  have d: "dropWhile is_digit (a @ ''.'' @ z) = CHR ''.'' # z"
    using dropWhile_digits [OF assms, of z] by simp
  show ?thesis
    unfolding decimal_value_def u Let_def p t d by simp
qed

lemma toFixed_0_value:
  assumes "\<bar>x\<bar> < 10 ^ 21"
  shows "decimal_value (toFixed 0 x)
         = (if x < 0 then - 1 else 1) * of_int \<lfloor>\<bar>x\<bar> + 1 / 2\<rfloor>"
proof -
  have "0 \<le> \<lfloor>\<bar>x\<bar> + 1 / 2\<rfloor>" by simp
  then have "(of_nat (nat \<lfloor>\<bar>x\<bar> + 1 / 2\<rfloor>) :: rat) = of_int \<lfloor>\<bar>x\<bar> + 1 / 2\<rfloor>"
    by simp
  then show ?thesis
    by (simp only: toFixed_0 [OF assms] decimal_value_integer [OF show_nat_all_digits]
        digits_value_show_nat)
qed

lemma toFixed_2_value:
  assumes "\<bar>x\<bar> < 10 ^ 21"
  shows "decimal_value (toFixed 2 x)
         = (if x < 0 then - 1 else 1) * (of_int \<lfloor>\<bar>x\<bar> * 100 + 1 / 2\<rfloor> / 100)"
proof -
  define n where "n = nat \<lfloor>\<bar>x\<bar> * 10 ^ 2 + 1 / 2\<rfloor>"
  define m where "m = show_nat n"
  define p where "p = (if length m \<le> 2 then replicate (3 - length m) CHR ''0'' @ m else m)"
  define a where "a = take (length p - 2) p"
  define z where "z = drop (length p - 2) p"
  have dm: "all_digits m"
    unfolding m_def by (rule show_nat_all_digits)
  have dp: "all_digits p" and lp: "3 \<le> length p"
    unfolding p_def using padded_digits [OF dm] by blast+
  have da: "all_digits a"
    unfolding a_def using dp lp by (rule all_digits_take)
  have lz: "length z = 2"
    unfolding z_def using lp by simp
  have vp: "digits_value 10 p = n"
    unfolding p_def m_def by (simp add: digits_value_padded digits_value_show_nat)
  have "digits_value 10 a * 10 ^ length z + digits_value 10 z = digits_value 10 p"
    unfolding a_def z_def by (rule digits_value_split)
  then have s: "digits_value 10 a * 100 + digits_value 10 z = n"
    unfolding lz vp by simp
  have "(of_nat (digits_value 10 a) :: rat) + of_nat (digits_value 10 z) / 10 ^ length z
        = of_nat (digits_value 10 a * 100 + digits_value 10 z) / 100"
    unfolding lz by simp
  also have "\<dots> = of_nat n / 100"
    by (simp only: s)
  also have "(of_nat n :: rat) = of_int \<lfloor>\<bar>x\<bar> * 100 + 1 / 2\<rfloor>"
  proof -
    have "0 \<le> \<lfloor>\<bar>x\<bar> * 100 + 1 / 2\<rfloor>" by simp
    then show ?thesis unfolding n_def by simp
  qed
  finally have v: "(of_nat (digits_value 10 a) :: rat)
        + of_nat (digits_value 10 z) / 10 ^ length z
        = of_int \<lfloor>\<bar>x\<bar> * 100 + 1 / 2\<rfloor> / 100" .
  have "toFixed 2 x = (if x < 0 then ''-'' else []) @ a @ ''.'' @ z"
    unfolding a_def z_def p_def m_def n_def
    using toFixed_2 [OF assms] by (simp only: Let_def)
  then show ?thesis
    by (simp only: decimal_value_fraction [OF da] v)
qed

lemma formatNumber_value_integer:
  assumes "\<bar>x\<bar> < 10 ^ 21" and "isInteger x"
  shows "decimal_value (formatNumber x) = x"
proof -
  from assms(2) obtain k :: int where k: "x = of_int k"
    by (metis isInteger_def)
  have "\<lfloor>\<bar>x\<bar> + 1 / 2\<rfloor> = \<bar>k\<bar>"
    unfolding k by (simp only: of_int_abs [symmetric]) linarith
  then have "decimal_value (toFixed 0 x) = (if x < 0 then - 1 else 1) * of_int \<bar>k\<bar>"
    using toFixed_0_value [OF assms(1)] by simp
  also have "\<dots> = x"
    unfolding k by simp
  finally show ?thesis
    using assms(2) by (simp add: formatNumber_def)
qed

lemma formatNumber_value_fraction:
  assumes "\<bar>x\<bar> < 10 ^ 21" and "\<not> isInteger x"
  shows "\<bar>decimal_value (formatNumber x) - x\<bar> \<le> 1 / 200"
proof -
  let ?n = "\<lfloor>\<bar>x\<bar> * 100 + 1 / 2\<rfloor>"
  have lo: "of_int ?n \<le> \<bar>x\<bar> * 100 + 1 / 2" by (rule of_int_floor_le)
  have hi: "\<bar>x\<bar> * 100 + 1 / 2 < of_int ?n + 1" by linarith
  from lo hi have near: "\<bar>of_int ?n / 100 - \<bar>x\<bar>\<bar> \<le> 1 / 200"
    by linarith
  have "decimal_value (formatNumber x) = (if x < 0 then - 1 else 1) * (of_int ?n / 100)"
    using toFixed_2_value [OF assms(1)] assms(2) by (simp add: formatNumber_def)
  then have "\<bar>decimal_value (formatNumber x) - x\<bar> = \<bar>of_int ?n / 100 - \<bar>x\<bar>\<bar>"
    by (cases "x < 0") simp_all
  with near show ?thesis by simp
qed

lemma big_double: "to_double 1000000000000000000000 = 1000000000000000000000"
  by (simp add: to_double_def binary_exponent_def round_half_even_def Let_def)

lemma big_double_twice: "to_double 2000000000000000000000 \<noteq> 1000000000000000000000"
  by (simp add: to_double_def binary_exponent_def round_half_even_def Let_def)

lemma big_pick: "pick_digits 1000000000000000000000 22 (Suc 0) = Some (Suc 0)"
  by (simp add: pick_digits_def Let_def big_double big_double_twice)

lemma big_exponent: "decimal_exponent 1000000000000000000000 = 22"
  by (simp add: decimal_exponent_def digit_char_def)

lemma big_text: "number_toString 1000000000000000000000 = ''1e+21''"
  by (simp add: number_toString_def Let_def big_exponent big_pick upt_conv_Cons digit_char_def
      del: upt_rec_numeral)

lemma big_format: "formatNumber 1000000000000000000000 = ''1e+21''"
  by (simp add: formatNumber_def isInteger_def toFixed_def big_text)

text \<open>
  Claim C5, as the code has it. For a number below \<open>10 ^ 21\<close> in magnitude,
  \<open>formatNumber\<close> writes an integer, digits after an optional minus sign, if and only if
  the number has no fractional part, and a text with exactly two decimal digits
  otherwise. The text denotes the number: read back as a decimal (\<open>decimal_value\<close>) the
  integer text is the number itself, and the text with two decimals is within half a
  hundredth of it. The floor height 3.6, the binary64 value nearest to it, is written
  \<^verbatim>\<open>3.60\<close> and the floor count 18 is written \<^verbatim>\<open>18\<close>.
\<close>

theorem formatNumber_text:
  "(\<bar>x\<bar> < 10 ^ 21 \<longrightarrow>
      (integer_text (formatNumber x) \<longleftrightarrow> isInteger x)
      \<and> (two_decimals_text (formatNumber x) \<longleftrightarrow> \<not> isInteger x)
      \<and> (isInteger x \<longrightarrow> decimal_value (formatNumber x) = x)
      \<and> (\<not> isInteger x \<longrightarrow> \<bar>decimal_value (formatNumber x) - x\<bar> \<le> 1 / 200))
   \<and> formatNumber (to_double (36 / 10)) = ''3.60''
   \<and> formatNumber 18 = ''18''"
proof -
  have "integer_text (formatNumber x) \<longleftrightarrow> isInteger x"
    and "two_decimals_text (formatNumber x) \<longleftrightarrow> \<not> isInteger x" if "\<bar>x\<bar> < 10 ^ 21"
    using formatNumber_integer [OF that] formatNumber_fraction [OF that]
      two_decimals_not_integer [of "formatNumber x"]
    by blast+
  moreover have "decimal_value (formatNumber x) = x" if "\<bar>x\<bar> < 10 ^ 21" and "isInteger x"
    using that by (rule formatNumber_value_integer)
  moreover have "\<bar>decimal_value (formatNumber x) - x\<bar> \<le> 1 / 200"
    if "\<bar>x\<bar> < 10 ^ 21" and "\<not> isInteger x"
    using that by (rule formatNumber_value_fraction)
  moreover have "formatNumber (to_double (36 / 10)) = ''3.60''"
    by (simp only: default_floor_height)
       (simp add: formatNumber_def isInteger_def toFixed_def Let_def digit_char_def)
  moreover have "formatNumber 18 = ''18''"
    by (simp add: formatNumber_def isInteger_def toFixed_def Let_def digit_char_def)
  ultimately show ?thesis by blast
qed

theorem formatNumber_text_witness:
  "\<bar>15 / 4 :: rat\<bar> < 10 ^ 21 \<and> \<not> isInteger (15 / 4)
   \<and> formatNumber (15 / 4) = ''3.75''
   \<and> two_decimals_text ''3.75'' \<and> \<not> integer_text ''3.75''
   \<and> \<bar>decimal_value ''3.75'' - 15 / 4\<bar> \<le> 1 / 200
   \<and> \<bar>- 7 :: rat\<bar> < 10 ^ 21 \<and> isInteger (- 7)
   \<and> formatNumber (- 7) = ''-7''
   \<and> integer_text ''-7'' \<and> \<not> two_decimals_text ''-7''
   \<and> decimal_value ''-7'' = - 7"
proof -
  have b: "\<bar>15 / 4 :: rat\<bar> < 10 ^ 21" "\<bar>- 7 :: rat\<bar> < 10 ^ 21" by simp_all
  have n: "\<not> isInteger (15 / 4)" "isInteger (- 7)" by (simp_all add: isInteger_def)
  have v: "formatNumber (15 / 4) = ''3.75''" "formatNumber (- 7) = ''-7''"
    by (simp_all add: formatNumber_def isInteger_def toFixed_def Let_def digit_char_def)
  show ?thesis
    using formatNumber_text [of "15 / 4"] formatNumber_text [of "- 7"] b n
    by (simp add: v)
qed

text \<open>
  The claim as it is written has no bound. \<^verbatim>\<open>toFixed\<close> switches to the exponent
  notation of \<^verbatim>\<open>Number::toString\<close> at \<open>10 ^ 21\<close>: that number has no fractional part and
  is written \<^verbatim>\<open>1e+21\<close>, which is neither of the two shapes, and a units-per-floor field
  that is handed it puts that text into the \<^verbatim>\<open>CONFIG\<close> block.
\<close>

theorem formatNumber_exponent:
  \<open>isInteger (10 ^ 21)
   \<and> formatNumber (10 ^ 21) = ''1e+21''
   \<and> \<not> integer_text (formatNumber (10 ^ 21))
   \<and> \<not> two_decimals_text (formatNumber (10 ^ 21))
   \<and> script_config (edit_unitsPerFloor (10 ^ 21) defaultConfig) ! 4
       = ''    "units_per_floor": 1e+21,''\<close>
  by (simp add: isInteger_def big_format integer_text_def two_decimals_text_def unsigned_def
      all_digits_def is_digit_def script_config_def edit_unitsPerFloor_def updateConfig_def
      spread_def)

subsection \<open>The colour tuples\<close>

text \<open>
  Claim C4. For a colour of six hex digits, with or without a leading \<^verbatim>\<open>#\<close>, the
  conversion parses each pair of digits as a byte, divides it by 255 and writes it with
  four decimal digits, and the fourth component is always \<^verbatim>\<open>1.0\<close>; a colour of three hex
  digits is converted as the six-digit colour with each digit doubled. Both \<^verbatim>\<open>#ff0000\<close>
  and \<^verbatim>\<open>#f00\<close> give \<^verbatim>\<open>(1.0000, 0.0000, 0.0000, 1.0)\<close>.
\<close>

theorem colorToPythonTuple_hex:
  "((p = [] \<or> p = ''#'') \<longrightarrow> list_all is_hex_digit [a, b, c, d, e, f] \<longrightarrow>
      colorToPythonTuple (p @ [a, b, c, d, e, f])
        = ''('' @ toFixed 4 (js_div (byte_value a b) 255)
          @ '', '' @ toFixed 4 (js_div (byte_value c d) 255)
          @ '', '' @ toFixed 4 (js_div (byte_value e f) 255) @ '', 1.0)''
      \<and> colorToPythonTuple (p @ [a, c, e]) = colorToPythonTuple (p @ [a, a, c, c, e, e]))
   \<and> colorToPythonTuple ''#ff0000'' = ''(1.0000, 0.0000, 0.0000, 1.0)''
   \<and> colorToPythonTuple ''#f00'' = ''(1.0000, 0.0000, 0.0000, 1.0)''"
proof -
  have "colorToPythonTuple (p @ [a, b, c, d, e, f])
        = ''('' @ toFixed 4 (js_div (byte_value a b) 255)
          @ '', '' @ toFixed 4 (js_div (byte_value c d) 255)
          @ '', '' @ toFixed 4 (js_div (byte_value e f) 255) @ '', 1.0)''"
    and "colorToPythonTuple (p @ [a, c, e]) = colorToPythonTuple (p @ [a, a, c, c, e, e])"
    if p: "p = [] \<or> p = ''#''" and h: "list_all is_hex_digit [a, b, c, d, e, f]"
  proof -
    have six: "remove_first CHR ''#'' (p @ [a, b, c, d, e, f]) = [a, b, c, d, e, f]"
      using h p by (rule remove_first_hash)
    show "colorToPythonTuple (p @ [a, b, c, d, e, f])
        = ''('' @ toFixed 4 (js_div (byte_value a b) 255)
          @ '', '' @ toFixed 4 (js_div (byte_value c d) 255)
          @ '', '' @ toFixed 4 (js_div (byte_value e f) 255) @ '', 1.0)''"
      by (simp add: colorToPythonTuple_def hexToRgb_six [OF six h] normalize_def)
    have h3: "list_all is_hex_digit [a, c, e]" and h6: "list_all is_hex_digit [a, a, c, c, e, e]"
      using h by simp_all
    have "hexToRgb (p @ [a, c, e]) = hexToRgb (p @ [a, a, c, c, e, e])"
      using hexToRgb_three [OF remove_first_hash [OF h3 p] h3]
        hexToRgb_six [OF remove_first_hash [OF h6 p] h6]
      by simp
    then show "colorToPythonTuple (p @ [a, c, e]) = colorToPythonTuple (p @ [a, a, c, c, e, e])"
      by (simp add: colorToPythonTuple_def)
  qed
  then show ?thesis using red_long red_short by blast
qed

theorem colorToPythonTuple_hex_witness:
  "list_all is_hex_digit ''4d5c6f''
   \<and> colorToPythonTuple ''#4d5c6f''
       = ''('' @ toFixed 4 (js_div 77 255) @ '', '' @ toFixed 4 (js_div 92 255)
         @ '', '' @ toFixed 4 (js_div 111 255) @ '', 1.0)''
   \<and> colorToPythonTuple ''456'' = colorToPythonTuple ''445566''"
proof -
  have h: "list_all is_hex_digit ''4d5c6f''"
    by (simp add: is_hex_digit_def digit_value_def)
  have g: "list_all is_hex_digit ''445566''"
    by (simp add: is_hex_digit_def digit_value_def)
  show ?thesis
    using h
      colorToPythonTuple_hex [of "''#''" "CHR ''4''" "CHR ''d''" "CHR ''5''" "CHR ''c''"
        "CHR ''6''" "CHR ''f''"]
      colorToPythonTuple_hex [of "[]" "CHR ''4''" "CHR ''4''" "CHR ''5''" "CHR ''5''"
        "CHR ''6''" "CHR ''6''"] g
    by (simp add: byte_value_def digit_value_def)
qed

text \<open>
  Claim C10. \<open>hexToRgb\<close> and \<open>colorToPythonTuple\<close> return on every string (no step of
  theirs throws, and the embedding has no error branch), and the result is always a
  tuple of four components closed by \<^verbatim>\<open>1.0\<close>. When the colour without its first \<^verbatim>\<open>#\<close> is
  exactly three or six hex digits, the three channels are bytes and each emitted
  channel is the rendering of a number between 0 and 1. When it is empty, \<open>hexToRgb\<close>
  falls back to three zero bytes and the tuple is \<^verbatim>\<open>(0.0000, 0.0000, 0.0000, 1.0)\<close>.
  Outside these shapes a channel need not be a number: the two-character colour
  \<^verbatim>\<open>ab\<close> has no second and third chunk and gives \<^verbatim>\<open>(0.6706, NaN, NaN, 1.0)\<close>.
\<close>

theorem hexToRgb_total:
  "(\<exists>x y z. colorToPythonTuple hex = ''('' @ x @ '', '' @ y @ '', '' @ z @ '', 1.0)'')
   \<and> ((length (remove_first CHR ''#'' hex) = 3 \<or> length (remove_first CHR ''#'' hex) = 6)
        \<longrightarrow> list_all is_hex_digit (remove_first CHR ''#'' hex) \<longrightarrow>
        (\<exists>r g b. hexToRgb hex = (Some r, Some g, Some b)
           \<and> 0 \<le> r \<and> r \<le> 255 \<and> 0 \<le> g \<and> g \<le> 255 \<and> 0 \<le> b \<and> b \<le> 255
           \<and> 0 \<le> js_div r 255 \<and> js_div r 255 \<le> 1
           \<and> 0 \<le> js_div g 255 \<and> js_div g 255 \<le> 1
           \<and> 0 \<le> js_div b 255 \<and> js_div b 255 \<le> 1
           \<and> colorToPythonTuple hex
               = ''('' @ toFixed 4 (js_div r 255) @ '', '' @ toFixed 4 (js_div g 255)
                 @ '', '' @ toFixed 4 (js_div b 255) @ '', 1.0)''))
   \<and> (remove_first CHR ''#'' hex = [] \<longrightarrow>
        hexToRgb hex = (Some 0, Some 0, Some 0)
        \<and> colorToPythonTuple hex = ''(0.0000, 0.0000, 0.0000, 1.0)'')
   \<and> colorToPythonTuple ''ab'' = ''(0.6706, NaN, NaN, 1.0)''"
proof -
  have shape: "\<exists>x y z. colorToPythonTuple hex = ''('' @ x @ '', '' @ y @ '', '' @ z @ '', 1.0)''"
    by (cases "hexToRgb hex") (auto simp: colorToPythonTuple_def)
  have unit: "0 \<le> js_div v 255 \<and> js_div v 255 \<le> 1" if "0 \<le> v" "v \<le> 255" for v
    unfolding js_div_def using that by (intro to_double_unit_interval) simp_all
  have bytes: "\<exists>r g b. hexToRgb hex = (Some r, Some g, Some b)
           \<and> 0 \<le> r \<and> r \<le> 255 \<and> 0 \<le> g \<and> g \<le> 255 \<and> 0 \<le> b \<and> b \<le> 255"
    if len: "length (remove_first CHR ''#'' hex) = 3 \<or> length (remove_first CHR ''#'' hex) = 6"
      and h: "list_all is_hex_digit (remove_first CHR ''#'' hex)"
  proof -
    from len show ?thesis
    proof
      assume "length (remove_first CHR ''#'' hex) = 3"
      then obtain a b c where e: "remove_first CHR ''#'' hex = [a, b, c]"
        by (auto simp: length_Suc_conv numeral_3_eq_3)
      with h have d: "list_all is_hex_digit [a, b, c]" by simp
      show ?thesis
        using hexToRgb_three [OF e d] d byte_value_range by simp
    next
      assume "length (remove_first CHR ''#'' hex) = 6"
      then obtain a b c d e f where e: "remove_first CHR ''#'' hex = [a, b, c, d, e, f]"
        by (auto simp: length_Suc_conv eval_nat_numeral)
      with h have d: "list_all is_hex_digit [a, b, c, d, e, f]" by simp
      show ?thesis
        using hexToRgb_six [OF e d] d byte_value_range by simp
    qed
  qed
  have full: "\<exists>r g b. hexToRgb hex = (Some r, Some g, Some b)
           \<and> 0 \<le> r \<and> r \<le> 255 \<and> 0 \<le> g \<and> g \<le> 255 \<and> 0 \<le> b \<and> b \<le> 255
           \<and> 0 \<le> js_div r 255 \<and> js_div r 255 \<le> 1
           \<and> 0 \<le> js_div g 255 \<and> js_div g 255 \<le> 1
           \<and> 0 \<le> js_div b 255 \<and> js_div b 255 \<le> 1
           \<and> colorToPythonTuple hex
               = ''('' @ toFixed 4 (js_div r 255) @ '', '' @ toFixed 4 (js_div g 255)
                 @ '', '' @ toFixed 4 (js_div b 255) @ '', 1.0)''"
    if len: "length (remove_first CHR ''#'' hex) = 3 \<or> length (remove_first CHR ''#'' hex) = 6"
      and h: "list_all is_hex_digit (remove_first CHR ''#'' hex)"
  proof -
    from bytes [OF len h] obtain r g b where
      rgb: "hexToRgb hex = (Some r, Some g, Some b)"
      and r: "0 \<le> r" "r \<le> 255" and g: "0 \<le> g" "g \<le> 255" and b: "0 \<le> b" "b \<le> 255"
      by blast
    have "colorToPythonTuple hex
               = ''('' @ toFixed 4 (js_div r 255) @ '', '' @ toFixed 4 (js_div g 255)
                 @ '', '' @ toFixed 4 (js_div b 255) @ '', 1.0)''"
      by (simp add: colorToPythonTuple_def rgb normalize_def)
    with rgb r g b unit [OF r] unit [OF g] unit [OF b] show ?thesis by blast
  qed
  have empty: "hexToRgb hex = (Some 0, Some 0, Some 0)
        \<and> colorToPythonTuple hex = ''(0.0000, 0.0000, 0.0000, 1.0)''"
    if "remove_first CHR ''#'' hex = []"
    using hexToRgb_empty [OF that] by (simp add: colorToPythonTuple_def normalize_zero)
  show ?thesis
    using shape full empty two_chars by blast
qed

theorem hexToRgb_total_witness:
  "length (remove_first CHR ''#'' ''#c48f5a'') = 6
   \<and> list_all is_hex_digit (remove_first CHR ''#'' ''#c48f5a'')
   \<and> hexToRgb ''#c48f5a'' = (Some 196, Some 143, Some 90)
   \<and> 0 \<le> js_div 196 255 \<and> js_div 196 255 \<le> 1
   \<and> remove_first CHR ''#'' ''#'' = []
   \<and> colorToPythonTuple ''#'' = ''(0.0000, 0.0000, 0.0000, 1.0)''"
proof -
  have l: "length (remove_first CHR ''#'' ''#c48f5a'') = 6" by simp
  have h: "list_all is_hex_digit (remove_first CHR ''#'' ''#c48f5a'')"
    by (simp add: is_hex_digit_def digit_value_def)
  have v: "hexToRgb ''#c48f5a'' = (Some 196, Some 143, Some 90)"
    using hexToRgb_six [of "''#c48f5a''" "CHR ''c''" "CHR ''4''" "CHR ''8''" "CHR ''f''"
        "CHR ''5''" "CHR ''a''"] h
    by (simp add: byte_value_def digit_value_def)
  have e: "remove_first CHR ''#'' ''#'' = []" by simp
  show ?thesis
    using hexToRgb_total [of "''#c48f5a''"] hexToRgb_total [of "''#''"] l h v e by auto
qed

subsection \<open>The string literals\<close>

lemma filter_escaped:
  "filter (\<lambda>c. c \<noteq> CHR 0x5C \<and> c \<noteq> CHR 0x22) (escapePythonString v)
   = filter (\<lambda>c. c \<noteq> CHR 0x5C \<and> c \<noteq> CHR 0x22) v"
  by (induction v) (simp_all add: escapePythonString_chars escaped_char_def)

lemma newline_kept: "CHR 0x0A \<in> set v \<Longrightarrow> CHR 0x0A \<in> set (escapePythonString v)"
  by (induction v) (auto simp: escapePythonString_chars escaped_char_def)

lemma script_literals:
  \<open>\<exists>pre post. generateBlenderScript config =
     pre @ ''    "project_name": "'' @ escapePythonString (projectName config) @ ''",''
     @ [CHR 0x0A] @ ''    "narrative": "'' @ escapePythonString (narrative config) @ ''",''
     @ [CHR 0x0A] @ post\<close>
proof -
  let ?pre = "[CHR 0x22, CHR 0x22, CHR 0x22, CHR 0x0A] @ ''Blender Building Assistant Script''
     @ [CHR 0x0A] @ ''Generated for: '' @ escapePythonString (projectName config) @ [CHR 0x0A]
     @ ''Narrative: '' @ escapePythonString (narrative config) @ [CHR 0x0A]
     @ lines_text (drop 4 (script_docstring config)) @ ''CONFIG = {'' @ [CHR 0x0A]"
  let ?post = "lines_text (drop 3 (script_config config) @ python_library)"
  have \<open>generateBlenderScript config =
     ?pre @ ''    "project_name": "'' @ escapePythonString (projectName config) @ ''",''
     @ [CHR 0x0A] @ ''    "narrative": "'' @ escapePythonString (narrative config) @ ''",''
     @ [CHR 0x0A] @ ?post\<close>
    by (subst script_opening) simp
  then show ?thesis by blast
qed

text \<open>
  Claim C6. \<open>escapePythonString\<close> replaces the backslashes first and the double quotes
  second, which doubles every backslash and puts a backslash before every double quote
  (in the other order the backslash of an escaped quote would be doubled again). The
  script opens with the header that holds the escaped project name and narrative, and
  its \<^verbatim>\<open>CONFIG\<close> block holds both again between double quotes. For a text on a single
  line, such as a project name with a double quote and a backslash, the literal is well
  formed: Python reads it up to the closing quote that the template wrote and gets the
  text back.
\<close>

theorem escapePythonString_literal:
  \<open>escapePythonString v
     = replace_all_char (CHR 0x22) [CHR 0x5C, CHR 0x22]
         (replace_all_char (CHR 0x5C) [CHR 0x5C, CHR 0x5C] v)
   \<and> escapePythonString v = concat (map escaped_char v)
   \<and> (\<exists>rest. generateBlenderScript config =
         [CHR 0x22, CHR 0x22, CHR 0x22, CHR 0x0A] @ ''Blender Building Assistant Script''
         @ [CHR 0x0A] @ ''Generated for: '' @ escapePythonString (projectName config)
         @ [CHR 0x0A] @ ''Narrative: '' @ escapePythonString (narrative config)
         @ [CHR 0x0A] @ rest)
   \<and> (\<exists>pre post. generateBlenderScript config =
         pre @ ''    "project_name": "'' @ escapePythonString (projectName config) @ ''",''
         @ [CHR 0x0A] @ ''    "narrative": "'' @ escapePythonString (narrative config) @ ''",''
         @ [CHR 0x0A] @ post)
   \<and> (single_line v \<longrightarrow>
        py_string_items (escapePythonString v @ CHR 0x22 # follow) = Some (v, follow))
   \<and> escapePythonString [CHR ''a'', CHR 0x22, CHR 0x5C, CHR ''b'']
       = [CHR ''a'', CHR 0x5C, CHR 0x22, CHR 0x5C, CHR 0x5C, CHR ''b'']
   \<and> replace_all_char (CHR 0x5C) [CHR 0x5C, CHR 0x5C]
         (replace_all_char (CHR 0x22) [CHR 0x5C, CHR 0x22] [CHR 0x22])
       \<noteq> escapePythonString [CHR 0x22]\<close>
proof -
  have \<open>\<exists>rest. generateBlenderScript config =
         [CHR 0x22, CHR 0x22, CHR 0x22, CHR 0x0A] @ ''Blender Building Assistant Script''
         @ [CHR 0x0A] @ ''Generated for: '' @ escapePythonString (projectName config)
         @ [CHR 0x0A] @ ''Narrative: '' @ escapePythonString (narrative config)
         @ [CHR 0x0A] @ rest\<close>
    by (subst script_opening) blast
  moreover have "escapePythonString [CHR ''a'', CHR 0x22, CHR 0x5C, CHR ''b'']
       = [CHR ''a'', CHR 0x5C, CHR 0x22, CHR 0x5C, CHR 0x5C, CHR ''b'']"
    by (simp add: escapePythonString_def replace_all_char_def)
  moreover have "replace_all_char (CHR 0x5C) [CHR 0x5C, CHR 0x5C]
         (replace_all_char (CHR 0x22) [CHR 0x5C, CHR 0x22] [CHR 0x22])
       \<noteq> escapePythonString [CHR 0x22]"
    by (simp add: escapePythonString_def replace_all_char_def)
  moreover have "escapePythonString v
     = replace_all_char (CHR 0x22) [CHR 0x5C, CHR 0x22]
         (replace_all_char (CHR 0x5C) [CHR 0x5C, CHR 0x5C] v)"
    by (simp add: escapePythonString_def)
  ultimately show ?thesis
    using escapePythonString_chars [of v] script_literals [of config]
      literal_read_back [of v follow]
    by blast
qed

theorem escapePythonString_literal_witness:
  \<open>single_line (''Tower "A" '' @ [CHR 0x5C])
   \<and> escapePythonString (''Tower "A" '' @ [CHR 0x5C])
       = ''Tower '' @ [CHR 0x5C] @ ''"A'' @ [CHR 0x5C] @ ''" '' @ [CHR 0x5C, CHR 0x5C]
   \<and> py_string_items (escapePythonString (''Tower "A" '' @ [CHR 0x5C]) @ CHR 0x22 # '','')
       = Some (''Tower "A" '' @ [CHR 0x5C], '','')\<close>
proof -
  have s: \<open>single_line (''Tower "A" '' @ [CHR 0x5C])\<close>
    by (simp add: single_line_def is_line_terminator_def)
  have e: \<open>escapePythonString (''Tower "A" '' @ [CHR 0x5C])
       = ''Tower '' @ [CHR 0x5C] @ ''"A'' @ [CHR 0x5C] @ ''" '' @ [CHR 0x5C, CHR 0x5C]\<close>
    by (simp add: escapePythonString_def replace_all_char_def)
  from escapePythonString_literal [of \<open>''Tower "A" '' @ [CHR 0x5C]\<close> defaultConfig "'',''"]
  have \<open>single_line (''Tower "A" '' @ [CHR 0x5C]) \<longrightarrow>
        py_string_items (escapePythonString (''Tower "A" '' @ [CHR 0x5C]) @ CHR 0x22 # '','')
        = Some (''Tower "A" '' @ [CHR 0x5C], '','')\<close>
    by blast
  with s e show ?thesis by simp
qed

lemma solar_move:
  "updates (applyAiInference ''solar'' defaultConfig)
   = no_updates\<lparr>p_includeSolarPanels := Some True\<rparr>"
  by (simp add: applyAiInference_def Let_def toLowerCase_def trim_def is_white_space_def
      lower_char_def all_blocks_def floors_block_def width_block_def depth_block_def
      slender_block_def atrium_block_def podium_block_def garden_block_def solar_block_def
      balcony_block_def facade_block_def shelves_block_def roof_block_def lobby_block_def
      units_block_def digits_def decimal_def floor_tail_def width_tail_def depth_tail_def
      unit_tail_def metres_def spaces_def Plus_def is_digit_def)

text \<open>
  Claim C9. \<open>escapePythonString\<close> rewrites backslashes and double quotes only: the other
  characters of the text come out unchanged and in order, a line feed among them. A
  project name or narrative with a line break therefore puts the break inside the
  double-quoted literal of the \<^verbatim>\<open>CONFIG\<close> block, which Python does not read as a string
  literal, whatever follows. \<open>handleApplyAi\<close> appends two line feeds and the prompt to
  the narrative on every move it applies, so the narrative is no longer a single line
  afterwards.
\<close>

theorem escapePythonString_keeps_newlines:
  \<open>filter (\<lambda>c. c \<noteq> CHR 0x5C \<and> c \<noteq> CHR 0x22) (escapePythonString v)
     = filter (\<lambda>c. c \<noteq> CHR 0x5C \<and> c \<noteq> CHR 0x22) v
   \<and> (CHR 0x0A \<in> set v \<longrightarrow> CHR 0x0A \<in> set (escapePythonString v))
   \<and> (\<not> single_line v \<longrightarrow> py_string_items (escapePythonString v @ follow) = None)
   \<and> (\<exists>pre post. generateBlenderScript config =
         pre @ ''"project_name": "'' @ escapePythonString (projectName config) @ post)
   \<and> (\<exists>pre post. generateBlenderScript config =
         pre @ ''"narrative": "'' @ escapePythonString (narrative config) @ post)
   \<and> (updates (applyAiInference (st_aiPrompt st) (st_config st)) \<noteq> no_updates \<longrightarrow>
        narrative (st_config (handleApplyAi st))
          = narrative (st_config st) @ [CHR 0x0A, CHR 0x0A] @ ''Prompt: ''
            @ trim (st_aiPrompt st)
        \<and> \<not> single_line (narrative (st_config (handleApplyAi st))))\<close>
proof -
  obtain pre post where g: \<open>generateBlenderScript config =
     pre @ ''    "project_name": "'' @ escapePythonString (projectName config) @ ''",''
     @ [CHR 0x0A] @ ''    "narrative": "'' @ escapePythonString (narrative config) @ ''",''
     @ [CHR 0x0A] @ post\<close>
    using script_literals by blast
  have \<open>generateBlenderScript config =
         (pre @ ''    '') @ ''"project_name": "'' @ escapePythonString (projectName config)
         @ (''",'' @ [CHR 0x0A] @ ''    "narrative": "''
            @ escapePythonString (narrative config) @ ''",'' @ [CHR 0x0A] @ post)\<close>
    by (simp add: g)
  then have name: \<open>\<exists>pre post. generateBlenderScript config =
         pre @ ''"project_name": "'' @ escapePythonString (projectName config) @ post\<close>
    by blast
  have \<open>generateBlenderScript config =
         (pre @ ''    "project_name": "'' @ escapePythonString (projectName config) @ ''",''
           @ [CHR 0x0A] @ ''    '') @ ''"narrative": "''
         @ escapePythonString (narrative config) @ (''",'' @ [CHR 0x0A] @ post)\<close>
    by (simp add: g)
  then have narr: \<open>\<exists>pre post. generateBlenderScript config =
         pre @ ''"narrative": "'' @ escapePythonString (narrative config) @ post\<close>
    by blast
  have move: "narrative (st_config (handleApplyAi st))
          = narrative (st_config st) @ [CHR 0x0A, CHR 0x0A] @ ''Prompt: ''
            @ trim (st_aiPrompt st)
        \<and> \<not> single_line (narrative (st_config (handleApplyAi st)))"
    if "updates (applyAiInference (st_aiPrompt st) (st_config st)) \<noteq> no_updates"
    using that
    by (simp add: handleApplyAi_def Let_def updateConfig_def spread_def single_line_def
        is_line_terminator_def)
  show ?thesis
    using filter_escaped [of v] newline_kept [of v] literal_broken [of v follow] name narr move
    by blast
qed

theorem escapePythonString_keeps_newlines_witness:
  "\<not> single_line [CHR ''a'', CHR 0x0A, CHR ''b'']
   \<and> escapePythonString [CHR ''a'', CHR 0x0A, CHR ''b''] = [CHR ''a'', CHR 0x0A, CHR ''b'']
   \<and> py_string_items (escapePythonString [CHR ''a'', CHR 0x0A, CHR ''b''] @ [CHR 0x22, CHR '','']) = None
   \<and> narrative (st_config (handleApplyAi
        \<lparr>st_config = defaultConfig, st_aiPrompt = ''solar'', st_aiSummary = [],
          st_statusMessage = None\<rparr>))
       = narrative defaultConfig @ [CHR 0x0A, CHR 0x0A] @ ''Prompt: solar''"
proof -
  let ?st = "\<lparr>st_config = defaultConfig, st_aiPrompt = ''solar'', st_aiSummary = [],
          st_statusMessage = None\<rparr>"
  have n: "\<not> single_line [CHR ''a'', CHR 0x0A, CHR ''b'']"
    by (simp add: single_line_def is_line_terminator_def)
  have e: "escapePythonString [CHR ''a'', CHR 0x0A, CHR ''b''] = [CHR ''a'', CHR 0x0A, CHR ''b'']"
    by (simp add: escapePythonString_def replace_all_char_def)
  have u: "updates (applyAiInference (st_aiPrompt ?st) (st_config ?st)) \<noteq> no_updates"
    by (simp add: solar_move no_updates_def)
  have t: "trim ''solar'' = ''solar''"
    by (simp add: trim_def is_white_space_def)
  from escapePythonString_keeps_newlines
        [of "[CHR ''a'', CHR 0x0A, CHR ''b'']" "[CHR 0x22, CHR '','']" defaultConfig ?st]
  have "\<not> single_line [CHR ''a'', CHR 0x0A, CHR ''b''] \<longrightarrow>
        py_string_items (escapePythonString [CHR ''a'', CHR 0x0A, CHR ''b'']
                         @ [CHR 0x22, CHR '','']) = None"
    and "updates (applyAiInference (st_aiPrompt ?st) (st_config ?st)) \<noteq> no_updates \<longrightarrow>
        narrative (st_config (handleApplyAi ?st))
          = narrative (st_config ?st) @ [CHR 0x0A, CHR 0x0A] @ ''Prompt: ''
            @ trim (st_aiPrompt ?st)"
    by blast+
  with n e u t show ?thesis by simp
qed

subsection \<open>The balconies\<close>



lemma create_balcony_placed:
  "py_0_05 < py_value (cfg_balcony_depth cfg) \<Longrightarrow>
   create_balcony cfg level col n = [(level, col, n)]"
  by (simp add: create_balcony_def)

lemma all_columns:
  "py_0_05 < py_value (cfg_balcony_depth cfg) \<Longrightarrow>
   concat (map (\<lambda>col. create_balcony cfg level col n) cols)
   = map (\<lambda>col. (level, col, n)) cols"
  by (induction cols) (simp_all add: create_balcony_placed)














subsection \<open>The intent mapper\<close>

lemma clamp_range: "mn \<le> mx \<Longrightarrow> mn \<le> clamp v mn mx \<and> clamp v mn mx \<le> mx"
  by (simp add: clamp_def)

lemmas block_defs =
  floors_block_def width_block_def depth_block_def slender_block_def atrium_block_def
  podium_block_def garden_block_def solar_block_def balcony_block_def facade_block_def
  shelves_block_def roof_block_def lobby_block_def units_block_def

lemmas pattern_defs =
  digits_def decimal_def spaces_def floor_tail_def width_tail_def depth_tail_def unit_tail_def
  metres_def Plus_def is_digit_def is_white_space_def

text \<open>What a block leaves alone.\<close>

lemma keeps_floors:
  "p_floors (fst (width_block n c a)) = p_floors (fst a)"
  "p_floors (fst (depth_block n c a)) = p_floors (fst a)"
  "p_floors (fst (slender_block n c a)) = p_floors (fst a)"
  "p_floors (fst (atrium_block n c a)) = p_floors (fst a)"
  "p_floors (fst (podium_block n c a)) = p_floors (fst a)"
  "p_floors (fst (garden_block n c a)) = p_floors (fst a)"
  "p_floors (fst (solar_block n c a)) = p_floors (fst a)"
  "p_floors (fst (balcony_block n c a)) = p_floors (fst a)"
  "p_floors (fst (facade_block n c a)) = p_floors (fst a)"
  "p_floors (fst (shelves_block n c a)) = p_floors (fst a)"
  "p_floors (fst (roof_block n c a)) = p_floors (fst a)"
  "p_floors (fst (lobby_block n c a)) = p_floors (fst a)"
  "p_floors (fst (units_block n c a)) = p_floors (fst a)"
  by (simp_all add: block_defs Let_def split: option.splits)

lemma keeps_width:
  "p_width (fst (floors_block n c a)) = p_width (fst a)"
  "p_width (fst (depth_block n c a)) = p_width (fst a)"
  "p_width (fst (atrium_block n c a)) = p_width (fst a)"
  "p_width (fst (podium_block n c a)) = p_width (fst a)"
  "p_width (fst (garden_block n c a)) = p_width (fst a)"
  "p_width (fst (solar_block n c a)) = p_width (fst a)"
  "p_width (fst (balcony_block n c a)) = p_width (fst a)"
  "p_width (fst (facade_block n c a)) = p_width (fst a)"
  "p_width (fst (shelves_block n c a)) = p_width (fst a)"
  "p_width (fst (roof_block n c a)) = p_width (fst a)"
  "p_width (fst (lobby_block n c a)) = p_width (fst a)"
  "p_width (fst (units_block n c a)) = p_width (fst a)"
  by (simp_all add: block_defs Let_def split: option.splits)

lemma keeps_depth:
  "p_depth (fst (floors_block n c a)) = p_depth (fst a)"
  "p_depth (fst (width_block n c a)) = p_depth (fst a)"
  "p_depth (fst (atrium_block n c a)) = p_depth (fst a)"
  "p_depth (fst (podium_block n c a)) = p_depth (fst a)"
  "p_depth (fst (garden_block n c a)) = p_depth (fst a)"
  "p_depth (fst (solar_block n c a)) = p_depth (fst a)"
  "p_depth (fst (balcony_block n c a)) = p_depth (fst a)"
  "p_depth (fst (facade_block n c a)) = p_depth (fst a)"
  "p_depth (fst (shelves_block n c a)) = p_depth (fst a)"
  "p_depth (fst (roof_block n c a)) = p_depth (fst a)"
  "p_depth (fst (lobby_block n c a)) = p_depth (fst a)"
  "p_depth (fst (units_block n c a)) = p_depth (fst a)"
  by (simp_all add: block_defs Let_def split: option.splits)

lemma keeps_lobbyHeight:
  "p_lobbyHeight (fst (floors_block n c a)) = p_lobbyHeight (fst a)"
  "p_lobbyHeight (fst (width_block n c a)) = p_lobbyHeight (fst a)"
  "p_lobbyHeight (fst (depth_block n c a)) = p_lobbyHeight (fst a)"
  "p_lobbyHeight (fst (slender_block n c a)) = p_lobbyHeight (fst a)"
  "p_lobbyHeight (fst (atrium_block n c a)) = p_lobbyHeight (fst a)"
  "p_lobbyHeight (fst (podium_block n c a)) = p_lobbyHeight (fst a)"
  "p_lobbyHeight (fst (garden_block n c a)) = p_lobbyHeight (fst a)"
  "p_lobbyHeight (fst (solar_block n c a)) = p_lobbyHeight (fst a)"
  "p_lobbyHeight (fst (balcony_block n c a)) = p_lobbyHeight (fst a)"
  "p_lobbyHeight (fst (facade_block n c a)) = p_lobbyHeight (fst a)"
  "p_lobbyHeight (fst (shelves_block n c a)) = p_lobbyHeight (fst a)"
  "p_lobbyHeight (fst (roof_block n c a)) = p_lobbyHeight (fst a)"
  "p_lobbyHeight (fst (units_block n c a)) = p_lobbyHeight (fst a)"
  by (simp_all add: block_defs Let_def split: option.splits)

lemma keeps_unitsPerFloor:
  "p_unitsPerFloor (fst (floors_block n c a)) = p_unitsPerFloor (fst a)"
  "p_unitsPerFloor (fst (width_block n c a)) = p_unitsPerFloor (fst a)"
  "p_unitsPerFloor (fst (depth_block n c a)) = p_unitsPerFloor (fst a)"
  "p_unitsPerFloor (fst (slender_block n c a)) = p_unitsPerFloor (fst a)"
  "p_unitsPerFloor (fst (atrium_block n c a)) = p_unitsPerFloor (fst a)"
  "p_unitsPerFloor (fst (podium_block n c a)) = p_unitsPerFloor (fst a)"
  "p_unitsPerFloor (fst (garden_block n c a)) = p_unitsPerFloor (fst a)"
  "p_unitsPerFloor (fst (solar_block n c a)) = p_unitsPerFloor (fst a)"
  "p_unitsPerFloor (fst (balcony_block n c a)) = p_unitsPerFloor (fst a)"
  "p_unitsPerFloor (fst (facade_block n c a)) = p_unitsPerFloor (fst a)"
  "p_unitsPerFloor (fst (shelves_block n c a)) = p_unitsPerFloor (fst a)"
  "p_unitsPerFloor (fst (roof_block n c a)) = p_unitsPerFloor (fst a)"
  "p_unitsPerFloor (fst (lobby_block n c a)) = p_unitsPerFloor (fst a)"
  by (simp_all add: block_defs Let_def split: option.splits)


lemma all_blocks_floors:
  "p_floors (fst (all_blocks n c)) = p_floors (fst (floors_block n c (no_updates, [])))"
  by (simp add: all_blocks_def keeps_floors)

lemma floors_in_range:
  assumes "p_floors (fst (all_blocks n c)) = Some x"
  shows "1 \<le> x \<and> x \<le> 120"
proof -
  have a: "1 \<le> clamp v 1 80 \<and> clamp v 1 80 \<le> 120" for v
    using clamp_range [of 1 80 v] by simp
  have b: "1 \<le> clamp v 30 120 \<and> clamp v 30 120 \<le> 120" for v
    using clamp_range [of 30 120 v] by simp
  have c: "1 \<le> clamp v 6 80 \<and> clamp v 6 80 \<le> 120" for v
    using clamp_range [of 6 80 v] by simp
  have d: "1 \<le> clamp v 4 12 \<and> clamp v 4 12 \<le> 120" for v
    using clamp_range [of 4 12 v] by simp
  from assms have "p_floors (fst (floors_block n c (no_updates, []))) = Some x"
    by (simp only: all_blocks_floors)
  then show ?thesis
    using a b c d
    by (auto simp: floors_block_def Let_def no_updates_def split: option.splits if_splits)
qed

lemma units_in_range:
  assumes "p_unitsPerFloor (fst (all_blocks n c)) = Some x"
  shows "2 \<le> x \<and> x \<le> 40"
proof -
  let ?a = "lobby_block n c (roof_block n c (shelves_block n c
       (facade_block n c (balcony_block n c (solar_block n c (garden_block n c
       (podium_block n c (atrium_block n c (slender_block n c (depth_block n c
       (width_block n c (floors_block n c (no_updates, [])))))))))))))"
  have k: "p_unitsPerFloor (fst ?a) = None"
    by (simp add: keeps_unitsPerFloor no_updates_def)
  from assms have "p_unitsPerFloor (fst (units_block n c ?a)) = Some x"
    by (simp add: all_blocks_def)
  then show ?thesis
    using k clamp_range [of 2 40]
    by (auto simp: units_block_def Let_def split: option.splits)
qed

lemma lobby_in_range:
  assumes "p_lobbyHeight (fst (all_blocks n c)) = Some x"
  shows "45 / 10 \<le> x \<and> x \<le> 12"
proof -
  let ?a = "roof_block n c (shelves_block n c
       (facade_block n c (balcony_block n c (solar_block n c (garden_block n c
       (podium_block n c (atrium_block n c (slender_block n c (depth_block n c
       (width_block n c (floors_block n c (no_updates, []))))))))))))"
  have k: "p_lobbyHeight (fst ?a) = None"
    by (simp add: keeps_lobbyHeight no_updates_def)
  from assms have "p_lobbyHeight (fst (lobby_block n c ?a)) = Some x"
    by (simp add: all_blocks_def keeps_lobbyHeight)
  then show ?thesis
    using k clamp_range [of "45 / 10" 12]
    by (auto simp: lobby_block_def Let_def split: if_splits)
qed

lemma width_in_range:
  assumes "p_width (fst (all_blocks n c)) = Some x" and "\<not> str_includes n ''slender''"
  shows "10 \<le> x \<and> x \<le> 120"
proof -
  let ?a = "floors_block n c (no_updates, [])"
  have k: "p_width (fst ?a) = None"
    by (simp add: keeps_width no_updates_def)
  from assms have "p_width (fst (width_block n c ?a)) = Some x"
    by (simp add: all_blocks_def keeps_width slender_block_def)
  then show ?thesis
    using k clamp_range [of 10 120]
    by (auto simp: width_block_def Let_def split: option.splits)
qed

lemma depth_in_range:
  assumes "p_depth (fst (all_blocks n c)) = Some x" and "\<not> str_includes n ''slender''"
  shows "10 \<le> x \<and> x \<le> 120"
proof -
  let ?a = "width_block n c (floors_block n c (no_updates, []))"
  have k: "p_depth (fst ?a) = None"
    by (simp add: keeps_depth no_updates_def)
  from assms have "p_depth (fst (depth_block n c ?a)) = Some x"
    by (simp add: all_blocks_def keeps_depth slender_block_def)
  then show ?thesis
    using k clamp_range [of 10 120]
    by (auto simp: depth_block_def Let_def split: option.splits)
qed

lemma updates_all_blocks:
  "toLowerCase (trim prompt) \<noteq> [] \<Longrightarrow>
   updates (applyAiInference prompt current)
   = fst (all_blocks (toLowerCase (trim prompt)) current)"
  by (simp add: applyAiInference_def Let_def split: prod.splits)

lemma updates_empty:
  "toLowerCase (trim prompt) = [] \<Longrightarrow>
   updates (applyAiInference prompt current) = no_updates"
  by (simp add: applyAiInference_def Let_def)

lemmas trigger_defs =
  explicit_floors_def supertall_def tall_def low_or_mid_rise_def explicit_width_def
  explicit_depth_def slender_def atrium_def podium_def garden_def solar_def balconies_def
  material_def glass_curtain_def brick_def timber_def light_shelves_def pitched_roof_def
  sawtooth_roof_def flat_roof_def generous_lobby_def unit_count_def on_keywords_def
  on_number_def

text \<open>Each block of the source is one group of the table.\<close>

lemma floors_block_group:
  "(case first_firing [explicit_floors, supertall, tall, low_or_mid_rise] n c of
      None \<Rightarrow> a
    | Some (change, says) \<Rightarrow> (change (fst a), snd a @ [says]))
   = floors_block n c a"
  by (simp add: floors_block_def trigger_defs Let_def split: option.splits)

lemma width_block_group:
  "(case first_firing [explicit_width] n c of
      None \<Rightarrow> a
    | Some (change, says) \<Rightarrow> (change (fst a), snd a @ [says]))
   = width_block n c a"
  by (simp add: width_block_def trigger_defs Let_def split: option.splits)

lemma depth_block_group:
  "(case first_firing [explicit_depth] n c of
      None \<Rightarrow> a
    | Some (change, says) \<Rightarrow> (change (fst a), snd a @ [says]))
   = depth_block n c a"
  by (simp add: depth_block_def trigger_defs Let_def split: option.splits)

lemma slender_block_group:
  "(case first_firing [slender] n c of
      None \<Rightarrow> a
    | Some (change, says) \<Rightarrow> (change (fst a), snd a @ [says]))
   = slender_block n c a"
  by (simp add: slender_block_def trigger_defs Let_def split: option.splits)

lemma atrium_block_group:
  "(case first_firing [atrium] n c of
      None \<Rightarrow> a
    | Some (change, says) \<Rightarrow> (change (fst a), snd a @ [says]))
   = atrium_block n c a"
  by (simp add: atrium_block_def trigger_defs Let_def split: option.splits)

lemma podium_block_group:
  "(case first_firing [podium] n c of
      None \<Rightarrow> a
    | Some (change, says) \<Rightarrow> (change (fst a), snd a @ [says]))
   = podium_block n c a"
  by (simp add: podium_block_def trigger_defs Let_def split: option.splits)

lemma garden_block_group:
  "(case first_firing [garden] n c of
      None \<Rightarrow> a
    | Some (change, says) \<Rightarrow> (change (fst a), snd a @ [says]))
   = garden_block n c a"
  by (simp add: garden_block_def trigger_defs Let_def split: option.splits)

lemma solar_block_group:
  "(case first_firing [solar] n c of
      None \<Rightarrow> a
    | Some (change, says) \<Rightarrow> (change (fst a), snd a @ [says]))
   = solar_block n c a"
  by (simp add: solar_block_def trigger_defs Let_def split: option.splits)

lemma balcony_block_group:
  "(case first_firing [balconies] n c of
      None \<Rightarrow> a
    | Some (change, says) \<Rightarrow> (change (fst a), snd a @ [says]))
   = balcony_block n c a"
  by (simp add: balcony_block_def trigger_defs Let_def split: option.splits)

lemma facade_block_group:
  "(case first_firing [glass_curtain, brick, timber] n c of
      None \<Rightarrow> a
    | Some (change, says) \<Rightarrow> (change (fst a), snd a @ [says]))
   = facade_block n c a"
  by (simp add: facade_block_def trigger_defs Let_def split: option.splits)

lemma shelves_block_group:
  "(case first_firing [light_shelves] n c of
      None \<Rightarrow> a
    | Some (change, says) \<Rightarrow> (change (fst a), snd a @ [says]))
   = shelves_block n c a"
  by (simp add: shelves_block_def trigger_defs Let_def split: option.splits)

lemma roof_block_group:
  "(case first_firing [pitched_roof, sawtooth_roof, flat_roof] n c of
      None \<Rightarrow> a
    | Some (change, says) \<Rightarrow> (change (fst a), snd a @ [says]))
   = roof_block n c a"
  by (simp add: roof_block_def trigger_defs Let_def split: option.splits)

lemma lobby_block_group:
  "(case first_firing [generous_lobby] n c of
      None \<Rightarrow> a
    | Some (change, says) \<Rightarrow> (change (fst a), snd a @ [says]))
   = lobby_block n c a"
  by (simp add: lobby_block_def trigger_defs Let_def split: option.splits)

lemma units_block_group:
  "(case first_firing [unit_count] n c of
      None \<Rightarrow> a
    | Some (change, says) \<Rightarrow> (change (fst a), snd a @ [says]))
   = units_block n c a"
  by (simp add: units_block_def trigger_defs Let_def split: option.splits)

lemmas block_groups =
  floors_block_group width_block_group depth_block_group slender_block_group
  atrium_block_group podium_block_group garden_block_group solar_block_group
  balcony_block_group facade_block_group shelves_block_group roof_block_group
  lobby_block_group units_block_group

lemma all_blocks_table: "all_blocks n c = run_table intent_table n c (no_updates, [])"
  by (simp only: intent_table_def run_table.simps block_groups all_blocks_def)

lemma no_digits_in_nothing: "match_group1 digits floor_tail [] = None"
  by (simp add: pattern_defs)

lemma explicit_floors_first:
  assumes "match_group1 digits floor_tail n = Some g"
  shows "p_floors (fst (all_blocks n c)) = Some (clamp (number_of (parseInt g 10)) 1 80)"
  using assms by (simp add: all_blocks_floors floors_block_def Let_def)

lemma example_normalized:
  "toLowerCase (trim ''a mid-rise timber tower with generous balconies and green roof'')
   = ''a mid-rise timber tower with generous balconies and green roof''"
  by (simp add: toLowerCase_def trim_def is_white_space_def lower_char_def)

lemma example_blocks:
  "all_blocks ''a mid-rise timber tower with generous balconies and green roof'' current
   = (no_updates
        \<lparr>p_floors := Some (clamp (floors current) 4 12),
         p_addRooftopGarden := Some True,
         p_balconyFrequency := Some Alternate,
         p_facadePattern := Some Offset,
         p_colors := Some (all_colors ((colors current)
             \<lparr>base := ''#8c6b3e'', accent := ''#d9b382'', glazing := ''#9bc1ff''\<rparr>))\<rparr>,
      [''Shaped tower to mid-rise scale.'', ''Reserved rooftop for green space.'',
       ''Reconfigured balcony rhythm.'', ''Shifted to warm timber articulation.''])"
  by (simp add: all_blocks_def block_defs pattern_defs)

lemma brick_normalized: "toLowerCase (trim ''Brick and timber'') = ''brick and timber''"
  by (simp add: toLowerCase_def trim_def is_white_space_def lower_char_def char_of_def
      bit_Suc_0_iff)

lemma brick_blocks:
  "all_blocks ''brick and timber'' current
   = (no_updates
        \<lparr>p_facadePattern := Some Stacked,
         p_colors := Some (all_colors ((colors current)
             \<lparr>base := ''#884a39'', accent := ''#d46f4d'', glazing := ''#93c6ff''\<rparr>))\<rparr>,
      [''Applied brick-inspired palette.''])"
  by (simp add: all_blocks_def block_defs pattern_defs)

lemma brick_independent:
  "snd (run_table independent_table ''brick and timber'' defaultConfig (no_updates, []))
   = [''Applied brick-inspired palette.'', ''Shifted to warm timber articulation.'']"
  by (simp add: independent_table_def trigger_defs pattern_defs split: option.splits)

lemma to_double_numeral:
  "(numeral k :: int) < 2 ^ 53 \<Longrightarrow> to_double (numeral k) = numeral k"
  using to_double_of_int [of "numeral k"] by simp

lemma parse_500: "number_of (parseInt ''500'' 10) = 500"
  by (simp add: parseInt_def Let_def is_white_space_def digit_value_def digits_value_def
      number_of_def to_double_numeral)

lemma parse_0: "number_of (parseInt ''0'' 10) = 0"
  by (simp add: parseInt_def Let_def is_white_space_def digit_value_def digits_value_def
      number_of_def to_double_def)

lemma floors_500:
  "toLowerCase (trim ''500 floors'') = ''500 floors''"
  "match_group1 digits floor_tail ''500 floors'' = Some ''500''"
  by (simp_all add: toLowerCase_def trim_def lower_char_def pattern_defs)

lemma floors_0:
  "toLowerCase (trim ''0 floors'') = ''0 floors''"
  "match_group1 digits floor_tail ''0 floors'' = Some ''0''"
  by (simp_all add: toLowerCase_def trim_def lower_char_def pattern_defs)

lemma supertall_default:
  "toLowerCase (trim ''supertall'') = ''supertall''"
  "p_floors (fst (all_blocks ''supertall'' defaultConfig)) = Some 58"
  by (simp_all add: toLowerCase_def trim_def lower_char_def pattern_defs all_blocks_floors
      floors_block_def defaultConfig_def js_add_def to_double_numeral clamp_def)

text \<open>
  Claim C8, as the code has it. \<open>applyAiInference\<close> on a prompt that is not blank runs
  the triggers of \<open>intent_table\<close> in definition order, group by group, and in a group
  only the first trigger that fires makes its change: the floor triggers are one group,
  with the explicit \<^verbatim>\<open>N floors\<close> (or \<^verbatim>\<open>story\<close>, \<^verbatim>\<open>storey\<close>) pattern first, so that it takes
  precedence over \<^verbatim>\<open>supertall\<close>, \<^verbatim>\<open>tall\<close> and \<^verbatim>\<open>low-rise\<close>; the facade materials
  (glass curtain, brick, timber or wood) are a second group and the roof styles
  (pitched, sawtooth, flat) a third; every other trigger is a group of its own and fires
  independently. A blank prompt changes nothing. For the prompt
  \<^verbatim>\<open>a mid-rise timber tower with generous balconies and green roof\<close> the overlay has
  the floors clamped into \<open>[4, 12]\<close>, the rooftop garden, the balcony frequency
  \<^verbatim>\<open>alternate\<close>, the facade pattern \<^verbatim>\<open>offset\<close> with the timber palette, and nothing
  else, and the summary is the four change descriptions in trigger order.
\<close>

theorem intent_mapper_table:
  "(toLowerCase (trim prompt) \<noteq> [] \<longrightarrow>
      updates (applyAiInference prompt current)
        = fst (run_table intent_table (toLowerCase (trim prompt)) current (no_updates, []))
      \<and> summary (applyAiInference prompt current)
        = join '' ''
            (snd (run_table intent_table (toLowerCase (trim prompt)) current (no_updates, []))))
   \<and> (toLowerCase (trim prompt) = [] \<longrightarrow>
        applyAiInference prompt current = \<lparr> updates = no_updates, summary = [] \<rparr>)
   \<and> (match_group1 digits floor_tail (toLowerCase (trim prompt)) = Some g \<longrightarrow>
        p_floors (updates (applyAiInference prompt current))
        = Some (clamp (number_of (parseInt g 10)) 1 80))
   \<and> applyAiInference ''a mid-rise timber tower with generous balconies and green roof'' current
       = \<lparr> updates = no_updates
             \<lparr>p_floors := Some (clamp (floors current) 4 12),
              p_addRooftopGarden := Some True,
              p_balconyFrequency := Some Alternate,
              p_facadePattern := Some Offset,
              p_colors := Some (all_colors ((colors current)
                  \<lparr>base := ''#8c6b3e'', accent := ''#d9b382'', glazing := ''#9bc1ff''\<rparr>))\<rparr>,
           summary = ''Shaped tower to mid-rise scale. Reserved rooftop for green space. Reconfigured balcony rhythm. Shifted to warm timber articulation.'' \<rparr>
   \<and> 4 \<le> clamp (floors current) 4 12 \<and> clamp (floors current) 4 12 \<le> 12"
proof -
  let ?n = "toLowerCase (trim prompt)"
  have t: "updates (applyAiInference prompt current)
        = fst (run_table intent_table ?n current (no_updates, []))
      \<and> summary (applyAiInference prompt current)
        = join '' '' (snd (run_table intent_table ?n current (no_updates, [])))"
    if "?n \<noteq> []"
    using that
    by (simp add: applyAiInference_def Let_def all_blocks_table [symmetric] split: prod.splits)
  have e: "applyAiInference prompt current = \<lparr> updates = no_updates, summary = [] \<rparr>"
    if "?n = []"
    using that by (simp add: applyAiInference_def Let_def)
  have p: "p_floors (updates (applyAiInference prompt current))
        = Some (clamp (number_of (parseInt g 10)) 1 80)"
    if m: "match_group1 digits floor_tail ?n = Some g"
  proof -
    from m have "?n \<noteq> []" using no_digits_in_nothing by auto
    then show ?thesis
      using explicit_floors_first [OF m, of current] by (simp add: updates_all_blocks)
  qed
  have x: "applyAiInference ''a mid-rise timber tower with generous balconies and green roof''
             current
       = \<lparr> updates = no_updates
             \<lparr>p_floors := Some (clamp (floors current) 4 12),
              p_addRooftopGarden := Some True,
              p_balconyFrequency := Some Alternate,
              p_facadePattern := Some Offset,
              p_colors := Some (all_colors ((colors current)
                  \<lparr>base := ''#8c6b3e'', accent := ''#d9b382'', glazing := ''#9bc1ff''\<rparr>))\<rparr>,
           summary = ''Shaped tower to mid-rise scale. Reserved rooftop for green space. Reconfigured balcony rhythm. Shifted to warm timber articulation.'' \<rparr>"
    by (simp add: applyAiInference_def Let_def example_normalized example_blocks)
  have r: "4 \<le> clamp (floors current) 4 12 \<and> clamp (floors current) 4 12 \<le> 12"
    using clamp_range [of 4 12 "floors current"] by simp
  show ?thesis
    using t e p x r by blast
qed

theorem intent_mapper_table_witness:
  "toLowerCase (trim ''Brick and timber'') \<noteq> []
   \<and> summary (applyAiInference ''Brick and timber'' defaultConfig)
       = join '' '' (snd (run_table intent_table ''brick and timber'' defaultConfig
                            (no_updates, [])))
   \<and> summary (applyAiInference ''Brick and timber'' defaultConfig)
       = ''Applied brick-inspired palette.''
   \<and> toLowerCase (trim ''   '') = []
   \<and> applyAiInference ''   '' defaultConfig = \<lparr> updates = no_updates, summary = [] \<rparr>
   \<and> match_group1 digits floor_tail (toLowerCase (trim ''500 floors'')) = Some ''500''
   \<and> p_floors (updates (applyAiInference ''500 floors'' defaultConfig)) = Some 80"
proof -
  have a: "toLowerCase (trim ''Brick and timber'') \<noteq> []"
    by (simp add: brick_normalized)
  have b: "toLowerCase (trim ''   '') = []"
    by (simp add: toLowerCase_def trim_def is_white_space_def)
  have c: "match_group1 digits floor_tail (toLowerCase (trim ''500 floors'')) = Some ''500''"
    by (simp only: floors_500)
  have s: "summary (applyAiInference ''Brick and timber'' defaultConfig)
       = ''Applied brick-inspired palette.''"
    by (simp add: brick_normalized applyAiInference_def Let_def brick_blocks)
  from intent_mapper_table [of "''Brick and timber''" defaultConfig]
  have 1: "toLowerCase (trim ''Brick and timber'') \<noteq> [] \<longrightarrow>
      summary (applyAiInference ''Brick and timber'' defaultConfig)
        = join '' ''
            (snd (run_table intent_table (toLowerCase (trim ''Brick and timber'')) defaultConfig
                    (no_updates, [])))"
    by blast
  from intent_mapper_table [of "''   ''" defaultConfig]
  have 2: "toLowerCase (trim ''   '') = [] \<longrightarrow>
        applyAiInference ''   '' defaultConfig = \<lparr> updates = no_updates, summary = [] \<rparr>"
    by blast
  from intent_mapper_table [of "''500 floors''" defaultConfig "''500''"]
  have 3: "match_group1 digits floor_tail (toLowerCase (trim ''500 floors'')) = Some ''500'' \<longrightarrow>
        p_floors (updates (applyAiInference ''500 floors'' defaultConfig))
        = Some (clamp (number_of (parseInt ''500'' 10)) 1 80)"
    by blast
  show ?thesis
    using a b c s 1 2 3 by (simp add: brick_normalized parse_500 clamp_def)
qed

text \<open>
  The claim as it is written has every trigger but the floor triggers fire independently
  (\<open>independent_table\<close>). The prompt \<^verbatim>\<open>Brick and timber\<close> names two facade
  materials: the code applies the brick palette only, where independent triggers would
  apply both, one after the other.
\<close>

theorem intent_mapper_not_independent:
  "str_includes (toLowerCase (trim ''Brick and timber'')) ''timber''
   \<and> summary (applyAiInference ''Brick and timber'' defaultConfig)
       = ''Applied brick-inspired palette.''
   \<and> p_facadePattern (updates (applyAiInference ''Brick and timber'' defaultConfig))
       = Some Stacked
   \<and> join '' '' (snd (run_table independent_table (toLowerCase (trim ''Brick and timber''))
                        defaultConfig (no_updates, [])))
       = ''Applied brick-inspired palette. Shifted to warm timber articulation.''"
  by (simp add: brick_normalized applyAiInference_def Let_def brick_blocks brick_independent)

subsection \<open>The ranges of the intent mapper\<close>

lemma keeps_podiumLevels:
  "p_podiumLevels (fst (floors_block n c a)) = p_podiumLevels (fst a)"
  "p_podiumLevels (fst (width_block n c a)) = p_podiumLevels (fst a)"
  "p_podiumLevels (fst (depth_block n c a)) = p_podiumLevels (fst a)"
  "p_podiumLevels (fst (slender_block n c a)) = p_podiumLevels (fst a)"
  "p_podiumLevels (fst (atrium_block n c a)) = p_podiumLevels (fst a)"
  "p_podiumLevels (fst (garden_block n c a)) = p_podiumLevels (fst a)"
  "p_podiumLevels (fst (solar_block n c a)) = p_podiumLevels (fst a)"
  "p_podiumLevels (fst (balcony_block n c a)) = p_podiumLevels (fst a)"
  "p_podiumLevels (fst (facade_block n c a)) = p_podiumLevels (fst a)"
  "p_podiumLevels (fst (shelves_block n c a)) = p_podiumLevels (fst a)"
  "p_podiumLevels (fst (roof_block n c a)) = p_podiumLevels (fst a)"
  "p_podiumLevels (fst (lobby_block n c a)) = p_podiumLevels (fst a)"
  "p_podiumLevels (fst (units_block n c a)) = p_podiumLevels (fst a)"
  by (simp_all add: block_defs Let_def split: option.splits)

lemma podium_levels:
  "p_podiumLevels (fst (all_blocks n c))
   = (if str_includes n ''podium'' then Some (max (podiumLevels c) 2) else None)"
  by (simp add: all_blocks_def keeps_podiumLevels podium_block_def no_updates_def)

lemma slender_width:
  "str_includes n ''slender'' \<Longrightarrow>
   p_width (fst (all_blocks n c))
   = Some (clamp (js_mul (width c) (to_double (85 / 100))) 12 (width c))"
  by (simp add: all_blocks_def keeps_width slender_block_def)

lemma slender_depth:
  "str_includes n ''slender'' \<Longrightarrow>
   p_depth (fst (all_blocks n c))
   = Some (clamp (js_mul (depth c) (to_double (85 / 100))) 12 (depth c))"
  by (simp add: all_blocks_def keeps_depth slender_block_def)

lemma keeps_unwritten:
  assumes "f \<in> set unwritten_numbers"
  shows "f (fst (floors_block n c a)) = f (fst a)"
    and "f (fst (width_block n c a)) = f (fst a)"
    and "f (fst (depth_block n c a)) = f (fst a)"
    and "f (fst (slender_block n c a)) = f (fst a)"
    and "f (fst (atrium_block n c a)) = f (fst a)"
    and "f (fst (podium_block n c a)) = f (fst a)"
    and "f (fst (garden_block n c a)) = f (fst a)"
    and "f (fst (solar_block n c a)) = f (fst a)"
    and "f (fst (balcony_block n c a)) = f (fst a)"
    and "f (fst (facade_block n c a)) = f (fst a)"
    and "f (fst (shelves_block n c a)) = f (fst a)"
    and "f (fst (roof_block n c a)) = f (fst a)"
    and "f (fst (lobby_block n c a)) = f (fst a)"
    and "f (fst (units_block n c a)) = f (fst a)"
  using assms
  by (auto simp: unwritten_numbers_def block_defs Let_def split: option.splits)

lemma unwritten_none:
  assumes "f \<in> set unwritten_numbers"
  shows "f (fst (all_blocks n c)) = None"
proof -
  have "f (fst (all_blocks n c)) = f no_updates"
    by (simp add: all_blocks_def keeps_unwritten [OF assms])
  also have "\<dots> = None"
    using assms by (auto simp: unwritten_numbers_def no_updates_def)
  finally show ?thesis .
qed

lemma not_in_blank: "\<not> str_includes [] ''slender''" "\<not> str_includes [] ''podium''"
  by simp_all

lemma wide_30:
  "toLowerCase (trim ''30m wide'') = ''30m wide''"
  "match_group1 decimal width_tail ''30m wide'' = Some ''30''"
  "number_of (parseFloat ''30'') = 30"
  by (simp_all add: toLowerCase_def trim_def lower_char_def pattern_defs parseFloat_def
      number_of_def digits_value_def digit_value_def Let_def to_double_numeral)

lemma deep_25:
  "toLowerCase (trim ''25m deep'') = ''25m deep''"
  "match_group1 decimal depth_tail ''25m deep'' = Some ''25''"
  "number_of (parseFloat ''25'') = 25"
  by (simp_all add: toLowerCase_def trim_def lower_char_def pattern_defs parseFloat_def
      number_of_def digits_value_def digit_value_def Let_def to_double_numeral)

lemma units_64:
  "toLowerCase (trim ''64 units'') = ''64 units''"
  "match_group1 digits unit_tail ''64 units'' = Some ''64''"
  "number_of (parseInt ''64'' 10) = 64"
  by (simp_all add: toLowerCase_def trim_def lower_char_def pattern_defs parseInt_def
      number_of_def digits_value_def digit_value_def Let_def to_double_numeral)

lemma short_prompts:
  "toLowerCase (trim ''grand lobby'') = ''grand lobby''"
  "toLowerCase (trim ''slender podium'') = ''slender podium''"
  "str_includes ''slender podium'' ''slender''"
  "str_includes ''slender podium'' ''podium''"
  "\<not> str_includes ''30m wide'' ''slender''"
  "\<not> str_includes ''25m deep'' ''slender''"
  by (simp_all add: toLowerCase_def trim_def lower_char_def is_white_space_def)

lemma supertall_at_80:
  "p_floors (fst (all_blocks ''supertall'' (edit_floors 80 defaultConfig))) = Some 120"
  by (simp add: pattern_defs all_blocks_floors floors_block_def edit_floors_def updateConfig_def
      spread_def js_add_def to_double_numeral clamp_def)

lemma given_units:
  assumes "match_group1 digits unit_tail n = Some g"
  shows "p_unitsPerFloor (fst (all_blocks n c)) = Some (clamp (number_of (parseInt g 10)) 2 40)"
  using assms by (simp add: all_blocks_def units_block_def Let_def)

lemma given_width:
  assumes "match_group1 decimal width_tail n = Some g" and "\<not> str_includes n ''slender''"
  shows "p_width (fst (all_blocks n c)) = Some (clamp (number_of (parseFloat g)) 10 120)"
  using assms by (simp add: all_blocks_def keeps_width slender_block_def width_block_def Let_def)

lemma given_depth:
  assumes "match_group1 decimal depth_tail n = Some g" and "\<not> str_includes n ''slender''"
  shows "p_depth (fst (all_blocks n c)) = Some (clamp (number_of (parseFloat g)) 10 120)"
  using assms by (simp add: all_blocks_def keeps_depth slender_block_def depth_block_def Let_def)

lemma grand_lobby:
  "p_lobbyHeight (fst (all_blocks ''grand lobby'' c))
   = Some (clamp (js_mul (lobbyHeight c) (to_double (12 / 10))) (45 / 10) 12)"
  by (simp add: all_blocks_def keeps_lobbyHeight lobby_block_def)

text \<open>
  Claim C2, as the code has it. Every number that the intent mapper infers goes through a
  clamp of its own trigger, the podium levels apart, and these ranges are the triggers'
  own, not those of the form. An inferred floor count lies in \<open>[1, 120]\<close>, and in
  \<open>[1, 80]\<close> when the prompt gives the count; the units per floor lie in \<open>[2, 40]\<close>; the
  lobby height lies in \<open>[4.5, 12]\<close>; a width or depth that the prompt gives lies in
  \<open>[10, 120]\<close>; \<^verbatim>\<open>slender\<close> clamps 0.85 of the current width and depth between 12 and the
  current value, which is a range when the current value is at least 12; \<^verbatim>\<open>podium\<close> sets
  the podium levels to the larger of the current value and 2, bounded from below only;
  and no trigger assigns any other numeric field. The prompt \<^verbatim>\<open>500 floors\<close> infers 80
  floors and the prompt \<^verbatim>\<open>0 floors\<close> infers 1.
\<close>

theorem intent_mapper_clamps:
  "(p_floors (updates (applyAiInference prompt current)) = Some x \<longrightarrow> 1 \<le> x \<and> x \<le> 120)
   \<and> (match_group1 digits floor_tail (toLowerCase (trim prompt)) = Some g \<longrightarrow>
        p_floors (updates (applyAiInference prompt current))
        = Some (clamp (number_of (parseInt g 10)) 1 80)
        \<and> 1 \<le> clamp (number_of (parseInt g 10)) 1 80
        \<and> clamp (number_of (parseInt g 10)) 1 80 \<le> 80)
   \<and> (p_unitsPerFloor (updates (applyAiInference prompt current)) = Some x \<longrightarrow>
        2 \<le> x \<and> x \<le> 40)
   \<and> (p_lobbyHeight (updates (applyAiInference prompt current)) = Some x \<longrightarrow>
        45 / 10 \<le> x \<and> x \<le> 12)
   \<and> (\<not> str_includes (toLowerCase (trim prompt)) ''slender'' \<longrightarrow>
        (p_width (updates (applyAiInference prompt current)) = Some x \<longrightarrow>
           10 \<le> x \<and> x \<le> 120)
        \<and> (p_depth (updates (applyAiInference prompt current)) = Some x \<longrightarrow>
           10 \<le> x \<and> x \<le> 120))
   \<and> (str_includes (toLowerCase (trim prompt)) ''slender'' \<longrightarrow>
        p_width (updates (applyAiInference prompt current))
        = Some (clamp (js_mul (width current) (to_double (85 / 100))) 12 (width current))
        \<and> p_depth (updates (applyAiInference prompt current))
          = Some (clamp (js_mul (depth current) (to_double (85 / 100))) 12 (depth current))
        \<and> (12 \<le> width current \<longrightarrow>
             12 \<le> clamp (js_mul (width current) (to_double (85 / 100))) 12 (width current)
             \<and> clamp (js_mul (width current) (to_double (85 / 100))) 12 (width current)
                 \<le> width current)
        \<and> (12 \<le> depth current \<longrightarrow>
             12 \<le> clamp (js_mul (depth current) (to_double (85 / 100))) 12 (depth current)
             \<and> clamp (js_mul (depth current) (to_double (85 / 100))) 12 (depth current)
                 \<le> depth current))
   \<and> p_podiumLevels (updates (applyAiInference prompt current))
       = (if str_includes (toLowerCase (trim prompt)) ''podium''
          then Some (max (podiumLevels current) 2) else None)
   \<and> (\<forall>f \<in> set unwritten_numbers. f (updates (applyAiInference prompt current)) = None)
   \<and> p_floors (updates (applyAiInference ''500 floors'' current)) = Some 80
   \<and> p_floors (updates (applyAiInference ''0 floors'' current)) = Some 1"
proof -
  let ?n = "toLowerCase (trim prompt)"
  let ?u = "updates (applyAiInference prompt current)"
  have blank: "p_floors no_updates = None" "p_unitsPerFloor no_updates = None"
    "p_lobbyHeight no_updates = None" "p_width no_updates = None" "p_depth no_updates = None"
    "p_podiumLevels no_updates = None"
    by (simp_all add: no_updates_def)
  have u: "?u = (if ?n = [] then no_updates else fst (all_blocks ?n current))"
    using updates_all_blocks [of prompt current] updates_empty [of prompt current] by simp
  have f: "p_floors ?u = Some x \<longrightarrow> 1 \<le> x \<and> x \<le> 120"
  proof (cases "?n = []")
    case True
    then show ?thesis by (simp add: u blank)
  next
    case False
    then show ?thesis using floors_in_range [of ?n current x] by (auto simp add: u)
  qed
  have g: "p_floors ?u = Some (clamp (number_of (parseInt g 10)) 1 80)
        \<and> 1 \<le> clamp (number_of (parseInt g 10)) 1 80
        \<and> clamp (number_of (parseInt g 10)) 1 80 \<le> 80"
    if m: "match_group1 digits floor_tail ?n = Some g"
  proof -
    from m have "?n \<noteq> []" using no_digits_in_nothing by auto
    then have "p_floors ?u = Some (clamp (number_of (parseInt g 10)) 1 80)"
      using explicit_floors_first [OF m, of current] by (simp add: u)
    then show ?thesis
      using clamp_range [of 1 80 "number_of (parseInt g 10)"] by simp
  qed
  have un: "p_unitsPerFloor ?u = Some x \<longrightarrow> 2 \<le> x \<and> x \<le> 40"
    using units_in_range [of ?n current x] by (simp add: u blank)
  have lo: "p_lobbyHeight ?u = Some x \<longrightarrow> 45 / 10 \<le> x \<and> x \<le> 12"
    using lobby_in_range [of ?n current x] by (simp add: u blank)
  have wd: "(p_width ?u = Some x \<longrightarrow> 10 \<le> x \<and> x \<le> 120)
        \<and> (p_depth ?u = Some x \<longrightarrow> 10 \<le> x \<and> x \<le> 120)"
    if "\<not> str_includes ?n ''slender''"
    using that width_in_range [of ?n current x] depth_in_range [of ?n current x]
    by (simp add: u blank)
  have sl: "p_width ?u
        = Some (clamp (js_mul (width current) (to_double (85 / 100))) 12 (width current))
        \<and> p_depth ?u
          = Some (clamp (js_mul (depth current) (to_double (85 / 100))) 12 (depth current))"
    if s: "str_includes ?n ''slender''"
  proof -
    from s have "?n \<noteq> []" using not_in_blank by auto
    then show ?thesis
      using slender_width [OF s, of current] slender_depth [OF s, of current] by (simp add: u)
  qed
  have within: "12 \<le> w \<longrightarrow> 12 \<le> clamp v 12 w \<and> clamp v 12 w \<le> w" for v w :: rat
    using clamp_range [of 12 w v] by simp
  have po: "p_podiumLevels ?u
       = (if str_includes ?n ''podium'' then Some (max (podiumLevels current) 2) else None)"
  proof (cases "?n = []")
    case True
    then show ?thesis by (simp add: u blank)
  next
    case False
    then show ?thesis by (simp add: u podium_levels)
  qed
  have rest: "\<forall>f \<in> set unwritten_numbers. f ?u = None"
  proof
    fix f
    assume m: "f \<in> set unwritten_numbers"
    show "f ?u = None"
    proof (cases "?n = []")
      case True
      then show ?thesis using m by (auto simp: u unwritten_numbers_def no_updates_def)
    next
      case False
      then show ?thesis by (simp add: u unwritten_none [OF m])
    qed
  qed
  have hi: "p_floors (updates (applyAiInference ''500 floors'' current)) = Some 80"
    using explicit_floors_first [OF floors_500(2), of current]
    by (simp add: updates_all_blocks floors_500(1) parse_500 clamp_def)
  have low: "p_floors (updates (applyAiInference ''0 floors'' current)) = Some 1"
    using explicit_floors_first [OF floors_0(2), of current]
    by (simp add: updates_all_blocks floors_0(1) parse_0 clamp_def)
  show ?thesis
    using f g un lo wd sl within po rest hi low by blast
qed

theorem intent_mapper_clamps_witness:
  "match_group1 digits floor_tail (toLowerCase (trim ''500 floors'')) = Some ''500''
   \<and> p_floors (updates (applyAiInference ''500 floors'' defaultConfig)) = Some 80
   \<and> clamp (number_of (parseInt ''500'' 10)) 1 80 = 80
   \<and> p_unitsPerFloor (updates (applyAiInference ''64 units'' defaultConfig)) = Some 40
   \<and> p_lobbyHeight (updates (applyAiInference ''grand lobby'' defaultConfig))
       = Some (clamp (js_mul (lobbyHeight defaultConfig) (to_double (12 / 10))) (45 / 10) 12)
   \<and> 45 / 10 \<le> clamp (js_mul (lobbyHeight defaultConfig) (to_double (12 / 10))) (45 / 10) 12
   \<and> clamp (js_mul (lobbyHeight defaultConfig) (to_double (12 / 10))) (45 / 10) 12 \<le> 12
   \<and> \<not> str_includes (toLowerCase (trim ''30m wide'')) ''slender''
   \<and> p_width (updates (applyAiInference ''30m wide'' defaultConfig)) = Some 30
   \<and> \<not> str_includes (toLowerCase (trim ''25m deep'')) ''slender''
   \<and> p_depth (updates (applyAiInference ''25m deep'' defaultConfig)) = Some 25
   \<and> str_includes (toLowerCase (trim ''slender podium'')) ''slender''
   \<and> 12 \<le> width defaultConfig \<and> 12 \<le> depth defaultConfig
   \<and> p_width (updates (applyAiInference ''slender podium'' defaultConfig))
       = Some (clamp (js_mul (width defaultConfig) (to_double (85 / 100))) 12
                 (width defaultConfig))
   \<and> 12 \<le> clamp (js_mul (width defaultConfig) (to_double (85 / 100))) 12 (width defaultConfig)
   \<and> clamp (js_mul (width defaultConfig) (to_double (85 / 100))) 12 (width defaultConfig)
       \<le> width defaultConfig
   \<and> 12 \<le> clamp (js_mul (depth defaultConfig) (to_double (85 / 100))) 12 (depth defaultConfig)
   \<and> clamp (js_mul (depth defaultConfig) (to_double (85 / 100))) 12 (depth defaultConfig)
       \<le> depth defaultConfig
   \<and> p_podiumLevels (updates (applyAiInference ''slender podium'' defaultConfig))
       = Some (max (podiumLevels defaultConfig) 2)
   \<and> p_floorHeight \<in> set unwritten_numbers
   \<and> p_floorHeight (updates (applyAiInference ''slender podium'' defaultConfig)) = None"
proof -
  let ?lobby = "clamp (js_mul (lobbyHeight defaultConfig) (to_double (12 / 10))) (45 / 10) 12"
  let ?w = "clamp (js_mul (width defaultConfig) (to_double (85 / 100))) 12 (width defaultConfig)"
  let ?d = "clamp (js_mul (depth defaultConfig) (to_double (85 / 100))) 12 (depth defaultConfig)"
  have m: "match_group1 digits floor_tail (toLowerCase (trim ''500 floors'')) = Some ''500''"
    by (simp only: floors_500)
  from intent_mapper_clamps
    [where prompt = "''500 floors''" and current = defaultConfig and x = 80 and g = "''500''"]
  have a: "match_group1 digits floor_tail (toLowerCase (trim ''500 floors'')) = Some ''500'' \<longrightarrow>
        p_floors (updates (applyAiInference ''500 floors'' defaultConfig))
        = Some (clamp (number_of (parseInt ''500'' 10)) 1 80)
        \<and> 1 \<le> clamp (number_of (parseInt ''500'' 10)) 1 80
        \<and> clamp (number_of (parseInt ''500'' 10)) 1 80 \<le> 80"
    by blast
  have c: "clamp (number_of (parseInt ''500'' 10)) 1 80 = 80"
    by (simp add: parse_500 clamp_def)
  from a m c have floors: "p_floors (updates (applyAiInference ''500 floors'' defaultConfig)) = Some 80"
    by simp
  have units: "p_unitsPerFloor (updates (applyAiInference ''64 units'' defaultConfig)) = Some 40"
    using given_units [OF units_64(2), of defaultConfig]
    by (simp add: updates_all_blocks units_64 clamp_def)
  have lobby: "p_lobbyHeight (updates (applyAiInference ''grand lobby'' defaultConfig))
               = Some ?lobby"
    by (simp add: updates_all_blocks short_prompts grand_lobby)
  from intent_mapper_clamps
    [where prompt = "''grand lobby''" and current = defaultConfig and x = ?lobby
       and g = "''500''"]
  have "p_lobbyHeight (updates (applyAiInference ''grand lobby'' defaultConfig)) = Some ?lobby
        \<longrightarrow> 45 / 10 \<le> ?lobby \<and> ?lobby \<le> 12"
    by blast
  with lobby have lobby_range: "45 / 10 \<le> ?lobby \<and> ?lobby \<le> 12"
    by blast
  have nw: "\<not> str_includes (toLowerCase (trim ''30m wide'')) ''slender''"
    and nd: "\<not> str_includes (toLowerCase (trim ''25m deep'')) ''slender''"
    and sp: "str_includes (toLowerCase (trim ''slender podium'')) ''slender''"
    and pp: "str_includes (toLowerCase (trim ''slender podium'')) ''podium''"
    by (simp_all only: wide_30 deep_25 short_prompts not_False_eq_True)
  have wide: "p_width (updates (applyAiInference ''30m wide'' defaultConfig)) = Some 30"
    using given_width [OF wide_30(2) short_prompts(5), of defaultConfig]
    by (simp add: updates_all_blocks wide_30 clamp_def)
  have deep: "p_depth (updates (applyAiInference ''25m deep'' defaultConfig)) = Some 25"
    using given_depth [OF deep_25(2) short_prompts(6), of defaultConfig]
    by (simp add: updates_all_blocks deep_25 clamp_def)
  have big: "12 \<le> width defaultConfig" "12 \<le> depth defaultConfig"
    by (simp_all add: defaultConfig_def)
  from intent_mapper_clamps
    [where prompt = "''slender podium''" and current = defaultConfig and x = 0
       and g = "''500''"]
  have s: "str_includes (toLowerCase (trim ''slender podium'')) ''slender'' \<longrightarrow>
        p_width (updates (applyAiInference ''slender podium'' defaultConfig)) = Some ?w
        \<and> p_depth (updates (applyAiInference ''slender podium'' defaultConfig)) = Some ?d
        \<and> (12 \<le> width defaultConfig \<longrightarrow> 12 \<le> ?w \<and> ?w \<le> width defaultConfig)
        \<and> (12 \<le> depth defaultConfig \<longrightarrow> 12 \<le> ?d \<and> ?d \<le> depth defaultConfig)"
    and p: "p_podiumLevels (updates (applyAiInference ''slender podium'' defaultConfig))
       = (if str_includes (toLowerCase (trim ''slender podium'')) ''podium''
          then Some (max (podiumLevels defaultConfig) 2) else None)"
    and r: "\<forall>f \<in> set unwritten_numbers.
              f (updates (applyAiInference ''slender podium'' defaultConfig)) = None"
    by blast+
  from s sp big have slender:
    "p_width (updates (applyAiInference ''slender podium'' defaultConfig)) = Some ?w"
    "12 \<le> ?w" "?w \<le> width defaultConfig" "12 \<le> ?d" "?d \<le> depth defaultConfig"
    by blast+
  from p pp have podium:
    "p_podiumLevels (updates (applyAiInference ''slender podium'' defaultConfig))
       = Some (max (podiumLevels defaultConfig) 2)"
    by simp
  have mem: "p_floorHeight \<in> set unwritten_numbers"
    by (simp add: unwritten_numbers_def)
  with r have none: "p_floorHeight (updates (applyAiInference ''slender podium'' defaultConfig))
                     = None"
    by blast
  from m floors c units lobby lobby_range nw wide nd deep sp big slender podium mem none
  show ?thesis
    by (intro conjI) blast+
qed

text \<open>
  The claim as it is written asks for a clamp on every write, to the ranges of the form.
  The number field of the floor height, handed 500, stores 500, above its \<^verbatim>\<open>max\<close> of 8.
  The intent mapper, asked for \<^verbatim>\<open>0 floors\<close>, infers 1, below the 3 that the slider of the
  floors starts at; asked for \<^verbatim>\<open>supertall\<close> with the slider at its \<^verbatim>\<open>max\<close> of 80, it infers
  120.
\<close>

theorem write_outside_form_range:
  "floorHeight (edit_floorHeight 500 defaultConfig) = 500
   \<and> \<not> floorHeight (edit_floorHeight 500 defaultConfig) \<le> snd floorHeight_input
   \<and> p_floors (updates (applyAiInference ''0 floors'' defaultConfig)) = Some 1
   \<and> \<not> fst floors_input \<le> 1
   \<and> floors (edit_floors 80 defaultConfig) = 80
   \<and> p_floors (updates (applyAiInference ''supertall'' (edit_floors 80 defaultConfig)))
       = Some 120
   \<and> \<not> 120 \<le> snd floors_input"
proof -
  have "p_floors (updates (applyAiInference ''0 floors'' defaultConfig)) = Some 1"
    using explicit_floors_first [OF floors_0(2), of defaultConfig]
    by (simp add: updates_all_blocks floors_0(1) parse_0 clamp_def)
  moreover have "p_floors (updates (applyAiInference ''supertall'' (edit_floors 80 defaultConfig)))
       = Some 120"
    by (simp add: updates_all_blocks supertall_default(1) supertall_at_80)
  ultimately show ?thesis
    by (simp add: edit_floors_def edit_floorHeight_def updateConfig_def spread_def
        floors_input_def floorHeight_input_def)
qed

subsection \<open>The merge\<close>

text \<open>
  Claim C7. \<open>updateConfig\<close> replaces the top-level fields that the overlay has and
  keeps the others (\<open>spread\<close> takes the new value if there is one, the old one if not);
  the colours are merged key by key, so an overlay with only an accent colour replaces
  the accent and leaves base, glazing, balcony and roof as they were. Both callers go
  through this merge. A form edit changes its own field and nothing else: the slider of
  the floors gives the old configuration with the new floor count, the colour field of
  the accent the old configuration with the new accent. A move of the intent mapper
  that infers nothing leaves the configuration as it was; one that infers something
  stores \<open>updateConfig\<close> of the inferred overlay, with the prompt appended to the
  narrative, so that every inferred field replaces the old one, every other field but
  the narrative stays, and an inferred palette is merged key by key.
\<close>

theorem updateConfig_merge:
  "projectName (updateConfig partial prev) = spread (projectName prev) (p_projectName partial)
   \<and> narrative (updateConfig partial prev) = spread (narrative prev) (p_narrative partial)
   \<and> floors (updateConfig partial prev) = spread (floors prev) (p_floors partial)
   \<and> floorHeight (updateConfig partial prev) = spread (floorHeight prev) (p_floorHeight partial)
   \<and> lobbyHeight (updateConfig partial prev) = spread (lobbyHeight prev) (p_lobbyHeight partial)
   \<and> width (updateConfig partial prev) = spread (width prev) (p_width partial)
   \<and> depth (updateConfig partial prev) = spread (depth prev) (p_depth partial)
   \<and> coreWidth (updateConfig partial prev) = spread (coreWidth prev) (p_coreWidth partial)
   \<and> coreDepth (updateConfig partial prev) = spread (coreDepth prev) (p_coreDepth partial)
   \<and> baseHeight (updateConfig partial prev) = spread (baseHeight prev) (p_baseHeight partial)
   \<and> structuralGrid (updateConfig partial prev)
       = spread (structuralGrid prev) (p_structuralGrid partial)
   \<and> unitsPerFloor (updateConfig partial prev)
       = spread (unitsPerFloor prev) (p_unitsPerFloor partial)
   \<and> facadePattern (updateConfig partial prev)
       = spread (facadePattern prev) (p_facadePattern partial)
   \<and> windowModule (updateConfig partial prev)
       = spread (windowModule prev) (p_windowModule partial)
   \<and> windowWidth (updateConfig partial prev) = spread (windowWidth prev) (p_windowWidth partial)
   \<and> windowHeight (updateConfig partial prev)
       = spread (windowHeight prev) (p_windowHeight partial)
   \<and> spandrelHeight (updateConfig partial prev)
       = spread (spandrelHeight prev) (p_spandrelHeight partial)
   \<and> balconyDepth (updateConfig partial prev)
       = spread (balconyDepth prev) (p_balconyDepth partial)
   \<and> balconyFrequency (updateConfig partial prev)
       = spread (balconyFrequency prev) (p_balconyFrequency partial)
   \<and> roofStyle (updateConfig partial prev) = spread (roofStyle prev) (p_roofStyle partial)
   \<and> podiumLevels (updateConfig partial prev)
       = spread (podiumLevels prev) (p_podiumLevels partial)
   \<and> podiumSetback (updateConfig partial prev)
       = spread (podiumSetback prev) (p_podiumSetback partial)
   \<and> includePodium (updateConfig partial prev)
       = spread (includePodium prev) (p_includePodium partial)
   \<and> hasAtrium (updateConfig partial prev) = spread (hasAtrium prev) (p_hasAtrium partial)
   \<and> addRooftopGarden (updateConfig partial prev)
       = spread (addRooftopGarden prev) (p_addRooftopGarden partial)
   \<and> includeSolarPanels (updateConfig partial prev)
       = spread (includeSolarPanels prev) (p_includeSolarPanels partial)
   \<and> includeLightShelves (updateConfig partial prev)
       = spread (includeLightShelves prev) (p_includeLightShelves partial)
   \<and> (p_colors partial = None \<longrightarrow> colors (updateConfig partial prev) = colors prev)
   \<and> (p_colors partial = Some pc \<longrightarrow>
        base (colors (updateConfig partial prev)) = spread (base (colors prev)) (p_base pc)
        \<and> accent (colors (updateConfig partial prev))
            = spread (accent (colors prev)) (p_accent pc)
        \<and> glazing (colors (updateConfig partial prev))
            = spread (glazing (colors prev)) (p_glazing pc)
        \<and> balcony (colors (updateConfig partial prev))
            = spread (balcony (colors prev)) (p_balcony pc)
        \<and> roof (colors (updateConfig partial prev)) = spread (roof (colors prev)) (p_roof pc))
   \<and> spread old None = old
   \<and> spread old (Some new) = new
   \<and> edit_floors v prev = prev\<lparr>floors := v\<rparr>
   \<and> edit_accent a prev prev = prev\<lparr>colors := (colors prev)\<lparr>accent := a\<rparr>\<rparr>
   \<and> (updates (applyAiInference (st_aiPrompt st) (st_config st)) = no_updates \<longrightarrow>
        st_config (handleApplyAi st) = st_config st)
   \<and> (updates (applyAiInference (st_aiPrompt st) (st_config st)) \<noteq> no_updates \<longrightarrow>
        st_config (handleApplyAi st)
        = updateConfig
            ((updates (applyAiInference (st_aiPrompt st) (st_config st)))
               \<lparr>p_narrative :=
                  Some (narrative (st_config st) @ [CHR 0x0A, CHR 0x0A]
                        @ ''Prompt: '' @ trim (st_aiPrompt st))\<rparr>)
            (st_config st)
        \<and> st_config (handleApplyAi st)
          = (updateConfig (updates (applyAiInference (st_aiPrompt st) (st_config st)))
               (st_config st))
              \<lparr>narrative := narrative (st_config st) @ [CHR 0x0A, CHR 0x0A]
                            @ ''Prompt: '' @ trim (st_aiPrompt st)\<rparr>
        \<and> narrative (st_config (handleApplyAi st))
          = narrative (st_config st) @ [CHR 0x0A, CHR 0x0A] @ ''Prompt: '' @ trim (st_aiPrompt st)
        \<and> floors (st_config (handleApplyAi st))
          = spread (floors (st_config st))
              (p_floors (updates (applyAiInference (st_aiPrompt st) (st_config st))))
        \<and> facadePattern (st_config (handleApplyAi st))
          = spread (facadePattern (st_config st))
              (p_facadePattern (updates (applyAiInference (st_aiPrompt st) (st_config st))))
        \<and> colors (st_config (handleApplyAi st))
          = (case p_colors (updates (applyAiInference (st_aiPrompt st) (st_config st))) of
               None \<Rightarrow> colors (st_config st)
             | Some pc \<Rightarrow> spread_colors (colors (st_config st)) pc))"
proof -
  let ?inf = "applyAiInference (st_aiPrompt st) (st_config st)"
  have keep: "spread_colors p no_colors = p" for p
    by (rule Palette.equality) (simp_all add: spread_colors_def no_colors_def spread_def)
  have swap: "spread_colors p (all_colors q) = q" for p q
    by (rule Palette.equality) (simp_all add: spread_colors_def all_colors_def spread_def)
  have form1: "edit_floors v prev = prev\<lparr>floors := v\<rparr>"
    by (rule BuildingConfig.equality)
       (simp_all add: edit_floors_def updateConfig_def spread_def no_updates_def keep)
  have form2: "edit_accent a prev prev = prev\<lparr>colors := (colors prev)\<lparr>accent := a\<rparr>\<rparr>"
    by (rule BuildingConfig.equality)
       (simp_all add: edit_accent_def updateConfig_def spread_def no_updates_def swap)
  have none: "st_config (handleApplyAi st) = st_config st" if "updates ?inf = no_updates"
    using that by (simp add: handleApplyAi_def Let_def)
  have some: "st_config (handleApplyAi st)
        = updateConfig
            ((updates ?inf)
               \<lparr>p_narrative :=
                  Some (narrative (st_config st) @ [CHR 0x0A, CHR 0x0A]
                        @ ''Prompt: '' @ trim (st_aiPrompt st))\<rparr>)
            (st_config st)"
    if "updates ?inf \<noteq> no_updates"
    using that by (simp add: handleApplyAi_def Let_def)
  show ?thesis
  proof (intro conjI impI)
    show "edit_floors v prev = prev\<lparr>floors := v\<rparr>" by (rule form1)
    show "edit_accent a prev prev = prev\<lparr>colors := (colors prev)\<lparr>accent := a\<rparr>\<rparr>"
      by (rule form2)
  next
    assume "updates ?inf = no_updates"
    then show "st_config (handleApplyAi st) = st_config st" by (rule none)
  next
    assume a: "updates ?inf \<noteq> no_updates"
    show "st_config (handleApplyAi st)
        = updateConfig
            ((updates ?inf)
               \<lparr>p_narrative :=
                  Some (narrative (st_config st) @ [CHR 0x0A, CHR 0x0A]
                        @ ''Prompt: '' @ trim (st_aiPrompt st))\<rparr>)
            (st_config st)"
      by (rule some [OF a])
    show "st_config (handleApplyAi st)
          = (updateConfig (updates ?inf) (st_config st))
              \<lparr>narrative := narrative (st_config st) @ [CHR 0x0A, CHR 0x0A]
                            @ ''Prompt: '' @ trim (st_aiPrompt st)\<rparr>"
      unfolding some [OF a]
      by (rule BuildingConfig.equality) (simp_all add: updateConfig_def spread_def)
    show "narrative (st_config (handleApplyAi st))
          = narrative (st_config st) @ [CHR 0x0A, CHR 0x0A] @ ''Prompt: '' @ trim (st_aiPrompt st)"
      unfolding some [OF a] by (simp add: updateConfig_def spread_def)
    show "floors (st_config (handleApplyAi st))
          = spread (floors (st_config st)) (p_floors (updates ?inf))"
      unfolding some [OF a] by (simp add: updateConfig_def)
    show "facadePattern (st_config (handleApplyAi st))
          = spread (facadePattern (st_config st)) (p_facadePattern (updates ?inf))"
      unfolding some [OF a] by (simp add: updateConfig_def)
    show "colors (st_config (handleApplyAi st))
          = (case p_colors (updates ?inf) of
               None \<Rightarrow> colors (st_config st)
             | Some pc \<Rightarrow> spread_colors (colors (st_config st)) pc)"
      unfolding some [OF a]
      by (simp add: updateConfig_def spread_def keep split: option.splits)
  qed (simp_all add: updateConfig_def spread_def spread_colors_def no_colors_def)
qed

theorem updateConfig_merge_witness:
  "colors (updateConfig (no_updates\<lparr>p_colors := Some (no_colors\<lparr>p_accent := Some ''#000000''\<rparr>)\<rparr>)
             defaultConfig)
   = \<lparr> base = ''#4d5c6f'', accent = ''#000000'', glazing = ''#85c3ff'', balcony = ''#f2ede4'',
       roof = ''#37414f'' \<rparr>
   \<and> floors (updateConfig (no_updates\<lparr>p_colors := Some (no_colors\<lparr>p_accent := Some ''#000000''\<rparr>)\<rparr>)
               defaultConfig) = 18
   \<and> p_colors (no_updates\<lparr>p_floors := Some 24\<rparr>) = None
   \<and> colors (updateConfig (no_updates\<lparr>p_floors := Some 24\<rparr>) defaultConfig)
       = colors defaultConfig
   \<and> updates (applyAiInference ''   '' defaultConfig) = no_updates
   \<and> st_config (handleApplyAi \<lparr>st_config = defaultConfig, st_aiPrompt = ''   '',
                                 st_aiSummary = [], st_statusMessage = None\<rparr>)
       = defaultConfig
   \<and> updates (applyAiInference ''Brick and timber'' defaultConfig) \<noteq> no_updates
   \<and> st_config (handleApplyAi \<lparr>st_config = defaultConfig, st_aiPrompt = ''Brick and timber'',
                                 st_aiSummary = [], st_statusMessage = None\<rparr>)
       = defaultConfig
           \<lparr>narrative := narrative defaultConfig @ [CHR 0x0A, CHR 0x0A]
                         @ ''Prompt: Brick and timber'',
            facadePattern := Stacked,
            colors := (colors defaultConfig)
                        \<lparr>base := ''#884a39'', accent := ''#d46f4d'', glazing := ''#93c6ff''\<rparr>\<rparr>"
proof -
  let ?pc = "no_colors\<lparr>p_accent := Some ''#000000''\<rparr>"
  let ?p = "no_updates\<lparr>p_colors := Some ?pc\<rparr>"
  let ?q = "no_updates\<lparr>p_floors := Some 24\<rparr>"
  let ?blank = "\<lparr>st_config = defaultConfig, st_aiPrompt = ''   '',
                  st_aiSummary = [], st_statusMessage = None\<rparr>"
  let ?brick = "\<lparr>st_config = defaultConfig, st_aiPrompt = ''Brick and timber'',
                  st_aiSummary = [], st_statusMessage = None\<rparr>"
  have c: "p_colors ?p = Some ?pc" by simp
  from updateConfig_merge [where partial = ?p and prev = defaultConfig and pc = ?pc and old = "0::nat" and new = "0::nat" and v = 0 and a = "[]" and st = ?blank]
  have x: "p_colors ?p = Some ?pc \<longrightarrow>
        base (colors (updateConfig ?p defaultConfig))
          = spread (base (colors defaultConfig)) (p_base ?pc)
        \<and> accent (colors (updateConfig ?p defaultConfig))
            = spread (accent (colors defaultConfig)) (p_accent ?pc)
        \<and> glazing (colors (updateConfig ?p defaultConfig))
            = spread (glazing (colors defaultConfig)) (p_glazing ?pc)
        \<and> balcony (colors (updateConfig ?p defaultConfig))
            = spread (balcony (colors defaultConfig)) (p_balcony ?pc)
        \<and> roof (colors (updateConfig ?p defaultConfig))
            = spread (roof (colors defaultConfig)) (p_roof ?pc)"
    and y: "floors (updateConfig ?p defaultConfig)
            = spread (floors defaultConfig) (p_floors ?p)"
    by blast+
  have "colors (updateConfig ?p defaultConfig)
        = \<lparr> base = base (colors (updateConfig ?p defaultConfig)),
            accent = accent (colors (updateConfig ?p defaultConfig)),
            glazing = glazing (colors (updateConfig ?p defaultConfig)),
            balcony = balcony (colors (updateConfig ?p defaultConfig)),
            roof = roof (colors (updateConfig ?p defaultConfig)) \<rparr>"
    by simp
  with x y c have one: "colors (updateConfig ?p defaultConfig)
     = \<lparr> base = ''#4d5c6f'', accent = ''#000000'', glazing = ''#85c3ff'', balcony = ''#f2ede4'',
         roof = ''#37414f'' \<rparr>
     \<and> floors (updateConfig ?p defaultConfig) = 18"
    by (simp add: no_colors_def no_updates_def defaultConfig_def spread_def)
  have n: "p_colors ?q = None" by (simp add: no_updates_def)
  from updateConfig_merge [where partial = ?q and prev = defaultConfig and pc = ?pc and old = "0::nat" and new = "0::nat" and v = 0 and a = "[]" and st = ?blank]
  have "p_colors ?q = None \<longrightarrow>
          colors (updateConfig ?q defaultConfig) = colors defaultConfig"
    by blast
  with n have two: "colors (updateConfig ?q defaultConfig) = colors defaultConfig"
    by blast
  have e: "updates (applyAiInference ''   '' defaultConfig) = no_updates"
    by (simp add: updates_empty toLowerCase_def trim_def is_white_space_def)
  from updateConfig_merge [where partial = ?q and prev = defaultConfig and pc = ?pc and old = "0::nat" and new = "0::nat" and v = 0 and a = "[]" and st = ?blank]
  have "updates (applyAiInference (st_aiPrompt ?blank) (st_config ?blank)) = no_updates \<longrightarrow>
          st_config (handleApplyAi ?blank) = st_config ?blank"
    by blast
  with e have three: "st_config (handleApplyAi ?blank) = defaultConfig"
    by simp
  have u: "updates (applyAiInference ''Brick and timber'' defaultConfig)
           = no_updates
               \<lparr>p_facadePattern := Some Stacked,
                p_colors := Some (all_colors ((colors defaultConfig)
                   \<lparr>base := ''#884a39'', accent := ''#d46f4d'', glazing := ''#93c6ff''\<rparr>))\<rparr>"
    by (simp add: updates_all_blocks brick_normalized brick_blocks)
  have "p_facadePattern (updates (applyAiInference ''Brick and timber'' defaultConfig))
        \<noteq> p_facadePattern no_updates"
    unfolding u by (simp add: no_updates_def)
  then have d: "updates (applyAiInference ''Brick and timber'' defaultConfig) \<noteq> no_updates"
    by auto
  from updateConfig_merge [where partial = ?q and prev = defaultConfig and pc = ?pc and old = "0::nat" and new = "0::nat" and v = 0 and a = "[]" and st = ?brick]
  have "updates (applyAiInference (st_aiPrompt ?brick) (st_config ?brick)) \<noteq> no_updates \<longrightarrow>
        st_config (handleApplyAi ?brick)
        = updateConfig
            ((updates (applyAiInference (st_aiPrompt ?brick) (st_config ?brick)))
               \<lparr>p_narrative :=
                  Some (narrative (st_config ?brick) @ [CHR 0x0A, CHR 0x0A]
                        @ ''Prompt: '' @ trim (st_aiPrompt ?brick))\<rparr>)
            (st_config ?brick)"
    by blast
  with d have "st_config (handleApplyAi ?brick)
        = updateConfig
            ((updates (applyAiInference ''Brick and timber'' defaultConfig))
               \<lparr>p_narrative :=
                  Some (narrative defaultConfig @ [CHR 0x0A, CHR 0x0A]
                        @ ''Prompt: '' @ trim ''Brick and timber'')\<rparr>)
            defaultConfig"
    by simp
  then have four: "st_config (handleApplyAi ?brick)
       = defaultConfig
           \<lparr>narrative := narrative defaultConfig @ [CHR 0x0A, CHR 0x0A]
                         @ ''Prompt: Brick and timber'',
            facadePattern := Stacked,
            colors := (colors defaultConfig)
                        \<lparr>base := ''#884a39'', accent := ''#d46f4d'', glazing := ''#93c6ff''\<rparr>\<rparr>"
    unfolding u
    by (simp add: updateConfig_def spread_def spread_colors_def all_colors_def no_updates_def
        trim_def is_white_space_def defaultConfig_def)
  from one n two e three d four show ?thesis
    by (intro conjI) blast+
qed

end
